theory Spec2Isabelle
  imports Complex_Main "HOL-Library.Multiset" "HOL-Library.Sublist"
begin

section \<open>The fmrisim multivariate example notebook\<close>

text \<open>
  The repository is one Jupyter notebook,
  \<^verbatim>\<open>examples/utils/fmrisim_multivariate_example.ipynb\<close>. Its code cells, run top to
  bottom, form a straight-line Python script with one \<^verbatim>\<open>if\<close> and one \<^verbatim>\<open>for\<close>. The
  script calls into nibabel, brainiak's fmrisim, numpy, scipy, scikit-learn and
  matplotlib; none of these is part of the notebook. The embedding below therefore has two
  layers:

  \<^item> the Python that the notebook itself executes (tuple and dictionary indexing, slices,
    integer and float arithmetic, \<^verbatim>\<open>int()\<close>, \<^verbatim>\<open>range\<close>, list repetition, the branch on
    \<^verbatim>\<open>tr\<close>, the per-voxel loop) is written out as HOL functions that raise where Python
    raises;
  \<^item> every call into a library is a call of a parameter \<open>L\<close>, the library, which may
    return a value or raise, may change the outside world, and is recorded in a log.

  The handful of numpy operations whose result the notebook's own code inspects
  (\<^verbatim>\<open>.shape\<close>, \<^verbatim>\<open>.sum()\<close>, \<^verbatim>\<open>np.where\<close>, \<^verbatim>\<open>np.zeros\<close>, \<^verbatim>\<open>np.linspace\<close>, element access and
  one-dimensional slicing) are given their documented numpy behaviour on a small array
  model (shape and row-major data). Floats are idealised as reals, extended by the three
  non-finite values; rounding is not modelled.
\<close>

subsection \<open>Python values and exceptions\<close>

datatype exn =
    IndexError
  | KeyError
  | TypeError
  | ValueError
  | AttributeError
  | ZeroDivisionError
  | OverflowError
  | LibraryError string

datatype val =
    VNone
  | VBool bool
  | VInt int
  | VFloat real
  | VInf
  | VNegInf
  | VNan
  | VStr string
  | VTuple "val list"
  | VList "val list"
  | VDict "(string \<times> val) list"
  | VSlice val val val
  | VArr "nat list" "real list"
  | VIArr "nat list" "int list"
  | VRef string
  | VObj nat

text \<open>
  \<open>VArr shape data\<close> is a float ndarray and \<open>VIArr shape data\<close> an integer ndarray, both
  with their elements in row-major (C) order. \<open>VRef\<close> names a library object that the
  notebook only passes on (\<^verbatim>\<open>plt.cm.gray\<close>); \<open>VObj\<close> is an opaque object a library call
  returned (an image, a header, a fitted model).
\<close>

text \<open>Sequencing of computations that may raise: the first exception wins.\<close>

definition ebind :: "exn + 'a \<Rightarrow> ('a \<Rightarrow> exn + 'b) \<Rightarrow> exn + 'b" where
  "ebind r k = (case r of Inl e \<Rightarrow> Inl e | Inr x \<Rightarrow> k x)"

subsection \<open>Python built-in operations used by the notebook\<close>

text \<open>\<^verbatim>\<open>xs[i]\<close> on a sequence of length \<open>n\<close>: a negative index counts from the end.\<close>

definition seq_index :: "'a list \<Rightarrow> int \<Rightarrow> exn + 'a" where
  "seq_index xs i =
     (if i < - int (length xs) \<or> int (length xs) \<le> i then Inl IndexError
      else Inr (xs ! nat (if i < 0 then i + int (length xs) else i)))"

text \<open>\<^verbatim>\<open>t[i]\<close> where the notebook expects a tuple or a list.\<close>

fun py_index :: "val \<Rightarrow> int \<Rightarrow> exn + val" where
  "py_index (VTuple xs) i = seq_index xs i"
| "py_index (VList xs) i = seq_index xs i"
| "py_index _ _ = Inl TypeError"

text \<open>
  \<^verbatim>\<open>xs[lo:hi]\<close> with step 1. Python clamps the bounds to the sequence, so a slice never
  raises; a missing bound is \<open>None\<close>.
\<close>

definition slice_bound :: "nat \<Rightarrow> int \<Rightarrow> nat" where
  "slice_bound n i = (if i < 0 then nat (max 0 (int n + i)) else min n (nat i))"

definition seq_slice :: "'a list \<Rightarrow> int option \<Rightarrow> int option \<Rightarrow> 'a list" where
  "seq_slice xs lo hi =
     (let n = length xs;
          a = (case lo of None \<Rightarrow> 0 | Some i \<Rightarrow> slice_bound n i);
          b = (case hi of None \<Rightarrow> n | Some i \<Rightarrow> slice_bound n i)
      in take (b - a) (drop a xs))"

fun py_slice :: "val \<Rightarrow> int option \<Rightarrow> int option \<Rightarrow> exn + val" where
  "py_slice (VTuple xs) lo hi = Inr (VTuple (seq_slice xs lo hi))"
| "py_slice (VList xs) lo hi = Inr (VList (seq_slice xs lo hi))"
| "py_slice (VStr cs) lo hi = Inr (VStr (seq_slice cs lo hi))"
| "py_slice (VArr [n] d) lo hi =
     (let d' = seq_slice d lo hi in Inr (VArr [length d'] d'))"
| "py_slice _ _ _ = Inl TypeError"

text \<open>\<^verbatim>\<open>d[key]\<close> on a dictionary.\<close>

fun py_getitem_str :: "val \<Rightarrow> string \<Rightarrow> exn + val" where
  "py_getitem_str (VDict kvs) k =
     (case map_of kvs k of None \<Rightarrow> Inl KeyError | Some v \<Rightarrow> Inr v)"
| "py_getitem_str _ _ = Inl TypeError"

text \<open>\<^verbatim>\<open>int(x)\<close> truncates a float towards zero and rejects the non-finite floats.\<close>

definition trunc :: "real \<Rightarrow> int" where
  "trunc r = (if 0 \<le> r then \<lfloor>r\<rfloor> else \<lceil>r\<rceil>)"

fun py_int :: "val \<Rightarrow> exn + int" where
  "py_int (VInt i) = Inr i"
| "py_int (VBool b) = Inr (if b then 1 else 0)"
| "py_int (VFloat r) = Inr (trunc r)"
| "py_int VInf = Inl OverflowError"
| "py_int VNegInf = Inl OverflowError"
| "py_int VNan = Inl ValueError"
| "py_int _ = Inl TypeError"

text \<open>
  \<^verbatim>\<open>x > c\<close> for a number \<open>x\<close> and an integer literal \<open>c\<close>; comparisons with \<open>nan\<close> are
  false.
\<close>

fun py_gt :: "val \<Rightarrow> int \<Rightarrow> exn + bool" where
  "py_gt (VInt i) c = Inr (i > c)"
| "py_gt (VFloat r) c = Inr (r > of_int c)"
| "py_gt VInf c = Inr True"
| "py_gt VNegInf c = Inr False"
| "py_gt VNan c = Inr False"
| "py_gt _ _ = Inl TypeError"

text \<open>
  The numbers among the values: Python ints, finite floats and the three non-finite
  floats.
\<close>

datatype num = NInt int | NFloat real | NInf | NNegInf | NNan

fun num_of :: "val \<Rightarrow> num option" where
  "num_of (VInt i) = Some (NInt i)"
| "num_of (VFloat r) = Some (NFloat r)"
| "num_of VInf = Some NInf"
| "num_of VNegInf = Some NNegInf"
| "num_of VNan = Some NNan"
| "num_of _ = None"

fun val_of :: "num \<Rightarrow> val" where
  "val_of (NInt i) = VInt i"
| "val_of (NFloat r) = VFloat r"
| "val_of NInf = VInf"
| "val_of NNegInf = VNegInf"
| "val_of NNan = VNan"

text \<open>
  \<^verbatim>\<open>a / b\<close> (true division). Dividing by a Python int zero raises; dividing a float by
  a float zero, as numpy scalars do, gives a non-finite value instead.
\<close>

definition div_zero :: "real \<Rightarrow> num" where
  "div_zero a = (if a = 0 then NNan else if 0 < a then NInf else NNegInf)"

fun num_truediv :: "num \<Rightarrow> num \<Rightarrow> exn + num" where
  "num_truediv (NInt a) (NInt b) =
     (if b = 0 then Inl ZeroDivisionError else Inr (NFloat (of_int a / of_int b)))"
| "num_truediv (NFloat a) (NInt b) =
     (if b = 0 then Inl ZeroDivisionError else Inr (NFloat (a / of_int b)))"
| "num_truediv (NInt a) (NFloat b) =
     (if b = 0 then Inr (div_zero (of_int a)) else Inr (NFloat (of_int a / b)))"
| "num_truediv (NFloat a) (NFloat b) =
     (if b = 0 then Inr (div_zero a) else Inr (NFloat (a / b)))"
| "num_truediv NInf (NInt b) =
     (if b = 0 then Inl ZeroDivisionError else Inr (if 0 < b then NInf else NNegInf))"
| "num_truediv NNegInf (NInt b) =
     (if b = 0 then Inl ZeroDivisionError else Inr (if 0 < b then NNegInf else NInf))"
| "num_truediv NInf (NFloat b) = Inr (if 0 \<le> b then NInf else NNegInf)"
| "num_truediv NNegInf (NFloat b) = Inr (if 0 \<le> b then NNegInf else NInf)"
| "num_truediv (NInt a) NInf = Inr (NFloat 0)"
| "num_truediv (NInt a) NNegInf = Inr (NFloat 0)"
| "num_truediv (NFloat a) NInf = Inr (NFloat 0)"
| "num_truediv (NFloat a) NNegInf = Inr (NFloat 0)"
| "num_truediv NNan (NInt b) = (if b = 0 then Inl ZeroDivisionError else Inr NNan)"
| "num_truediv _ _ = Inr NNan"

definition py_truediv :: "val \<Rightarrow> val \<Rightarrow> exn + val" where
  "py_truediv a b =
     (case (num_of a, num_of b) of
        (Some x, Some y) \<Rightarrow> ebind (num_truediv x y) (\<lambda>q. Inr (val_of q))
      | _ \<Rightarrow> Inl TypeError)"

text \<open>\<^verbatim>\<open>a * b\<close> for a Python int \<open>a\<close> and a number \<open>b\<close>.\<close>

fun num_mul_int :: "int \<Rightarrow> num \<Rightarrow> num" where
  "num_mul_int a (NInt b) = NInt (a * b)"
| "num_mul_int a (NFloat b) = NFloat (of_int a * b)"
| "num_mul_int a NInf = (if a = 0 then NNan else if 0 < a then NInf else NNegInf)"
| "num_mul_int a NNegInf = (if a = 0 then NNan else if 0 < a then NNegInf else NInf)"
| "num_mul_int a NNan = NNan"

definition py_mul_int :: "int \<Rightarrow> val \<Rightarrow> exn + val" where
  "py_mul_int a b =
     (case num_of b of Some y \<Rightarrow> Inr (val_of (num_mul_int a y)) | None \<Rightarrow> Inl TypeError)"

definition py_mul :: "val \<Rightarrow> val \<Rightarrow> exn + val" where
  "py_mul a b = (case a of VInt i \<Rightarrow> py_mul_int i b | _ \<Rightarrow> Inl TypeError)"

text \<open>\<^verbatim>\<open>a + b\<close> on strings.\<close>

definition str_add :: "val \<Rightarrow> val \<Rightarrow> exn + val" where
  "str_add a b =
     (case a of
        VStr x \<Rightarrow> (case b of VStr y \<Rightarrow> Inr (VStr (x @ y)) | _ \<Rightarrow> Inl TypeError)
      | _ \<Rightarrow> Inl TypeError)"

text \<open>\<^verbatim>\<open>range(start, stop, step)\<close> as a list.\<close>

definition py_range :: "int \<Rightarrow> int \<Rightarrow> int \<Rightarrow> exn + int list" where
  "py_range start stop step =
     (if step = 0 then Inl ValueError
      else if 0 < step
        then Inr (map (\<lambda>i. start + int i * step)
                   [0 ..< nat ((stop - start + step - 1) div step)])
        else Inr (map (\<lambda>i. start + int i * step)
                   [0 ..< nat ((start - stop - step - 1) div (- step))]))"

subsection \<open>The numpy operations the notebook's own code looks into\<close>

text \<open>\<^verbatim>\<open>a.shape\<close>.\<close>

fun nd_shape :: "val \<Rightarrow> exn + val" where
  "nd_shape (VArr sh d) = Inr (VTuple (map (\<lambda>n. VInt (int n)) sh))"
| "nd_shape (VIArr sh d) = Inr (VTuple (map (\<lambda>n. VInt (int n)) sh))"
| "nd_shape _ = Inl AttributeError"

text \<open>\<^verbatim>\<open>a.sum()\<close>.\<close>

fun nd_sum :: "val \<Rightarrow> exn + val" where
  "nd_sum (VArr sh d) = Inr (VFloat (sum_list d))"
| "nd_sum (VIArr sh d) = Inr (VInt (sum_list d))"
| "nd_sum _ = Inl AttributeError"

text \<open>
  The coordinates of the element at row-major position \<open>p\<close> of an array of shape \<open>sh\<close>,
  and the position of the element at given coordinates. An integer index may be
  negative (it then counts from the end of its axis) and raises when out of range;
  too many or too few indices raise as well: the notebook reads single elements only,
  and the sub-array that numpy returns for fewer indices than axes is not modelled.
\<close>

fun unravel :: "nat list \<Rightarrow> nat \<Rightarrow> nat list" where
  "unravel [] p = []"
| "unravel (n # sh) p = (p div prod_list sh) mod n # unravel sh (p mod prod_list sh)"

fun ravel :: "nat list \<Rightarrow> int list \<Rightarrow> exn + nat" where
  "ravel [] [] = Inr 0"
| "ravel (n # sh) (i # is) =
     (let j = (if i < 0 then int n + i else i)
      in if 0 \<le> j \<and> j < int n
         then ebind (ravel sh is) (\<lambda>p. Inr (nat j * prod_list sh + p))
         else Inl IndexError)"
| "ravel _ _ = Inl IndexError"

text \<open>
  \<^verbatim>\<open>a[i]\<close>, \<^verbatim>\<open>a[x, y, z]\<close>: reading one element. The indices are values; numpy accepts
  integers only here.
\<close>

fun as_index :: "val \<Rightarrow> exn + int" where
  "as_index (VInt i) = Inr i"
| "as_index _ = Inl IndexError"

fun collect :: "(exn + 'a) list \<Rightarrow> exn + 'a list" where
  "collect [] = Inr []"
| "collect (r # rs) = ebind r (\<lambda>x. ebind (collect rs) (\<lambda>xs. Inr (x # xs)))"

fun nd_item :: "val \<Rightarrow> val list \<Rightarrow> exn + val" where
  "nd_item (VArr sh d) is =
     ebind (collect (map as_index is)) (\<lambda>js. ebind (ravel sh js) (\<lambda>p. Inr (VFloat (d ! p))))"
| "nd_item (VIArr sh d) is =
     ebind (collect (map as_index is)) (\<lambda>js. ebind (ravel sh js) (\<lambda>p. Inr (VInt (d ! p))))"
| "nd_item _ _ = Inl TypeError"

text \<open>
  \<^verbatim>\<open>np.where(a == c)\<close>: one integer index array per axis, listing the coordinates of the
  elements equal to \<open>c\<close> in row-major order.
\<close>

definition hits :: "real list \<Rightarrow> real \<Rightarrow> nat list" where
  "hits d c = filter (\<lambda>p. d ! p = c) [0 ..< length d]"

definition index_arrays :: "nat list \<Rightarrow> nat list \<Rightarrow> val" where
  "index_arrays sh ps =
     VTuple (map (\<lambda>k. VIArr [length ps] (map (\<lambda>p. int (unravel sh p ! k)) ps))
               [0 ..< length sh])"

fun np_where_eq :: "val \<Rightarrow> real \<Rightarrow> exn + val" where
  "np_where_eq (VArr sh d) c = Inr (index_arrays sh (hits d c))"
| "np_where_eq _ _ = Inl TypeError"

text \<open>\<^verbatim>\<open>np.zeros((n, m))\<close>: negative dimensions are rejected.\<close>

definition np_zeros :: "int list \<Rightarrow> exn + val" where
  "np_zeros sh =
     (if \<exists>n \<in> set sh. n < 0 then Inl ValueError
      else Inr (VArr (map nat sh) (replicate (prod_list (map nat sh)) 0)))"

text \<open>
  \<^verbatim>\<open>a[i] = v\<close> on an array with at least one axis: every element of the \<open>i\<close>-th
  sub-array along the first axis becomes \<open>v\<close>.
\<close>

fun as_real :: "val \<Rightarrow> real option" where
  "as_real (VFloat x) = Some x"
| "as_real (VInt i) = Some (of_int i)"
| "as_real _ = None"

definition nd_setrow :: "val \<Rightarrow> int \<Rightarrow> val \<Rightarrow> exn + val" where
  "nd_setrow a i v =
     (case a of
        VArr sh d \<Rightarrow>
          (case as_real v of
             Some x \<Rightarrow>
               (case sh of
                  [] \<Rightarrow> Inl IndexError
                | n # sh' \<Rightarrow>
                    (let j = (if i < 0 then int n + i else i); m = prod_list sh'
                     in if 0 \<le> j \<and> j < int n
                        then Inr (VArr sh
                               (take (nat j * m) d @ replicate m x @ drop (nat j * m + m) d))
                        else Inl IndexError))
           | None \<Rightarrow> Inl TypeError)
      | _ \<Rightarrow> Inl TypeError)"

text \<open>\<^verbatim>\<open>np.linspace(start, stop, num)\<close> with the end point included.\<close>

definition np_linspace :: "real \<Rightarrow> real \<Rightarrow> int \<Rightarrow> exn + val" where
  "np_linspace start stop num =
     (if num < 0 then Inl ValueError
      else if num = 1 then Inr (VArr [1] [start])
      else Inr (VArr [nat num]
             (map (\<lambda>i. start + real i * ((stop - start) / real_of_int (num - 1)))
                [0 ..< nat num])))"

subsection \<open>Establishing the effect size (notebook section 2.2)\<close>

text \<open>
  \<^verbatim>\<open>
  effect_size = 1
  temporal_sd = template * noise_dict['max_activity'] / noise_dict['sfnr']
  signal_idxs = np.where(signal_volume == 1)
  signal_change = np.zeros((int(signal_volume.sum()), 1))
  for idx_counter in list(range(0, int(signal_volume.sum()))):
      x = signal_idxs[0][idx_counter]
      y = signal_idxs[1][idx_counter]
      z = signal_idxs[2][idx_counter]
      signal_change[idx_counter] = effect_size * temporal_sd[x, y, z]
  \<close>
  The loop body and the loop over the list \<^verbatim>\<open>list(range(0, n))\<close>; the assignment into
  \<^verbatim>\<open>signal_change\<close> returns the updated array.
\<close>

definition effect_size :: int where
  "effect_size = 1"

fun voxel_loop :: "val \<Rightarrow> val \<Rightarrow> int list \<Rightarrow> val \<Rightarrow> exn + val" where
  "voxel_loop signal_idxs temporal_sd [] signal_change = Inr signal_change"
| "voxel_loop signal_idxs temporal_sd (idx_counter # rest) signal_change =
     ebind (py_index signal_idxs 0) (\<lambda>i0. ebind (nd_item i0 [VInt idx_counter]) (\<lambda>x.
     ebind (py_index signal_idxs 1) (\<lambda>i1. ebind (nd_item i1 [VInt idx_counter]) (\<lambda>y.
     ebind (py_index signal_idxs 2) (\<lambda>i2. ebind (nd_item i2 [VInt idx_counter]) (\<lambda>z.
     ebind (nd_item temporal_sd [x, y, z]) (\<lambda>t.
     ebind (py_mul_int effect_size t) (\<lambda>v.
     ebind (nd_setrow signal_change idx_counter v) (\<lambda>signal_change'.
     voxel_loop signal_idxs temporal_sd rest signal_change')))))))))"

text \<open>The last three statements of the cell, from the signal volume and \<^verbatim>\<open>temporal_sd\<close>.\<close>

definition signal_change_of :: "val \<Rightarrow> val \<Rightarrow> exn + val" where
  "signal_change_of signal_volume temporal_sd =
     ebind (np_where_eq signal_volume 1) (\<lambda>signal_idxs.
     ebind (nd_sum signal_volume) (\<lambda>s. ebind (py_int s) (\<lambda>n.
     ebind (np_zeros [n, 1]) (\<lambda>signal_change.
     ebind (nd_sum signal_volume) (\<lambda>s'. ebind (py_int s') (\<lambda>n'.
     ebind (py_range 0 n' 1) (\<lambda>counters.
     voxel_loop signal_idxs temporal_sd counters signal_change)))))))"

text \<open>
  The vectorised gather the loop is compared with,
  \<^verbatim>\<open>effect_size * temporal_sd[signal_idxs]\<close>: numpy reads \<^verbatim>\<open>temporal_sd\<close> at the
  coordinates listed by the three index arrays, in their order, and raises
  \<^verbatim>\<open>IndexError\<close> when a coordinate is out of range.
\<close>

definition vector_gather :: "val \<Rightarrow> val \<Rightarrow> exn + real list" where
  "vector_gather signal_volume temporal_sd =
     (case (signal_volume, temporal_sd) of
        (VArr sh d, VArr sh' d') \<Rightarrow>
          collect (map (\<lambda>p. ebind (ravel sh' (map int (unravel sh p)))
                              (\<lambda>q. Inr (real_of_int effect_size * d' ! q)))
                     (hits d 1))
      | _ \<Rightarrow> Inl TypeError)"

subsection \<open>Library calls, the log and the outside world\<close>

text \<open>
  A call passes positional arguments (\<open>P\<close>) and keyword arguments (\<open>K\<close>) in the order
  in which the notebook writes them. The library is a parameter: given the name of the
  function, the arguments and the outside world (file system, random generator, figures,
  standard output), it returns a value or raises, and leaves a new world. A method call
  \<^verbatim>\<open>x.m(a)\<close> is the call of \<^verbatim>\<open>.m\<close> with \<open>x\<close> as first argument, reading an attribute
  of a library object likewise, and an operator applied to arrays is the call of that
  operator (\<^verbatim>\<open>+\<close>, \<^verbatim>\<open>*\<close>, \<^verbatim>\<open>[]\<close>): numpy, not the notebook, does the arithmetic.
  The built-ins \<^verbatim>\<open>str\<close>, \<^verbatim>\<open>print\<close> and \<^verbatim>\<open>abs\<close> are calls too.

  Every call is appended to the log with its outcome, so the log of a run is the sequence
  of library calls the run made.
\<close>

datatype arg = P val | K string val

type_synonym entry = "string \<times> arg list \<times> (exn + val)"

type_synonym 'w library = "string \<Rightarrow> arg list \<Rightarrow> 'w \<Rightarrow> (exn + val) \<times> 'w"

record 'w state =
  log :: "entry list"
  world :: 'w

type_synonym ('w, 'a) prog = "'w state \<Rightarrow> (exn + 'a) \<times> 'w state"

text \<open>A step of the notebook's own Python: it touches neither the log nor the world.\<close>

definition own :: "exn + 'a \<Rightarrow> ('w, 'a) prog" where
  "own r s = (r, s)"

definition call :: "'w library \<Rightarrow> string \<Rightarrow> arg list \<Rightarrow> ('w, val) prog" where
  "call L f args s =
     (case L f args (world s) of
        (r, w') \<Rightarrow> (r, \<lparr>log = log s @ [(f, args, r)], world = w'\<rparr>))"

text \<open>
  One statement after another. The notebook has no \<^verbatim>\<open>try\<close>: an exception ends the
  run, and the statements after it are not executed.
\<close>

definition pbind :: "('w, 'a) prog \<Rightarrow> ('a \<Rightarrow> ('w, 'b) prog) \<Rightarrow> ('w, 'b) prog" where
  "pbind m k s = (case m s of (Inl e, s') \<Rightarrow> (Inl e, s') | (Inr x, s') \<Rightarrow> k x s')"

subsection \<open>The notebook's own computations\<close>

text \<open>The parameters the notebook sets to literals.\<close>

definition feature_size :: int where
  "feature_size = 3"

definition voxels :: int where
  "voxels = feature_size ^ 3"

definition event_duration :: int where
  "event_duration = 2"

definition isi :: int where
  "isi = 3"

definition burn_in :: int where
  "burn_in = 3"

definition temporal_res :: real where
  "temporal_res = 1"

definition hrf_lag :: int where
  "hrf_lag = 4"

text \<open>
  \<^verbatim>\<open>
  tr = dimsize[3]
  if tr > 100:  # If high then these values are likely in ms
      tr /= 1000
  \<close>
\<close>

definition repetition_time :: "val \<Rightarrow> exn + val" where
  "repetition_time dimsize =
     ebind (py_index dimsize 3) (\<lambda>tr.
     ebind (py_gt tr 100) (\<lambda>high.
     if high then py_truediv tr (VInt 1000) else Inr tr))"

text \<open>Unpacking \<^verbatim>\<open>a, b = r\<close> and \<^verbatim>\<open>a, b, c, d = r\<close>.\<close>

fun items :: "val \<Rightarrow> exn + val list" where
  "items (VTuple xs) = Inr xs"
| "items (VList xs) = Inr xs"
| "items _ = Inl TypeError"

definition unpack2 :: "val \<Rightarrow> exn + val \<times> val" where
  "unpack2 r =
     ebind (items r) (\<lambda>xs. case xs of [a, b] \<Rightarrow> Inr (a, b) | _ \<Rightarrow> Inl ValueError)"

definition unpack4 :: "val \<Rightarrow> exn + val \<times> val \<times> val \<times> val" where
  "unpack4 r =
     ebind (items r)
       (\<lambda>xs. case xs of [a, b, c, d] \<Rightarrow> Inr (a, b, c, d) | _ \<Rightarrow> Inl ValueError)"

text \<open>
  Section 2.4, the event time course:
  \<^verbatim>\<open>
  event_duration = 2
  isi = 3
  burn_in = 3
  total_time = int(dim[3] * tr) + burn_in
  events = int((total_time - ((event_duration + isi) * 2))  / ((event_duration + isi) * 2)) * 2
  onsets_all = np.linspace(burn_in, events * (event_duration + isi), events)
  np.random.shuffle(onsets_all)
  onsets_A = onsets_all[:int(events / 2)]
  onsets_B = onsets_all[int(events / 2):]
  temporal_res = 1.0 # How many timepoints per second of the stim function are to be generated?
  stimfunc_A = fmrisim.generate_stimfunction(onsets=onsets_A,
                                             event_durations=[event_duration],
                                             total_time=total_time,
                                             temporal_resolution=temporal_res,
                                             )
  stimfunc_B = fmrisim.generate_stimfunction(onsets=onsets_B,
                                             event_durations=[event_duration],
                                             total_time=total_time,
                                             temporal_resolution=temporal_res,
                                             )
  \<close>
  The arithmetic of the cell, statement by statement.
\<close>

definition total_time_of :: "val \<Rightarrow> val \<Rightarrow> exn + int" where
  "total_time_of dim' tr =
     ebind (py_index dim' 3) (\<lambda>volumes.
     ebind (py_mul volumes tr) (\<lambda>seconds.
     ebind (py_int seconds) (\<lambda>n. Inr (n + burn_in))))"

definition events_of :: "int \<Rightarrow> int" where
  "events_of total_time =
     trunc (real_of_int (total_time - (event_duration + isi) * 2)
              / real_of_int ((event_duration + isi) * 2)) * 2"

definition onsets_all_of :: "int \<Rightarrow> exn + val" where
  "onsets_all_of events =
     np_linspace (real_of_int burn_in) (real_of_int (events * (event_duration + isi))) events"

definition onsets_A_of :: "int \<Rightarrow> val \<Rightarrow> exn + val" where
  "onsets_A_of events onsets_all =
     py_slice onsets_all None (Some (trunc (real_of_int events / 2)))"

definition onsets_B_of :: "int \<Rightarrow> val \<Rightarrow> exn + val" where
  "onsets_B_of events onsets_all =
     py_slice onsets_all (Some (trunc (real_of_int events / 2))) None"

text \<open>
  \<^verbatim>\<open>n * [x]\<close>, and the two lists built from the numbers of trials:
  \<^verbatim>\<open>['red'] * trials_A.shape[1] + ['green'] * trials_B.shape[1]\<close> and
  \<^verbatim>\<open>trials_A.shape[1] * [1] + trials_B.shape[1] * [0]\<close>.
\<close>

definition list_repeat :: "val \<Rightarrow> val \<Rightarrow> exn + val list" where
  "list_repeat n x = (case n of VInt k \<Rightarrow> Inr (replicate (nat k) x) | _ \<Rightarrow> Inl TypeError)"

definition per_trial :: "val \<Rightarrow> val \<Rightarrow> val \<Rightarrow> val \<Rightarrow> exn + val" where
  "per_trial trials_A a trials_B b =
     ebind (nd_shape trials_A) (\<lambda>shape_A.
     ebind (py_index shape_A 1) (\<lambda>n_A.
     ebind (list_repeat n_A a) (\<lambda>as.
     ebind (nd_shape trials_B) (\<lambda>shape_B.
     ebind (py_index shape_B 1) (\<lambda>n_B.
     ebind (list_repeat n_B b) (\<lambda>bs.
     Inr (VList (as @ bs))))))))"

definition colours_of :: "val \<Rightarrow> val \<Rightarrow> exn + val" where
  "colours_of trials_A trials_B = per_trial trials_A (VStr ''red'') trials_B (VStr ''green'')"

definition input_labels_of :: "val \<Rightarrow> val \<Rightarrow> exn + val" where
  "input_labels_of trials_A trials_B = per_trial trials_A (VInt 1) trials_B (VInt 0)"

subsection \<open>The cells\<close>

text \<open>
  Section 1.2, load participant data:
  \<^verbatim>\<open>
  home = str(Path.home())
  nii = nibabel.load(home + '/Corr_MVPA/Participant_01_rest_run01.nii')
  volume = nii.get_data()
  \<close>
\<close>

definition load_participant_data :: "'w library \<Rightarrow> ('w, val \<times> val \<times> val) prog" where
  "load_participant_data L =
     pbind (call L ''Path.home'' []) (\<lambda>p.
     pbind (call L ''str'' [P p]) (\<lambda>home.
     pbind (own (str_add home (VStr ''/Corr_MVPA/Participant_01_rest_run01.nii''))) (\<lambda>path.
     pbind (call L ''nibabel.load'' [P path]) (\<lambda>nii.
     pbind (call L ''.get_data'' [P nii]) (\<lambda>volume.
     own (Inr (home, nii, volume)))))))"

text \<open>
  Section 1.2, participant dimensions and resolution:
  \<^verbatim>\<open>
  dim = volume.shape
  dimsize = nii.header.get_zooms()
  tr = dimsize[3]
  if tr > 100:  # If high then these values are likely in ms
      tr /= 1000
  print(dim)
  \<close>
\<close>

definition participant_dimensions :: "'w library \<Rightarrow> val \<Rightarrow> val \<Rightarrow> ('w, val \<times> val \<times> val) prog" where
  "participant_dimensions L nii volume =
     pbind (own (nd_shape volume)) (\<lambda>dim'.
     pbind (call L ''.header'' [P nii]) (\<lambda>header.
     pbind (call L ''.get_zooms'' [P header]) (\<lambda>dimsize.
     pbind (own (repetition_time dimsize)) (\<lambda>tr.
     pbind (call L ''print'' [P dim']) (\<lambda>_.
     own (Inr (dim', dimsize, tr)))))))"

text \<open>
  Section 1.3, the activity template and the mask:
  \<^verbatim>\<open>
  mask, template = fmrisim.mask_brain(volume=volume,
                                       mask_self=True,
                                       )
  \<close>
\<close>

definition template_and_mask :: "'w library \<Rightarrow> val \<Rightarrow> ('w, val \<times> val) prog" where
  "template_and_mask L volume =
     pbind (call L ''fmrisim.mask_brain'' [K ''volume'' volume, K ''mask_self'' (VBool True)]) (\<lambda>r.
     own (unpack2 r))"

text \<open>
  Section 1.4, the noise parameters:
  \<^verbatim>\<open>
  noise_dict = {'voxel_size': [dimsize[0], dimsize[1], dimsize[2]]}
  noise_dict = fmrisim.calc_noise(volume=volume,
                                  mask=mask,
                                  noise_dict=noise_dict,
                                  )
  \<close>
\<close>

definition noise_parameters :: "'w library \<Rightarrow> val \<Rightarrow> val \<Rightarrow> val \<Rightarrow> ('w, val) prog" where
  "noise_parameters L volume mask' dimsize =
     pbind (own (py_index dimsize 0)) (\<lambda>x.
     pbind (own (py_index dimsize 1)) (\<lambda>y.
     pbind (own (py_index dimsize 2)) (\<lambda>z.
     call L ''fmrisim.calc_noise'' [K ''volume'' volume, K ''mask'' mask', K ''noise_dict'' (VDict [(''voxel_size'', VList [x, y, z])])])))"

text \<open>
  \<^verbatim>\<open>
  print('Noise parameters of the data were estimated as follows:')
  print('SNR: ' + str(noise_dict['snr']))
  print('SFNR: ' + str(noise_dict['sfnr']))
  print('FWHM: ' + str(noise_dict['fwhm']))
  \<close>
\<close>

definition print_noise_parameters :: "'w library \<Rightarrow> val \<Rightarrow> ('w, val) prog" where
  "print_noise_parameters L noise_dict =
     pbind (call L ''print'' [P (VStr ''Noise parameters of the data were estimated as follows:'')]) (\<lambda>_.
     pbind (own (py_getitem_str noise_dict ''snr'')) (\<lambda>snr.
     pbind (call L ''str'' [P snr]) (\<lambda>s_snr.
     pbind (own (str_add (VStr ''SNR: '') s_snr)) (\<lambda>m_snr.
     pbind (call L ''print'' [P m_snr]) (\<lambda>_.
     pbind (own (py_getitem_str noise_dict ''sfnr'')) (\<lambda>sfnr.
     pbind (call L ''str'' [P sfnr]) (\<lambda>s_sfnr.
     pbind (own (str_add (VStr ''SFNR: '') s_sfnr)) (\<lambda>m_sfnr.
     pbind (call L ''print'' [P m_sfnr]) (\<lambda>_.
     pbind (own (py_getitem_str noise_dict ''fwhm'')) (\<lambda>fwhm.
     pbind (call L ''str'' [P fwhm]) (\<lambda>s_fwhm.
     pbind (own (str_add (VStr ''FWHM: '') s_fwhm)) (\<lambda>m_fwhm.
     call L ''print'' [P m_fwhm]))))))))))))"

text \<open>
  Section 2.1, the voxels that contain signal:
  \<^verbatim>\<open>
  coordinates = np.array([[24, 24, 24]])
  feature_size = 3
  signal_volume = fmrisim.generate_signal(dimensions=dim[0:3],
                                          feature_type=['cube'],
                                          feature_coordinates=coordinates,
                                          feature_size=[feature_size],
                                          signal_magnitude=[1],
                                          )
  \<close>
\<close>

definition signal_voxels :: "'w library \<Rightarrow> val \<Rightarrow> ('w, val \<times> val) prog" where
  "signal_voxels L dim' =
     pbind (call L ''np.array'' [P (VList [VList [VInt 24, VInt 24, VInt 24]])]) (\<lambda>coordinates.
     pbind (own (py_slice dim' (Some 0) (Some 3))) (\<lambda>dimensions.
     pbind (call L ''fmrisim.generate_signal'' [K ''dimensions'' dimensions, K ''feature_type'' (VList [VStr ''cube'']), K ''feature_coordinates'' coordinates, K ''feature_size'' (VList [VInt feature_size]), K ''signal_magnitude'' (VList [VInt 1])]) (\<lambda>signal_volume.
     own (Inr (coordinates, signal_volume)))))"

text \<open>
  \<^verbatim>\<open>
  plt.figure()
  plt.imshow(signal_volume[:, :, 24], cmap=plt.cm.gray)
  plt.imshow(mask[:, :, 24], cmap=plt.cm.gray, alpha=.5)
  plt.axis('off')
  \<close>
\<close>

definition plot_signal_voxels :: "'w library \<Rightarrow> val \<Rightarrow> val \<Rightarrow> ('w, val) prog" where
  "plot_signal_voxels L signal_volume mask' =
     pbind (call L ''plt.figure'' []) (\<lambda>_.
     pbind (call L ''[]'' [P signal_volume, P (VTuple [VSlice VNone VNone VNone, VSlice VNone VNone VNone, VInt 24])]) (\<lambda>a.
     pbind (call L ''plt.imshow'' [P a, K ''cmap'' (VRef ''plt.cm.gray'')]) (\<lambda>_.
     pbind (call L ''[]'' [P mask', P (VTuple [VSlice VNone VNone VNone, VSlice VNone VNone VNone, VInt 24])]) (\<lambda>b.
     pbind (call L ''plt.imshow'' [P b, K ''cmap'' (VRef ''plt.cm.gray''), K ''alpha'' (VFloat (1 / 2))]) (\<lambda>_.
     call L ''plt.axis'' [P (VStr ''off'')])))))"

text \<open>
  Section 2.2 as a whole: \<^verbatim>\<open>temporal_sd\<close> is numpy arithmetic on the template, the rest is
  \<open>signal_change_of\<close>.
\<close>

definition establish_effect_size :: "'w library \<Rightarrow> val \<Rightarrow> val \<Rightarrow> val \<Rightarrow> ('w, val \<times> val) prog" where
  "establish_effect_size L template noise_dict signal_volume =
     pbind (own (py_getitem_str noise_dict ''max_activity'')) (\<lambda>max_activity.
     pbind (call L ''*'' [P template, P max_activity]) (\<lambda>scaled.
     pbind (own (py_getitem_str noise_dict ''sfnr'')) (\<lambda>sfnr.
     pbind (call L ''/'' [P scaled, P sfnr]) (\<lambda>temporal_sd.
     pbind (own (signal_change_of signal_volume temporal_sd)) (\<lambda>signal_change.
     own (Inr (temporal_sd, signal_change)))))))"

text \<open>
  Section 2.3, the pattern of each condition:
  \<^verbatim>\<open>
  voxels = feature_size ** 3
  pattern_A = np.random.randn(voxels).reshape((voxels, 1)) * signal_change
  pattern_B = np.random.randn(voxels).reshape((voxels, 1)) * signal_change
  \<close>
\<close>

definition characterize_patterns :: "'w library \<Rightarrow> val \<Rightarrow> ('w, val \<times> val) prog" where
  "characterize_patterns L signal_change =
     pbind (call L ''np.random.randn'' [P (VInt voxels)]) (\<lambda>ra.
     pbind (call L ''.reshape'' [P ra, P (VTuple [VInt voxels, VInt 1])]) (\<lambda>ca.
     pbind (call L ''*'' [P ca, P signal_change]) (\<lambda>pattern_A.
     pbind (call L ''np.random.randn'' [P (VInt voxels)]) (\<lambda>rb.
     pbind (call L ''.reshape'' [P rb, P (VTuple [VInt voxels, VInt 1])]) (\<lambda>cb.
     pbind (call L ''*'' [P cb, P signal_change]) (\<lambda>pattern_B.
     own (Inr (pattern_A, pattern_B))))))))"

text \<open>
  \<^verbatim>\<open>
  plt.figure()
  plt.subplot(1,2,1)
  plt.imshow(pattern_A)
  plt.ylabel('Voxels')
  plt.tick_params(which='both', left='off', labelleft='off', bottom='off', labelbottom='off')
  plt.xlabel('Condition A')
  plt.subplot(1,2,2)
  plt.imshow(pattern_B)
  plt.tick_params(which='both', left='off', labelleft='off', bottom='off', labelbottom='off')
  plt.xlabel('Condition B')
  \<close>
\<close>

definition plot_patterns :: "'w library \<Rightarrow> val \<Rightarrow> val \<Rightarrow> ('w, val) prog" where
  "plot_patterns L pattern_A pattern_B =
     pbind (call L ''plt.figure'' []) (\<lambda>_.
     pbind (call L ''plt.subplot'' [P (VInt 1), P (VInt 2), P (VInt 1)]) (\<lambda>_.
     pbind (call L ''plt.imshow'' [P pattern_A]) (\<lambda>_.
     pbind (call L ''plt.ylabel'' [P (VStr ''Voxels'')]) (\<lambda>_.
     pbind (call L ''plt.tick_params'' [K ''which'' (VStr ''both''), K ''left'' (VStr ''off''), K ''labelleft'' (VStr ''off''), K ''bottom'' (VStr ''off''), K ''labelbottom'' (VStr ''off'')]) (\<lambda>_.
     pbind (call L ''plt.xlabel'' [P (VStr ''Condition A'')]) (\<lambda>_.
     pbind (call L ''plt.subplot'' [P (VInt 1), P (VInt 2), P (VInt 2)]) (\<lambda>_.
     pbind (call L ''plt.imshow'' [P pattern_B]) (\<lambda>_.
     pbind (call L ''plt.tick_params'' [K ''which'' (VStr ''both''), K ''left'' (VStr ''off''), K ''labelleft'' (VStr ''off''), K ''bottom'' (VStr ''off''), K ''labelbottom'' (VStr ''off'')]) (\<lambda>_.
     call L ''plt.xlabel'' [P (VStr ''Condition B'')])))))))))"

text \<open>
  Section 2.4 as a whole. \<^verbatim>\<open>np.random.shuffle\<close> reorders its argument in place; the call
  returns the reordered array here, which from then on is \<^verbatim>\<open>onsets_all\<close>.
\<close>

definition event_time_course :: "'w library \<Rightarrow> val \<Rightarrow> val \<Rightarrow> ('w, int \<times> val \<times> val \<times> val \<times> val) prog" where
  "event_time_course L dim' tr =
     pbind (own (total_time_of dim' tr)) (\<lambda>total_time.
     pbind (own (onsets_all_of (events_of total_time))) (\<lambda>onsets_all.
     pbind (call L ''np.random.shuffle'' [P onsets_all]) (\<lambda>shuffled.
     pbind (own (onsets_A_of (events_of total_time) shuffled)) (\<lambda>onsets_A.
     pbind (own (onsets_B_of (events_of total_time) shuffled)) (\<lambda>onsets_B.
     pbind (call L ''fmrisim.generate_stimfunction'' [K ''onsets'' onsets_A, K ''event_durations'' (VList [VInt event_duration]), K ''total_time'' (VInt total_time), K ''temporal_resolution'' (VFloat temporal_res)]) (\<lambda>stimfunc_A.
     pbind (call L ''fmrisim.generate_stimfunction'' [K ''onsets'' onsets_B, K ''event_durations'' (VList [VInt event_duration]), K ''total_time'' (VInt total_time), K ''temporal_resolution'' (VFloat temporal_res)]) (\<lambda>stimfunc_B.
     own (Inr (total_time, onsets_A, onsets_B, stimfunc_A, stimfunc_B)))))))))"

text \<open>
  Section 2.5, exporting the time course:
  \<^verbatim>\<open>
  fmrisim.export_epoch_file(stimfunction=[np.hstack((stimfunc_A, stimfunc_B))],
                            filename=home + '/epoch_file.npy',
                            tr_duration=tr,
                            temporal_resolution=temporal_res,
                            )
  fmrisim.export_3_column(stimfunction=stimfunc_A,
                          filename=home + '/Condition_A.txt',
                          temporal_resolution=temporal_res,
                          )
  fmrisim.export_3_column(stimfunction=stimfunc_B,
                          filename=home + '/Condition_B.txt',
                          temporal_resolution=temporal_res,
                          )
  \<close>
\<close>

definition export_time_course :: "'w library \<Rightarrow> val \<Rightarrow> val \<Rightarrow> val \<Rightarrow> val \<Rightarrow> ('w, val) prog" where
  "export_time_course L home tr stimfunc_A stimfunc_B =
     pbind (call L ''np.hstack'' [P (VTuple [stimfunc_A, stimfunc_B])]) (\<lambda>stacked.
     pbind (own (str_add home (VStr ''/epoch_file.npy''))) (\<lambda>epoch_file.
     pbind (call L ''fmrisim.export_epoch_file'' [K ''stimfunction'' (VList [stacked]), K ''filename'' epoch_file, K ''tr_duration'' tr, K ''temporal_resolution'' (VFloat temporal_res)]) (\<lambda>_.
     pbind (own (str_add home (VStr ''/Condition_A.txt''))) (\<lambda>file_A.
     pbind (call L ''fmrisim.export_3_column'' [K ''stimfunction'' stimfunc_A, K ''filename'' file_A, K ''temporal_resolution'' (VFloat temporal_res)]) (\<lambda>_.
     pbind (own (str_add home (VStr ''/Condition_B.txt''))) (\<lambda>file_B.
     call L ''fmrisim.export_3_column'' [K ''stimfunction'' stimfunc_B, K ''filename'' file_B, K ''temporal_resolution'' (VFloat temporal_res)]))))))"

text \<open>
  Section 2.6, the voxel weight of each event:
  \<^verbatim>\<open>
  weights_A = np.matlib.repmat(stimfunc_A, 1, voxels).transpose() * pattern_A
  weights_B = np.matlib.repmat(stimfunc_B, 1, voxels).transpose() * pattern_B
  weights_all = weights_A + weights_B
  weights_all = weights_all.transpose()
  \<close>
\<close>

definition voxel_weights :: "'w library \<Rightarrow> val \<Rightarrow> val \<Rightarrow> val \<Rightarrow> val \<Rightarrow> ('w, val) prog" where
  "voxel_weights L stimfunc_A stimfunc_B pattern_A pattern_B =
     pbind (call L ''np.matlib.repmat'' [P stimfunc_A, P (VInt 1), P (VInt voxels)]) (\<lambda>ra.
     pbind (call L ''.transpose'' [P ra]) (\<lambda>ta.
     pbind (call L ''*'' [P ta, P pattern_A]) (\<lambda>weights_A.
     pbind (call L ''np.matlib.repmat'' [P stimfunc_B, P (VInt 1), P (VInt voxels)]) (\<lambda>rb.
     pbind (call L ''.transpose'' [P rb]) (\<lambda>tb.
     pbind (call L ''*'' [P tb, P pattern_B]) (\<lambda>weights_B.
     pbind (call L ''+'' [P weights_A, P weights_B]) (\<lambda>weights_all.
     call L ''.transpose'' [P weights_all])))))))"

text \<open>
  Section 2.7, convolution with the HRF:
  \<^verbatim>\<open>
  signal_func = fmrisim.convolve_hrf(stimfunction=weights_all,
                                     tr_duration=tr,
                                     temporal_resolution= temporal_res / tr,
                                     scale_function=0,
                                     )
  \<close>
\<close>

definition convolve_with_hrf :: "'w library \<Rightarrow> val \<Rightarrow> val \<Rightarrow> ('w, val) prog" where
  "convolve_with_hrf L weights_all tr =
     pbind (own (py_truediv (VFloat temporal_res) tr)) (\<lambda>resolution.
     call L ''fmrisim.convolve_hrf'' [K ''stimfunction'' weights_all, K ''tr_duration'' tr, K ''temporal_resolution'' resolution, K ''scale_function'' (VInt 0)])"

text \<open>
  \<^verbatim>\<open>
  plt.figure()
  response = stats.zscore(signal_func[0:100,0])
  plt.title('Example event time course and voxel response')
  Event_A = plt.plot(stimfunc_A[0:100, 0], 'r', label='Event_A')
  Event_B = plt.plot(stimfunc_B[0:100, 0], 'g', label='Event_B')
  Response = plt.plot(response, 'b', label='Response')
  plt.legend(loc=1)
  \<close>
\<close>

definition plot_signal :: "'w library \<Rightarrow> val \<Rightarrow> val \<Rightarrow> val \<Rightarrow> ('w, val) prog" where
  "plot_signal L signal_func stimfunc_A stimfunc_B =
     pbind (call L ''plt.figure'' []) (\<lambda>_.
     pbind (call L ''[]'' [P signal_func, P (VTuple [VSlice (VInt 0) (VInt 100) VNone, VInt 0])]) (\<lambda>a.
     pbind (call L ''stats.zscore'' [P a]) (\<lambda>response.
     pbind (call L ''plt.title'' [P (VStr ''Example event time course and voxel response'')]) (\<lambda>_.
     pbind (call L ''[]'' [P stimfunc_A, P (VTuple [VSlice (VInt 0) (VInt 100) VNone, VInt 0])]) (\<lambda>ea.
     pbind (call L ''plt.plot'' [P ea, P (VStr ''r''), K ''label'' (VStr ''Event_A'')]) (\<lambda>_.
     pbind (call L ''[]'' [P stimfunc_B, P (VTuple [VSlice (VInt 0) (VInt 100) VNone, VInt 0])]) (\<lambda>eb.
     pbind (call L ''plt.plot'' [P eb, P (VStr ''g''), K ''label'' (VStr ''Event_B'')]) (\<lambda>_.
     pbind (call L ''plt.plot'' [P response, P (VStr ''b''), K ''label'' (VStr ''Response'')]) (\<lambda>_.
     call L ''plt.legend'' [K ''loc'' (VInt 1)])))))))))"

text \<open>
  Section 2.8, the response in the signal voxels:
  \<^verbatim>\<open>
  signal = fmrisim.apply_signal(signal_func,
                                signal_volume,
                                )
  \<close>
\<close>

definition multiply_response :: "'w library \<Rightarrow> val \<Rightarrow> val \<Rightarrow> ('w, val) prog" where
  "multiply_response L signal_func signal_volume =
     call L ''fmrisim.apply_signal'' [P signal_func, P signal_volume]"

text \<open>
  Section 3, the noise:
  \<^verbatim>\<open>
  noise = fmrisim.generate_noise(dimensions=dim[0:3],
                                 tr_duration=int(tr),
                                 stimfunction_tr=weights_all[::int(tr)],
                                 mask=mask,
                                 template=template,
                                 noise_dict=noise_dict,
                                 )
  \<close>
\<close>

definition add_noise :: "'w library \<Rightarrow> val \<Rightarrow> val \<Rightarrow> val \<Rightarrow> val \<Rightarrow> val \<Rightarrow> val \<Rightarrow> ('w, val) prog" where
  "add_noise L dim' tr weights_all mask' template noise_dict =
     pbind (own (py_slice dim' (Some 0) (Some 3))) (\<lambda>dimensions.
     pbind (own (py_int tr)) (\<lambda>tr_duration.
     pbind (own (py_int tr)) (\<lambda>step.
     pbind (call L ''[]'' [P weights_all, P (VSlice VNone VNone (VInt step))]) (\<lambda>stimfunction_tr.
     call L ''fmrisim.generate_noise'' [K ''dimensions'' dimensions, K ''tr_duration'' (VInt tr_duration), K ''stimfunction_tr'' stimfunction_tr, K ''mask'' mask', K ''template'' template, K ''noise_dict'' noise_dict]))))"

text \<open>
  \<^verbatim>\<open>
  plt.figure()
  plt.imshow(noise[:, :, 24, 0], cmap=plt.cm.gray)
  plt.axis('off')
  \<close>
\<close>

definition plot_noise :: "'w library \<Rightarrow> val \<Rightarrow> ('w, val) prog" where
  "plot_noise L noise =
     pbind (call L ''plt.figure'' []) (\<lambda>_.
     pbind (call L ''[]'' [P noise, P (VTuple [VSlice VNone VNone VNone, VSlice VNone VNone VNone, VInt 24, VInt 0])]) (\<lambda>a.
     pbind (call L ''plt.imshow'' [P a, K ''cmap'' (VRef ''plt.cm.gray'')]) (\<lambda>_.
     call L ''plt.axis'' [P (VStr ''off'')])))"

text \<open>
  Section 3.1, spatial noise:
  \<^verbatim>\<open>
  low_spatial = fmrisim._generate_noise_spatial(dim[0:3],
                                                fwhm=4.0,
                                                )
  high_spatial = fmrisim._generate_noise_spatial(dim[0:3],
                                                 fwhm=1.0,
                                                 )
  plt.figure()
  plt.subplot(1,2,1)
  plt.title('Low noise')
  plt.imshow(low_spatial[:, :, 12])
  plt.axis('off')
  plt.subplot(1,2,2)
  plt.title('High noise')
  plt.imshow(high_spatial[:, :, 12])
  plt.axis('off')
  \<close>
\<close>

definition plot_spatial_noise :: "'w library \<Rightarrow> val \<Rightarrow> ('w, val) prog" where
  "plot_spatial_noise L dim' =
     pbind (own (py_slice dim' (Some 0) (Some 3))) (\<lambda>d_low.
     pbind (call L ''fmrisim._generate_noise_spatial'' [P d_low, K ''fwhm'' (VFloat 4)]) (\<lambda>low_spatial.
     pbind (own (py_slice dim' (Some 0) (Some 3))) (\<lambda>d_high.
     pbind (call L ''fmrisim._generate_noise_spatial'' [P d_high, K ''fwhm'' (VFloat 1)]) (\<lambda>high_spatial.
     pbind (call L ''plt.figure'' []) (\<lambda>_.
     pbind (call L ''plt.subplot'' [P (VInt 1), P (VInt 2), P (VInt 1)]) (\<lambda>_.
     pbind (call L ''plt.title'' [P (VStr ''Low noise'')]) (\<lambda>_.
     pbind (call L ''[]'' [P low_spatial, P (VTuple [VSlice VNone VNone VNone, VSlice VNone VNone VNone, VInt 12])]) (\<lambda>a.
     pbind (call L ''plt.imshow'' [P a]) (\<lambda>_.
     pbind (call L ''plt.axis'' [P (VStr ''off'')]) (\<lambda>_.
     pbind (call L ''plt.subplot'' [P (VInt 1), P (VInt 2), P (VInt 2)]) (\<lambda>_.
     pbind (call L ''plt.title'' [P (VStr ''High noise'')]) (\<lambda>_.
     pbind (call L ''[]'' [P high_spatial, P (VTuple [VSlice VNone VNone VNone, VSlice VNone VNone VNone, VInt 12])]) (\<lambda>b.
     pbind (call L ''plt.imshow'' [P b]) (\<lambda>_.
     call L ''plt.axis'' [P (VStr ''off'')]))))))))))))))"

text \<open>
  Section 3.1, the temporal noise types:
  \<^verbatim>\<open>
  timepoints = list(range(0, total_time, int(tr)))
  drift = fmrisim._generate_noise_temporal_drift(total_time,
                                                 int(tr),
                                                 )
  autoreg = fmrisim._generate_noise_temporal_autoregression(timepoints,
                                                            )
  phys = fmrisim._generate_noise_temporal_phys(timepoints,
                                              )
  task = fmrisim._generate_noise_temporal_task(abs(stimfunc_A[::int(tr)]),
                                              )
  plt.figure()
  plt.title('Noise types')
  plt.subplot(4, 1, 1)
  plt.plot(drift)
  plt.axis('off')
  plt.xlabel('Drift')
  plt.subplot(4, 1, 2)
  plt.plot(autoreg)
  plt.axis('off')
  plt.xlabel('Autoregression')
  plt.subplot(4, 1, 3)
  plt.plot(phys)
  plt.axis('off')
  plt.xlabel('Physiological')
  plt.subplot(4, 1, 4)
  plt.plot(task)
  plt.axis('off')
  plt.xlabel('Task')
  \<close>
\<close>

definition plot_temporal_noise :: "'w library \<Rightarrow> int \<Rightarrow> val \<Rightarrow> val \<Rightarrow> ('w, val) prog" where
  "plot_temporal_noise L total_time tr stimfunc_A =
     pbind (own (py_int tr)) (\<lambda>step.
     pbind (own (py_range 0 total_time step)) (\<lambda>timepoints.
     pbind (own (py_int tr)) (\<lambda>tr_duration.
     pbind (call L ''fmrisim._generate_noise_temporal_drift'' [P (VInt total_time), P (VInt tr_duration)]) (\<lambda>drift.
     pbind (call L ''fmrisim._generate_noise_temporal_autoregression'' [P (VList (map VInt timepoints))]) (\<lambda>autoreg.
     pbind (call L ''fmrisim._generate_noise_temporal_phys'' [P (VList (map VInt timepoints))]) (\<lambda>phys.
     pbind (own (py_int tr)) (\<lambda>step_A.
     pbind (call L ''[]'' [P stimfunc_A, P (VSlice VNone VNone (VInt step_A))]) (\<lambda>a.
     pbind (call L ''abs'' [P a]) (\<lambda>b.
     pbind (call L ''fmrisim._generate_noise_temporal_task'' [P b]) (\<lambda>task.
     pbind (call L ''plt.figure'' []) (\<lambda>_.
     pbind (call L ''plt.title'' [P (VStr ''Noise types'')]) (\<lambda>_.
     pbind (call L ''plt.subplot'' [P (VInt 4), P (VInt 1), P (VInt 1)]) (\<lambda>_.
     pbind (call L ''plt.plot'' [P drift]) (\<lambda>_.
     pbind (call L ''plt.axis'' [P (VStr ''off'')]) (\<lambda>_.
     pbind (call L ''plt.xlabel'' [P (VStr ''Drift'')]) (\<lambda>_.
     pbind (call L ''plt.subplot'' [P (VInt 4), P (VInt 1), P (VInt 2)]) (\<lambda>_.
     pbind (call L ''plt.plot'' [P autoreg]) (\<lambda>_.
     pbind (call L ''plt.axis'' [P (VStr ''off'')]) (\<lambda>_.
     pbind (call L ''plt.xlabel'' [P (VStr ''Autoregression'')]) (\<lambda>_.
     pbind (call L ''plt.subplot'' [P (VInt 4), P (VInt 1), P (VInt 3)]) (\<lambda>_.
     pbind (call L ''plt.plot'' [P phys]) (\<lambda>_.
     pbind (call L ''plt.axis'' [P (VStr ''off'')]) (\<lambda>_.
     pbind (call L ''plt.xlabel'' [P (VStr ''Physiological'')]) (\<lambda>_.
     pbind (call L ''plt.subplot'' [P (VInt 4), P (VInt 1), P (VInt 4)]) (\<lambda>_.
     pbind (call L ''plt.plot'' [P task]) (\<lambda>_.
     pbind (call L ''plt.axis'' [P (VStr ''off'')]) (\<lambda>_.
     call L ''plt.xlabel'' [P (VStr ''Task'')])))))))))))))))))))))))))))"

text \<open>
  Section 3.2, system noise:
  \<^verbatim>\<open>
  system = fmrisim._generate_noise_system(dimensions_tr=dim,
                                          spatial_sd=1.5,
                                          temporal_sd=1,
                                         )
  plt.figure()
  plt.subplot(1, 3, 1)
  plt.hist(system.flatten())
  plt.title('Activity distribution')
  plt.xlabel('Activity')
  plt.ylabel('Frequency')
  plt.subplot(1, 3, 2)
  plt.imshow(system[:, :, 0, 0])
  plt.axis('off')
  plt.title('Spatial plane')
  plt.clim([system.min(), np.percentile(system, 95)])
  plt.subplot(1, 3, 3)
  plt.imshow(system[0, :64, 0, :64])
  plt.axis('off')
  plt.title('Temporal plane')
  plt.clim([system.min(), np.percentile(system, 95)])
  \<close>
\<close>

definition plot_system_noise :: "'w library \<Rightarrow> val \<Rightarrow> ('w, val) prog" where
  "plot_system_noise L dim' =
     pbind (call L ''fmrisim._generate_noise_system'' [K ''dimensions_tr'' dim', K ''spatial_sd'' (VFloat (3 / 2)), K ''temporal_sd'' (VInt 1)]) (\<lambda>system.
     pbind (call L ''plt.figure'' []) (\<lambda>_.
     pbind (call L ''plt.subplot'' [P (VInt 1), P (VInt 3), P (VInt 1)]) (\<lambda>_.
     pbind (call L ''.flatten'' [P system]) (\<lambda>flat.
     pbind (call L ''plt.hist'' [P flat]) (\<lambda>_.
     pbind (call L ''plt.title'' [P (VStr ''Activity distribution'')]) (\<lambda>_.
     pbind (call L ''plt.xlabel'' [P (VStr ''Activity'')]) (\<lambda>_.
     pbind (call L ''plt.ylabel'' [P (VStr ''Frequency'')]) (\<lambda>_.
     pbind (call L ''plt.subplot'' [P (VInt 1), P (VInt 3), P (VInt 2)]) (\<lambda>_.
     pbind (call L ''[]'' [P system, P (VTuple [VSlice VNone VNone VNone, VSlice VNone VNone VNone, VInt 0, VInt 0])]) (\<lambda>a.
     pbind (call L ''plt.imshow'' [P a]) (\<lambda>_.
     pbind (call L ''plt.axis'' [P (VStr ''off'')]) (\<lambda>_.
     pbind (call L ''plt.title'' [P (VStr ''Spatial plane'')]) (\<lambda>_.
     pbind (call L ''.min'' [P system]) (\<lambda>lo.
     pbind (call L ''np.percentile'' [P system, P (VInt 95)]) (\<lambda>hi.
     pbind (call L ''plt.clim'' [P (VList [lo, hi])]) (\<lambda>_.
     pbind (call L ''plt.subplot'' [P (VInt 1), P (VInt 3), P (VInt 3)]) (\<lambda>_.
     pbind (call L ''[]'' [P system, P (VTuple [VInt 0, VSlice VNone (VInt 64) VNone, VInt 0, VSlice VNone (VInt 64) VNone])]) (\<lambda>b.
     pbind (call L ''plt.imshow'' [P b]) (\<lambda>_.
     pbind (call L ''plt.axis'' [P (VStr ''off'')]) (\<lambda>_.
     pbind (call L ''plt.title'' [P (VStr ''Temporal plane'')]) (\<lambda>_.
     pbind (call L ''.min'' [P system]) (\<lambda>lo.
     pbind (call L ''np.percentile'' [P system, P (VInt 95)]) (\<lambda>hi.
     call L ''plt.clim'' [P (VList [lo, hi])])))))))))))))))))))))))"

text \<open>
  Section 3.4, signal plus noise:
  \<^verbatim>\<open>
  brain = signal + noise
  \<close>
\<close>

definition combine_signal_and_noise :: "'w library \<Rightarrow> val \<Rightarrow> val \<Rightarrow> ('w, val) prog" where
  "combine_signal_and_noise L signal noise =
     call L ''+'' [P signal, P noise]"

text \<open>
  Section 4.1, the bounds of the region of interest:
  \<^verbatim>\<open>
  hrf_lag = 4  # Assumed time from stimulus onset to HRF peak
  lb = (coordinates - ((feature_size - 1) / 2)).astype('int')[0]
  ub = (coordinates + ((feature_size - 1) / 2) + 1).astype('int')[0]
  \<close>
\<close>

definition roi_bounds :: "'w library \<Rightarrow> val \<Rightarrow> ('w, val \<times> val) prog" where
  "roi_bounds L coordinates =
     pbind (own (py_truediv (VInt (feature_size - 1)) (VInt 2))) (\<lambda>half.
     pbind (call L ''-'' [P coordinates, P half]) (\<lambda>below.
     pbind (call L ''.astype'' [P below, P (VStr ''int'')]) (\<lambda>below_int.
     pbind (call L ''[]'' [P below_int, P (VInt 0)]) (\<lambda>lb.
     pbind (own (py_truediv (VInt (feature_size - 1)) (VInt 2))) (\<lambda>half'.
     pbind (call L ''+'' [P coordinates, P (half')]) (\<lambda>above.
     pbind (call L ''+'' [P above, P (VInt 1)]) (\<lambda>above1.
     pbind (call L ''.astype'' [P above1, P (VStr ''int'')]) (\<lambda>above_int.
     pbind (call L ''[]'' [P above_int, P (VInt 0)]) (\<lambda>ub.
     own (Inr (lb, ub)))))))))))"

text \<open>
  The trials of one condition (the statement is written twice, for A and for B):
  \<^verbatim>\<open>
  trials_A = brain[lb[0]:ub[0], lb[1]:ub[1], lb[2]:ub[2], (onsets_A + hrf_lag / tr).astype('int')]
  \<close>
\<close>

definition trials_at :: "'w library \<Rightarrow> val \<Rightarrow> val \<Rightarrow> val \<Rightarrow> val \<Rightarrow> val \<Rightarrow> ('w, val) prog" where
  "trials_at L brain lb ub onsets tr =
     pbind (own (nd_item lb [VInt 0])) (\<lambda>lb0.
     pbind (own (nd_item ub [VInt 0])) (\<lambda>ub0.
     pbind (own (nd_item lb [VInt 1])) (\<lambda>lb1.
     pbind (own (nd_item ub [VInt 1])) (\<lambda>ub1.
     pbind (own (nd_item lb [VInt 2])) (\<lambda>lb2.
     pbind (own (nd_item ub [VInt 2])) (\<lambda>ub2.
     pbind (own (py_truediv (VInt hrf_lag) tr)) (\<lambda>lag.
     pbind (call L ''+'' [P onsets, P lag]) (\<lambda>peak.
     pbind (call L ''.astype'' [P peak, P (VStr ''int'')]) (\<lambda>peak_tr.
     call L ''[]'' [P brain, P (VTuple [VSlice lb0 ub0 VNone, VSlice lb1 ub1 VNone, VSlice lb2 ub2 VNone, peak_tr])])))))))))"

text \<open>
  \<^verbatim>\<open>
  trials_A = trials_A.reshape((voxels, trials_A.shape[3]))
  \<close>
\<close>

definition one_row_per_voxel :: "'w library \<Rightarrow> val \<Rightarrow> ('w, val) prog" where
  "one_row_per_voxel L trials =
     pbind (own (nd_shape trials)) (\<lambda>shape.
     pbind (own (py_index shape 3)) (\<lambda>n.
     call L ''.reshape'' [P trials, P (VTuple [VInt voxels, n])]))"

text \<open>
  Section 4.1 as a whole.
\<close>

definition pull_out_trials :: "'w library \<Rightarrow> val \<Rightarrow> val \<Rightarrow> val \<Rightarrow> val \<Rightarrow> val \<Rightarrow> ('w, val \<times> val) prog" where
  "pull_out_trials L coordinates brain onsets_A onsets_B tr =
     pbind (roi_bounds L coordinates) (\<lambda>(lb, ub).
     pbind (trials_at L brain lb ub onsets_A tr) (\<lambda>trials_A.
     pbind (trials_at L brain lb ub onsets_B tr) (\<lambda>trials_B.
     pbind (one_row_per_voxel L trials_A) (\<lambda>trials_A.
     pbind (one_row_per_voxel L trials_B) (\<lambda>trials_B.
     own (Inr (trials_A, trials_B)))))))"

text \<open>
  \<^verbatim>\<open>
  plt.figure()
  plt.subplot(1,2,1)
  plt.imshow(trials_A)
  plt.ylabel('Voxels')
  plt.xlabel('Trials')
  plt.subplot(1,2,2)
  plt.imshow(trials_B)
  plt.xlabel('Trials')
  \<close>
\<close>

definition plot_trials :: "'w library \<Rightarrow> val \<Rightarrow> val \<Rightarrow> ('w, val) prog" where
  "plot_trials L trials_A trials_B =
     pbind (call L ''plt.figure'' []) (\<lambda>_.
     pbind (call L ''plt.subplot'' [P (VInt 1), P (VInt 2), P (VInt 1)]) (\<lambda>_.
     pbind (call L ''plt.imshow'' [P trials_A]) (\<lambda>_.
     pbind (call L ''plt.ylabel'' [P (VStr ''Voxels'')]) (\<lambda>_.
     pbind (call L ''plt.xlabel'' [P (VStr ''Trials'')]) (\<lambda>_.
     pbind (call L ''plt.subplot'' [P (VInt 1), P (VInt 2), P (VInt 2)]) (\<lambda>_.
     pbind (call L ''plt.imshow'' [P trials_B]) (\<lambda>_.
     call L ''plt.xlabel'' [P (VStr ''Trials'')])))))))"

text \<open>
  Section 4.2, the low-dimensional representation:
  \<^verbatim>\<open>
  distance_matrix = sp_distance.squareform(sp_distance.pdist(
      np.vstack([trials_A.transpose(), trials_B.transpose()])))
  mds = manifold.MDS(n_components=2, dissimilarity='precomputed')  # Fit the mds object
  coords = mds.fit(distance_matrix).embedding_  # Find the mds coordinates
  plt.figure()
  plt.scatter(coords[:, 0], coords[:, 1],
              c=['red'] * trials_A.shape[1] + ['green'] * trials_B.shape[1])
  plt.axis('off')
  plt.title('Low Dimensional Representation of conditions A and B')
  \<close>
\<close>

definition represent_data :: "'w library \<Rightarrow> val \<Rightarrow> val \<Rightarrow> ('w, val \<times> val \<times> val) prog" where
  "represent_data L trials_A trials_B =
     pbind (call L ''.transpose'' [P trials_A]) (\<lambda>ta.
     pbind (call L ''.transpose'' [P trials_B]) (\<lambda>tb.
     pbind (call L ''np.vstack'' [P (VList [ta, tb])]) (\<lambda>stacked.
     pbind (call L ''sp_distance.pdist'' [P stacked]) (\<lambda>distances.
     pbind (call L ''sp_distance.squareform'' [P distances]) (\<lambda>distance_matrix.
     pbind (call L ''manifold.MDS'' [K ''n_components'' (VInt 2), K ''dissimilarity'' (VStr ''precomputed'')]) (\<lambda>mds.
     pbind (call L ''.fit'' [P mds, P distance_matrix]) (\<lambda>fitted.
     pbind (call L ''.embedding_'' [P fitted]) (\<lambda>coords.
     pbind (call L ''plt.figure'' []) (\<lambda>_.
     pbind (call L ''[]'' [P coords, P (VTuple [VSlice VNone VNone VNone, VInt 0])]) (\<lambda>xs.
     pbind (call L ''[]'' [P coords, P (VTuple [VSlice VNone VNone VNone, VInt 1])]) (\<lambda>ys.
     pbind (own (colours_of trials_A trials_B)) (\<lambda>colours.
     pbind (call L ''plt.scatter'' [P xs, P ys, K ''c'' colours]) (\<lambda>_.
     pbind (call L ''plt.axis'' [P (VStr ''off'')]) (\<lambda>_.
     pbind (call L ''plt.title'' [P (VStr ''Low Dimensional Representation of conditions A and B'')]) (\<lambda>_.
     own (Inr (distance_matrix, mds, coords)))))))))))))))))"

text \<open>
  Section 4.2, the test for a univariate effect:
  \<^verbatim>\<open>
  mean_difference = (np.mean(trials_A,0) - np.mean(trials_B,0))
  ttest = stats.ttest_1samp(mean_difference, 0)
  print('Mean difference between condition A and B: ' + str(mean_difference.mean())[0:5])
  print('pvalue: '+ str(ttest.pvalue)[0:5])
  \<close>
\<close>

definition univariate_test :: "'w library \<Rightarrow> val \<Rightarrow> val \<Rightarrow> ('w, val \<times> val) prog" where
  "univariate_test L trials_A trials_B =
     pbind (call L ''np.mean'' [P trials_A, P (VInt 0)]) (\<lambda>mean_A.
     pbind (call L ''np.mean'' [P trials_B, P (VInt 0)]) (\<lambda>mean_B.
     pbind (call L ''-'' [P mean_A, P mean_B]) (\<lambda>mean_difference.
     pbind (call L ''stats.ttest_1samp'' [P mean_difference, P (VInt 0)]) (\<lambda>ttest.
     pbind (call L ''.mean'' [P mean_difference]) (\<lambda>grand_mean.
     pbind (call L ''str'' [P grand_mean]) (\<lambda>m_str.
     pbind (own (py_slice m_str (Some 0) (Some 5))) (\<lambda>m_head.
     pbind (own (str_add (VStr ''Mean difference between condition A and B: '') m_head)) (\<lambda>m_line.
     pbind (call L ''print'' [P m_line]) (\<lambda>_.
     pbind (call L ''.pvalue'' [P ttest]) (\<lambda>pvalue.
     pbind (call L ''str'' [P pvalue]) (\<lambda>p_str.
     pbind (own (py_slice p_str (Some 0) (Some 5))) (\<lambda>p_head.
     pbind (own (str_add (VStr ''pvalue: '') p_head)) (\<lambda>p_line.
     pbind (call L ''print'' [P p_line]) (\<lambda>_.
     own (Inr (mean_difference, ttest))))))))))))))))"

text \<open>
  Section 4.3, the test for a multivariate effect:
  \<^verbatim>\<open>
  input_mat = np.vstack([trials_A.transpose(), trials_B.transpose()])
  input_labels = trials_A.shape[1] * [1] + trials_B.shape[1] * [0]
  X_train, X_test, y_train, y_test = sklearn.model_selection.train_test_split(
      input_mat, input_labels, test_size=0.2, random_state=0)
  clf = sklearn.svm.SVC(kernel='linear', C=1).fit(X_train, y_train)
  score = clf.score(X_test, y_test)
  print('Classification accuracy between condition A and B: ' + str(score)[0:5])
  \<close>
\<close>

definition multivariate_test :: "'w library \<Rightarrow> val \<Rightarrow> val \<Rightarrow> ('w, val) prog" where
  "multivariate_test L trials_A trials_B =
     pbind (call L ''.transpose'' [P trials_A]) (\<lambda>ta.
     pbind (call L ''.transpose'' [P trials_B]) (\<lambda>tb.
     pbind (call L ''np.vstack'' [P (VList [ta, tb])]) (\<lambda>input_mat.
     pbind (own (input_labels_of trials_A trials_B)) (\<lambda>input_labels.
     pbind (call L ''sklearn.model_selection.train_test_split'' [P input_mat, P input_labels, K ''test_size'' (VFloat (2 / 10)), K ''random_state'' (VInt 0)]) (\<lambda>split.
     pbind (own (unpack4 split)) (\<lambda>(X_train, X_test, y_train, y_test).
     pbind (call L ''sklearn.svm.SVC'' [K ''kernel'' (VStr ''linear''), K ''C'' (VInt 1)]) (\<lambda>svc.
     pbind (call L ''.fit'' [P svc, P X_train, P y_train]) (\<lambda>clf.
     pbind (call L ''.score'' [P clf, P X_test, P y_test]) (\<lambda>score.
     pbind (call L ''str'' [P score]) (\<lambda>s_str.
     pbind (own (py_slice s_str (Some 0) (Some 5))) (\<lambda>s_head.
     pbind (own (str_add (VStr ''Classification accuracy between condition A and B: '') s_head)) (\<lambda>s_line.
     pbind (call L ''print'' [P s_line]) (\<lambda>_.
     own (Inr score))))))))))))))"

text \<open>
  The notebook: its code cells in order, first everything from section 1.3 on, given
  the values of section 1.2, then the whole from section 1.2 on. The first code cell, the
  \<^verbatim>\<open>%matplotlib\<close> magic and the \<^verbatim>\<open>import\<close> statements, follows as \<open>import_modules\<close>.
\<close>

definition simulate_and_analyse ::
  "'w library \<Rightarrow> val \<Rightarrow> val \<Rightarrow> val \<Rightarrow> val \<Rightarrow> val \<Rightarrow> ('w, val) prog" where
  "simulate_and_analyse L home volume dim' dimsize tr =
     pbind (template_and_mask L volume) (\<lambda>(mask', template).
     pbind (noise_parameters L volume mask' dimsize) (\<lambda>noise_dict.
     pbind (print_noise_parameters L noise_dict) (\<lambda>_.
     pbind (signal_voxels L dim') (\<lambda>(coordinates, signal_volume).
     pbind (plot_signal_voxels L signal_volume mask') (\<lambda>_.
     pbind (establish_effect_size L template noise_dict signal_volume) (\<lambda>(temporal_sd, signal_change).
     pbind (characterize_patterns L signal_change) (\<lambda>(pattern_A, pattern_B).
     pbind (plot_patterns L pattern_A pattern_B) (\<lambda>_.
     pbind (event_time_course L dim' tr) (\<lambda>(total_time, onsets_A, onsets_B, stimfunc_A, stimfunc_B).
     pbind (export_time_course L home tr stimfunc_A stimfunc_B) (\<lambda>_.
     pbind (voxel_weights L stimfunc_A stimfunc_B pattern_A pattern_B) (\<lambda>weights_all.
     pbind (convolve_with_hrf L weights_all tr) (\<lambda>signal_func.
     pbind (plot_signal L signal_func stimfunc_A stimfunc_B) (\<lambda>_.
     pbind (multiply_response L signal_func signal_volume) (\<lambda>signal.
     pbind (add_noise L dim' tr weights_all mask' template noise_dict) (\<lambda>noise.
     pbind (plot_noise L noise) (\<lambda>_.
     pbind (plot_spatial_noise L dim') (\<lambda>_.
     pbind (plot_temporal_noise L total_time tr stimfunc_A) (\<lambda>_.
     pbind (plot_system_noise L dim') (\<lambda>_.
     pbind (combine_signal_and_noise L signal noise) (\<lambda>brain.
     pbind (pull_out_trials L coordinates brain onsets_A onsets_B tr) (\<lambda>(trials_A, trials_B).
     pbind (plot_trials L trials_A trials_B) (\<lambda>_.
     pbind (represent_data L trials_A trials_B) (\<lambda>(distance_matrix, mds, coords).
     pbind (univariate_test L trials_A trials_B) (\<lambda>(mean_difference, ttest).
     multivariate_test L trials_A trials_B))))))))))))))))))))))))"

definition notebook :: "'w library \<Rightarrow> ('w, val) prog" where
  "notebook L =
     pbind (load_participant_data L) (\<lambda>(home, nii, volume).
     pbind (participant_dimensions L nii volume) (\<lambda>(dim', dimsize, tr).
     simulate_and_analyse L home volume dim' dimsize tr))"



subsection \<open>Runs\<close>

text \<open>
  The names of the library functions the notebook calls, in the order of the calls: the
  calls of section 1.2, and those of the rest.
\<close>

definition input_calls :: "string list" where
  "input_calls =
    [''Path.home'', ''str'', ''nibabel.load'', ''.get_data'', ''.header'', ''.get_zooms'',
     ''print'']"

definition simulation_calls :: "string list" where
  "simulation_calls =
    [''fmrisim.mask_brain'', ''fmrisim.calc_noise'', ''print'', ''str'', ''print'',
     ''str'', ''print'', ''str'', ''print'', ''np.array'', ''fmrisim.generate_signal'',
     ''plt.figure'', ''[]'', ''plt.imshow'', ''[]'', ''plt.imshow'', ''plt.axis'', ''*'',
     ''/'', ''np.random.randn'', ''.reshape'', ''*'', ''np.random.randn'', ''.reshape'',
     ''*'', ''plt.figure'', ''plt.subplot'', ''plt.imshow'', ''plt.ylabel'',
     ''plt.tick_params'', ''plt.xlabel'', ''plt.subplot'', ''plt.imshow'',
     ''plt.tick_params'', ''plt.xlabel'', ''np.random.shuffle'',
     ''fmrisim.generate_stimfunction'', ''fmrisim.generate_stimfunction'', ''np.hstack'',
     ''fmrisim.export_epoch_file'', ''fmrisim.export_3_column'',
     ''fmrisim.export_3_column'', ''np.matlib.repmat'', ''.transpose'', ''*'',
     ''np.matlib.repmat'', ''.transpose'', ''*'', ''+'', ''.transpose'',
     ''fmrisim.convolve_hrf'', ''plt.figure'', ''[]'', ''stats.zscore'', ''plt.title'',
     ''[]'', ''plt.plot'', ''[]'', ''plt.plot'', ''plt.plot'', ''plt.legend'',
     ''fmrisim.apply_signal'', ''[]'', ''fmrisim.generate_noise'', ''plt.figure'', ''[]'',
     ''plt.imshow'', ''plt.axis'', ''fmrisim._generate_noise_spatial'',
     ''fmrisim._generate_noise_spatial'', ''plt.figure'', ''plt.subplot'', ''plt.title'',
     ''[]'', ''plt.imshow'', ''plt.axis'', ''plt.subplot'', ''plt.title'', ''[]'',
     ''plt.imshow'', ''plt.axis'', ''fmrisim._generate_noise_temporal_drift'',
     ''fmrisim._generate_noise_temporal_autoregression'',
     ''fmrisim._generate_noise_temporal_phys'', ''[]'', ''abs'',
     ''fmrisim._generate_noise_temporal_task'', ''plt.figure'', ''plt.title'',
     ''plt.subplot'', ''plt.plot'', ''plt.axis'', ''plt.xlabel'', ''plt.subplot'',
     ''plt.plot'', ''plt.axis'', ''plt.xlabel'', ''plt.subplot'', ''plt.plot'',
     ''plt.axis'', ''plt.xlabel'', ''plt.subplot'', ''plt.plot'', ''plt.axis'',
     ''plt.xlabel'', ''fmrisim._generate_noise_system'', ''plt.figure'', ''plt.subplot'',
     ''.flatten'', ''plt.hist'', ''plt.title'', ''plt.xlabel'', ''plt.ylabel'',
     ''plt.subplot'', ''[]'', ''plt.imshow'', ''plt.axis'', ''plt.title'', ''.min'',
     ''np.percentile'', ''plt.clim'', ''plt.subplot'', ''[]'', ''plt.imshow'',
     ''plt.axis'', ''plt.title'', ''.min'', ''np.percentile'', ''plt.clim'', ''+'', ''-'',
     ''.astype'', ''[]'', ''+'', ''+'', ''.astype'', ''[]'', ''+'', ''.astype'', ''[]'',
     ''+'', ''.astype'', ''[]'', ''.reshape'', ''.reshape'', ''plt.figure'',
     ''plt.subplot'', ''plt.imshow'', ''plt.ylabel'', ''plt.xlabel'', ''plt.subplot'',
     ''plt.imshow'', ''plt.xlabel'', ''.transpose'', ''.transpose'', ''np.vstack'',
     ''sp_distance.pdist'', ''sp_distance.squareform'', ''manifold.MDS'', ''.fit'',
     ''.embedding_'', ''plt.figure'', ''[]'', ''[]'', ''plt.scatter'', ''plt.axis'',
     ''plt.title'', ''np.mean'', ''np.mean'', ''-'', ''stats.ttest_1samp'', ''.mean'',
     ''str'', ''print'', ''.pvalue'', ''str'', ''print'', ''.transpose'', ''.transpose'',
     ''np.vstack'', ''sklearn.model_selection.train_test_split'', ''sklearn.svm.SVC'',
     ''.fit'', ''.score'', ''str'', ''print'']"

definition notebook_calls :: "string list" where
  "notebook_calls = input_calls @ simulation_calls"

text \<open>The world that a sequence of logged calls leaves behind.\<close>

fun replay :: "'w library \<Rightarrow> 'w \<Rightarrow> entry list \<Rightarrow> 'w" where
  "replay L w [] = w"
| "replay L w ((f, args, r) # es) = replay L (snd (L f args w)) es"

text \<open>
  A call that raised is the last call of the run, and what it raised is the outcome of
  the run.
\<close>

definition failing_last :: "entry list \<Rightarrow> exn + 'a \<Rightarrow> bool" where
  "failing_last new r =
     (\<forall>i < length new. \<forall>e. snd (snd (new ! i)) = Inl e \<longrightarrow> Suc i = length new \<and> r = Inl e)"

text \<open>
  A program follows the list \<open>ns\<close> of function names: each run appends calls to the
  log, the world is what these calls leave, a raising call ends the run, and the names of
  the calls are \<open>ns\<close> when the run succeeds and a prefix of \<open>ns\<close> when it does not.
\<close>

definition follows :: "'w library \<Rightarrow> string list \<Rightarrow> ('w, 'a) prog \<Rightarrow> bool" where
  "follows L ns m =
     (\<forall>s. \<exists>new. log (snd (m s)) = log s @ new
            \<and> world (snd (m s)) = replay L (world s) new
            \<and> failing_last new (fst (m s))
            \<and> (case fst (m s) of
                  Inr x \<Rightarrow> map fst new = ns
                | Inl e \<Rightarrow> prefix (map fst new) ns))"

text \<open>Every call a program logs satisfies \<open>ok\<close>.\<close>

definition every_call :: "(entry \<Rightarrow> bool) \<Rightarrow> ('w, 'a) prog \<Rightarrow> bool" where
  "every_call ok m = (\<forall>s. \<exists>new. log (snd (m s)) = log s @ new \<and> list_all ok new)"

text \<open>The value of a keyword argument.\<close>

fun kwarg :: "string \<Rightarrow> arg list \<Rightarrow> val option" where
  "kwarg k [] = None"
| "kwarg k (P v # as) = kwarg k as"
| "kwarg k (K k' v # as) = (if k = k' then Some v else kwarg k as)"

text \<open>
  A small library to run the notebook on. Its world is the list of the files written.
  The scan has the given data and voxel sizes, the brain is a single voxel, the two
  export functions write the file they are given, and a function named \<open>broken\<close>
  raises.
\<close>

definition demo_value :: "val \<Rightarrow> val \<Rightarrow> string \<Rightarrow> arg list \<Rightarrow> exn + val" where
  "demo_value volume zooms f args =
     (if f = ''str'' then Inr (VStr ''/home/u'')
      else if f = ''.get_data'' then Inr volume
      else if f = ''.get_zooms'' then Inr zooms
      else if f = ''fmrisim.mask_brain''
        then Inr (VTuple [VArr [1, 1, 1] [1], VArr [1, 1, 1] [1 / 2]])
      else if f = ''fmrisim.calc_noise''
        then Inr (VDict [(''snr'', VFloat 10), (''sfnr'', VFloat 50), (''fwhm'', VFloat 4),
                         (''max_activity'', VFloat 100)])
      else if f = ''fmrisim.generate_signal'' then Inr (VArr [1, 1, 1] [1])
      else if f = ''/'' then Inr (VArr [1, 1, 1] [2])
      else if f = ''np.random.shuffle''
        then (case args of [P a] \<Rightarrow> Inr a | _ \<Rightarrow> Inl TypeError)
      else if f = ''[]''
        then (case args of
                [P a, P (VInt i)] \<Rightarrow> Inr (VIArr [3] [23, 23, 23])
              | _ \<Rightarrow> Inr (VArr [3, 3, 3, 2] (replicate 54 0)))
      else if f = ''.reshape'' then Inr (VArr [27, 2] (replicate 54 0))
      else if f = ''sklearn.model_selection.train_test_split''
        then Inr (VList [VObj 1, VObj 2, VObj 3, VObj 4])
      else if f = ''.score'' then Inr (VFloat (3 / 4))
      else Inr VNone)"

definition demo_write :: "string \<Rightarrow> arg list \<Rightarrow> (string \<times> val) list \<Rightarrow> (string \<times> val) list" where
  "demo_write f args w =
     (if f = ''fmrisim.export_epoch_file'' \<or> f = ''fmrisim.export_3_column''
      then (case kwarg ''filename'' args of Some (VStr p) \<Rightarrow> (p, VNone) # w | _ \<Rightarrow> w)
      else w)"

definition demo_library :: "val \<Rightarrow> val \<Rightarrow> string \<Rightarrow> (string \<times> val) list library" where
  "demo_library volume zooms broken f args w =
     (if f = broken then (Inl (LibraryError broken), w)
      else (demo_value volume zooms f args, demo_write f args w))"

text \<open>A four-dimensional scan of twenty volumes with a repetition time of 1500 ms.\<close>

definition demo_volume :: val where
  "demo_volume = VArr [1, 1, 1, 20] (replicate 20 0)"

definition demo_zooms :: val where
  "demo_zooms = VTuple [VFloat 3, VFloat 3, VFloat 3, VFloat 1500]"

text \<open>A run of the notebook from an empty log, in the world \<open>w\<close>.\<close>

definition run :: "'w library \<Rightarrow> 'w \<Rightarrow> (exn + val) \<times> 'w state" where
  "run L w = notebook L \<lparr>log = [], world = w\<rparr>"

text \<open>The three files of section 2.5, relative to the home directory, and the scan.\<close>

definition exported_files :: "string list" where
  "exported_files = [''/epoch_file.npy'', ''/Condition_A.txt'', ''/Condition_B.txt'']"

definition scan_path :: string where
  "scan_path = ''/Corr_MVPA/Participant_01_rest_run01.nii''"

text \<open>
  What holds of every call from section 1.3 on, given \<^verbatim>\<open>home\<close> and \<^verbatim>\<open>tr\<close> of section
  1.2: the scan is neither loaded nor its header read again, \<^verbatim>\<open>tr\<close> is passed on as it
  is (\<^verbatim>\<open>generate_noise\<close> gets \<^verbatim>\<open>int(tr)\<close>), and the export functions write to one of
  the three files under \<^verbatim>\<open>home\<close>.
\<close>

definition downstream_ok :: "val \<Rightarrow> val \<Rightarrow> entry \<Rightarrow> bool" where
  "downstream_ok home tr =
     (\<lambda>(f, args, r).
        f \<noteq> ''.get_zooms'' \<and> f \<noteq> ''nibabel.load''
        \<and> (f = ''fmrisim.export_epoch_file'' \<or> f = ''fmrisim.convolve_hrf''
             \<longrightarrow> kwarg ''tr_duration'' args = Some tr)
        \<and> (f = ''fmrisim.generate_noise''
             \<longrightarrow> (\<exists>n. py_int tr = Inr n \<and> kwarg ''tr_duration'' args = Some (VInt n)))
        \<and> (f = ''fmrisim.export_epoch_file'' \<or> f = ''fmrisim.export_3_column''
             \<longrightarrow> (\<exists>file \<in> set exported_files. \<exists>path.
                    str_add home (VStr file) = Inr path \<and> kwarg ''filename'' args = Some path)))"

definition input_log ::
  "val \<Rightarrow> val \<Rightarrow> val \<Rightarrow> val \<Rightarrow> val \<Rightarrow> val \<Rightarrow> val \<Rightarrow> val \<Rightarrow> val \<Rightarrow> entry list" where
  "input_log p home path nii volume header dimsize dim' pr =
     [(''Path.home'', [], Inr p), (''str'', [P p], Inr home),
      (''nibabel.load'', [P path], Inr nii), (''.get_data'', [P nii], Inr volume),
      (''.header'', [P nii], Inr header), (''.get_zooms'', [P header], Inr dimsize),
      (''print'', [P dim'], Inr pr)]"

definition delegated_steps :: "string list" where
  "delegated_steps =
     [''fmrisim.mask_brain'', ''fmrisim.calc_noise'', ''fmrisim.convolve_hrf'',
      ''fmrisim.apply_signal'', ''fmrisim.generate_noise'', ''sklearn.svm.SVC'']"

definition noise_helpers :: "string list" where
  "noise_helpers =
     [''fmrisim._generate_noise_spatial'', ''fmrisim._generate_noise_spatial'',
      ''fmrisim._generate_noise_temporal_drift'',
      ''fmrisim._generate_noise_temporal_autoregression'',
      ''fmrisim._generate_noise_temporal_phys'', ''fmrisim._generate_noise_temporal_task'',
      ''fmrisim._generate_noise_system'']"


definition demo :: "(string \<times> val) list library" where
  "demo = demo_library demo_volume demo_zooms ''''"

definition broken_demo :: "(string \<times> val) list library" where
  "broken_demo = demo_library demo_volume demo_zooms ''fmrisim.calc_noise''"

definition flat_demo :: "(string \<times> val) list library" where
  "flat_demo = demo_library (VArr [1, 1, 1] [0]) (VTuple [VFloat 3, VFloat 3, VFloat 3]) []"

text \<open>
  The library routines of the two multivariate analyses (sections 4.1 and 4.3), in the
  order of their calls in a run.
\<close>

definition analysis_calls :: "string list" where
  "analysis_calls =
     [''sp_distance.pdist'', ''sp_distance.squareform'', ''manifold.MDS'', ''.fit'',
      ''.embedding_'', ''sklearn.model_selection.train_test_split'', ''sklearn.svm.SVC'',
      ''.fit'', ''.score'']"





text \<open>
  The logged outcomes are the library's: each entry holds what the library returned, or
  raised, for the logged arguments in the world the earlier calls had left.
\<close>

fun answers :: "'w library \<Rightarrow> 'w \<Rightarrow> entry list \<Rightarrow> bool" where
  "answers L w [] = True"
| "answers L w ((f, args, r) # es) = (fst (L f args w) = r \<and> answers L (snd (L f args w)) es)"

definition honest :: "'w library \<Rightarrow> ('w, 'a) prog \<Rightarrow> bool" where
  "honest L m =
     (\<forall>s. \<exists>new. log (snd (m s)) = log s @ new \<and> answers L (world s) new
            \<and> world (snd (m s)) = replay L (world s) new)"



section \<open>Properties\<close>

subsection \<open>Sequencing\<close>

lemma ebind_Inr [simp]: "ebind (Inr x) k = k x"
  by (simp add: ebind_def)

lemma ebind_Inl [simp]: "ebind (Inl e) k = Inl e"
  by (simp add: ebind_def)

lemma ebind_eq_Inr: "ebind r k = Inr y \<longleftrightarrow> (\<exists>x. r = Inr x \<and> k x = Inr y)"
  by (cases r) simp_all

lemma collect_length: "collect rs = Inr xs \<Longrightarrow> length xs = length rs"
  by (induction rs arbitrary: xs) (auto simp: ebind_eq_Inr)

lemma py_range_upto: "0 \<le> n \<Longrightarrow> py_range 0 n 1 = Inr (map int [0 ..< nat n])"
  by (simp add: py_range_def)

subsection \<open>The per-voxel loop\<close>

text \<open>What one pass of the loop stores for the voxel at row-major position \<open>p\<close>.\<close>

lemma voxel_step:
  assumes "k < length ps" "length sh = 3" "length acc = k"
  shows "voxel_loop (index_arrays sh ps) (VArr sh' d') (int k # rest)
           (VArr [length ps, 1] (acc @ replicate (length ps - k) 0))
         = ebind (ebind (ravel sh' (map int (unravel sh (ps ! k))))
                    (\<lambda>q. Inr (real_of_int effect_size * d' ! q)))
             (\<lambda>v. voxel_loop (index_arrays sh ps) (VArr sh' d') rest
                    (VArr [length ps, 1] ((acc @ [v]) @ replicate (length ps - Suc k) 0)))"
proof -
  obtain a b c where sh: "sh = [a, b, c]"
    using assms(2) by (auto simp: length_Suc_conv numeral_3_eq_3)
  have upt3: "[0 ..< 3] = [0, 1, 2]"
    by (simp add: upt_rec numeral_3_eq_3)
  have rep: "replicate (length ps - k) (0::real) = 0 # replicate (length ps - Suc k) 0"
    using assms by (cases "length ps - k") (auto simp: Suc_diff_Suc)
  show ?thesis
    using assms
    by (simp add: index_arrays_def sh upt3 seq_index_def py_mul_int_def
        nd_setrow_def rep ebind_def split: sum.splits)
qed

lemma voxel_loop_from:
  assumes "length sh = 3"
  shows "k \<le> length ps \<Longrightarrow> length acc = k \<Longrightarrow>
         voxel_loop (index_arrays sh ps) (VArr sh' d') (map int [k ..< length ps])
           (VArr [length ps, 1] (acc @ replicate (length ps - k) 0))
         = ebind (collect (map (\<lambda>p. ebind (ravel sh' (map int (unravel sh p)))
                                      (\<lambda>q. Inr (real_of_int effect_size * d' ! q)))
                             (drop k ps)))
             (\<lambda>g. Inr (VArr [length ps, 1] (acc @ g)))"
proof (induction "length ps - k" arbitrary: k acc)
  case 0
  then show ?case by simp
next
  case (Suc m)
  let ?entry = "\<lambda>p. ebind (ravel sh' (map int (unravel sh p)))
                       (\<lambda>q. Inr (real_of_int effect_size * d' ! q))"
  from Suc have k: "k < length ps" and m: "m = length ps - Suc k" by auto
  have drop: "drop k ps = ps ! k # drop (Suc k) ps"
    using k by (simp add: Cons_nth_drop_Suc)
  have upt: "map int [k ..< length ps] = int k # map int [Suc k ..< length ps]"
    using k by (simp add: upt_conv_Cons)
  have IH: "voxel_loop (index_arrays sh ps) (VArr sh' d') (map int [Suc k ..< length ps])
              (VArr [length ps, 1] ((acc @ [v]) @ replicate (length ps - Suc k) 0))
            = ebind (collect (map ?entry (drop (Suc k) ps)))
                (\<lambda>g. Inr (VArr [length ps, 1] ((acc @ [v]) @ g)))" for v
    by (rule Suc.hyps(1) [OF m]) (use k Suc.prems in auto)
  show ?case
    unfolding upt drop voxel_step [OF k assms Suc.prems(2)] IH
    by (cases "?entry (ps ! k)"; cases "collect (map ?entry (drop (Suc k) ps))") simp_all
qed

lemma voxel_loop_all:
  assumes "length sh = 3"
  shows "voxel_loop (index_arrays sh ps) (VArr sh' d') (map int [0 ..< length ps])
           (VArr [length ps, 1] (replicate (length ps) 0))
         = ebind (collect (map (\<lambda>p. ebind (ravel sh' (map int (unravel sh p)))
                                      (\<lambda>q. Inr (real_of_int effect_size * d' ! q))) ps))
             (\<lambda>g. Inr (VArr [length ps, 1] g))"
  using voxel_loop_from [OF assms, of 0 ps "[]" sh' d'] by simp

lemma hits_count: "length (hits d c) = length (filter (\<lambda>x. x = c) d)"
proof -
  have "filter (\<lambda>x. x = c) d = map ((!) d) (hits d c)"
    unfolding hits_def by (subst (1) map_nth [symmetric], simp only: filter_map comp_def)
  then show ?thesis by simp
qed

lemma binary_sum:
  assumes "set d \<subseteq> {0, 1}"
  shows "trunc (sum_list d) = int (length (hits d 1))"
proof -
  have "sum_list d = real (length (filter (\<lambda>x. x = 1) d))"
    using assms by (induction d) auto
  then show ?thesis by (simp add: hits_count trunc_def)
qed

text \<open>
  Claim C8, as stated: for every signal volume and every \<^verbatim>\<open>temporal_sd\<close> map the loop
  computes \<^verbatim>\<open>effect_size * temporal_sd[signal_idxs]\<close> entry for entry. It does not: the
  loop runs \<^verbatim>\<open>int(signal_volume.sum())\<close> times, while \<^verbatim>\<open>signal_idxs\<close> lists the voxels
  equal to 1. For the volume with the values 1, 1, -1 the sum is 1, so the loop finishes
  after one pass with a single entry, and the gather has two.
\<close>

theorem signal_change_differs_from_gather:
  "signal_change_of (VArr [1, 1, 3] [1, 1, - 1]) (VArr [1, 1, 3] [10, 20, 30])
     = Inr (VArr [1, 1] [10])
   \<and> vector_gather (VArr [1, 1, 3] [1, 1, - 1]) (VArr [1, 1, 3] [10, 20, 30])
     = Inr [10, 20]"
  by (simp add: signal_change_of_def vector_gather_def index_arrays_def hits_def
      np_zeros_def py_range_def trunc_def seq_index_def nd_setrow_def py_mul_int_def
      effect_size_def)

text \<open>
  Claim C8, amended: for every three-dimensional signal volume in which
  \<^verbatim>\<open>int(signal_volume.sum())\<close> is the number of voxels equal to 1 (every volume of zeros
  and ones is one, by \<open>binary_sum\<close>) and every three-dimensional \<^verbatim>\<open>temporal_sd\<close>, the
  loop computes the gather entry for entry, as an \<open>n \<times> 1\<close> array, and raises
  \<^verbatim>\<open>IndexError\<close> exactly when the gather does.
\<close>

theorem signal_change_is_gather:
  assumes "trunc (sum_list d) = int (length (hits d 1))"
  shows "signal_change_of (VArr [a, b, c] d) (VArr [a', b', c'] d')
         = ebind (vector_gather (VArr [a, b, c] d) (VArr [a', b', c'] d'))
             (\<lambda>g. Inr (VArr [length g, 1] g))"
proof -
  let ?ps = "hits d 1"
  let ?g = "collect (map (\<lambda>p. ebind (ravel [a', b', c'] (map int (unravel [a, b, c] p)))
                                 (\<lambda>q. Inr (real_of_int effect_size * d' ! q))) ?ps)"
  have zeros: "np_zeros [int (length ?ps), 1]
               = Inr (VArr [length ?ps, 1] (replicate (length ?ps) 0))"
    by (simp add: np_zeros_def)
  have loop: "voxel_loop (index_arrays [a, b, c] ?ps) (VArr [a', b', c'] d')
               (map int [0 ..< length ?ps]) (VArr [length ?ps, 1] (replicate (length ?ps) 0))
             = ebind ?g (\<lambda>g. Inr (VArr [length ?ps, 1] g))"
    by (rule voxel_loop_all) simp
  have lhs: "signal_change_of (VArr [a, b, c] d) (VArr [a', b', c'] d')
             = ebind ?g (\<lambda>g. Inr (VArr [length ?ps, 1] g))"
    unfolding signal_change_of_def
    by (simp only: np_where_eq.simps nd_sum.simps py_int.simps assms ebind_Inr zeros
        py_range_upto [OF of_nat_0_le_iff] nat_int loop)
  have gather: "vector_gather (VArr [a, b, c] d) (VArr [a', b', c'] d') = ?g"
    by (simp add: vector_gather_def)
  show ?thesis
    unfolding lhs gather
    by (cases ?g) (simp_all add: collect_length)
qed

theorem signal_change_is_gather_witness:
  "trunc (sum_list [1, 0, 1, 1]) = int (length (hits [1, 0, 1, 1] 1))
   \<and> signal_change_of (VArr [1, 2, 2] [1, 0, 1, 1]) (VArr [1, 2, 2] [10, 20, 30, 40])
     = Inr (VArr [3, 1] [10, 30, 40])"
proof -
  have h: "trunc (sum_list [1, 0, 1, 1]) = int (length (hits [1, 0, 1, 1] 1))"
    by (rule binary_sum) simp
  have g: "vector_gather (VArr [1, 2, 2] [1, 0, 1, 1]) (VArr [1, 2, 2] [10, 20, 30, 40])
           = Inr [10, 30, 40]"
    by (simp add: vector_gather_def hits_def effect_size_def)
  show ?thesis
    unfolding signal_change_is_gather [OF h, of 1 2 2 1 2 2 "[10, 20, 30, 40]"] g
    using h by simp
qed

subsection \<open>Runs of the notebook\<close>

lemmas cell_defs =
  load_participant_data_def participant_dimensions_def template_and_mask_def
  noise_parameters_def print_noise_parameters_def signal_voxels_def plot_signal_voxels_def
  establish_effect_size_def characterize_patterns_def plot_patterns_def
  event_time_course_def export_time_course_def voxel_weights_def convolve_with_hrf_def
  plot_signal_def multiply_response_def add_noise_def plot_noise_def plot_spatial_noise_def
  plot_temporal_noise_def plot_system_noise_def combine_signal_and_noise_def roi_bounds_def
  trials_at_def one_row_per_voxel_def pull_out_trials_def plot_trials_def represent_data_def
  univariate_test_def multivariate_test_def

lemma pbind_assoc: "pbind (pbind m f) g = pbind m (\<lambda>x. pbind (f x) g)"
  by (rule ext) (simp add: pbind_def split: prod.splits sum.splits)

lemma pbind_case_prod:
  "pbind (case p of (a, b) \<Rightarrow> f a b) k = (case p of (a, b) \<Rightarrow> pbind (f a b) k)"
  by (cases p) simp

lemmas pbind_flat = pbind_assoc pbind_case_prod

lemma pbind_own_Inr: "pbind (own (Inr x)) k = k x"
  by (rule ext) (simp add: pbind_def own_def)

lemma replay_append: "replay L w (es @ es') = replay L (replay L w es) es'"
  by (induction es arbitrary: w) auto

lemma follows_own: "follows L [] (own r)"
  by (auto simp: follows_def own_def failing_last_def split: sum.splits)

lemma follows_call: "follows L [f] (call L f args)"
  by (auto simp: follows_def call_def failing_last_def split: sum.splits prod.splits)

lemma failing_last_append:
  assumes "failing_last new (Inr x :: exn + 'a)" "failing_last new' (r :: exn + 'b)"
  shows "failing_last (new @ new') r"
  unfolding failing_last_def
proof (intro allI impI)
  fix i e
  assume i: "i < length (new @ new')" and e: "snd (snd ((new @ new') ! i)) = Inl e"
  show "Suc i = length (new @ new') \<and> r = Inl e"
  proof (cases "i < length new")
    case True
    then have "snd (snd (new ! i)) = Inl e" using e by (simp add: nth_append)
    with assms(1) True show ?thesis by (auto simp: failing_last_def)
  next
    case False
    then have "snd (snd (new' ! (i - length new))) = Inl e" "i - length new < length new'"
      using e i by (auto simp: nth_append)
    with assms(2) have "Suc (i - length new) = length new' \<and> r = Inl e"
      by (auto simp: failing_last_def)
    with False show ?thesis by auto
  qed
qed

lemma failing_last_Inl:
  "failing_last new (Inl e :: exn + 'a) \<Longrightarrow> failing_last new (Inl e :: exn + 'b)"
  by (simp add: failing_last_def)

lemma follows_pbind:
  assumes m: "follows L ns m" and k: "\<And>x. follows L ms (k x)"
  shows "follows L (ns @ ms) (pbind m k)"
  unfolding follows_def
proof
  fix s
  obtain r s' where ms: "m s = (r, s')" by (cases "m s")
  from m obtain new where new: "log s' = log s @ new" "world s' = replay L (world s) new"
      "failing_last new r" "case r of Inr x \<Rightarrow> map fst new = ns | Inl e \<Rightarrow> prefix (map fst new) ns"
    unfolding follows_def using ms by (metis fst_conv snd_conv)
  show "\<exists>new. log (snd (pbind m k s)) = log s @ new
            \<and> world (snd (pbind m k s)) = replay L (world s) new
            \<and> failing_last new (fst (pbind m k s))
            \<and> (case fst (pbind m k s) of
                  Inr x \<Rightarrow> map fst new = ns @ ms
                | Inl e \<Rightarrow> prefix (map fst new) (ns @ ms))"
  proof (cases r)
    case (Inl e)
    then have "pbind m k s = (Inl e, s')" by (simp add: pbind_def ms)
    with new Inl show ?thesis
      by (intro exI [of _ new]) (auto intro: failing_last_Inl simp: prefix_def)
  next
    case (Inr x)
    obtain r' s'' where ks: "k x s' = (r', s'')" by (cases "k x s'")
    from k [of x] obtain new' where new':
      "log s'' = log s' @ new'" "world s'' = replay L (world s') new'"
      "failing_last new' r'"
      "case r' of Inr x \<Rightarrow> map fst new' = ms | Inl e \<Rightarrow> prefix (map fst new') ms"
      unfolding follows_def using ks by (metis fst_conv snd_conv)
    have run: "pbind m k s = (r', s'')" by (simp add: pbind_def ms Inr ks)
    have "failing_last (new @ new') r'"
      using new(3) new'(3) unfolding Inr by (rule failing_last_append)
    with new new' Inr run show ?thesis
      by (intro exI [of _ "new @ new'"]) (auto simp: replay_append split: sum.splits)
  qed
qed

lemma follows_call_then:
  "(\<And>x. follows L ns (k x)) \<Longrightarrow> follows L (f # ns) (pbind (call L f args) k)"
  using follows_pbind [OF follows_call, of L ns k f args] by simp

lemma follows_own_then:
  "(\<And>x. follows L ns (k x)) \<Longrightarrow> follows L ns (pbind (own r) k)"
  using follows_pbind [OF follows_own, of L ns k r] by simp

lemma follows_case_prod:
  "(\<And>a b. follows L ns (k a b)) \<Longrightarrow> follows L ns (case p of (a, b) \<Rightarrow> k a b)"
  by (cases p) simp

lemmas follows_intros =
  follows_call_then follows_own_then follows_case_prod follows_call follows_own

lemma follows_simulation:
  "follows L simulation_calls (simulate_and_analyse L home volume dim' dimsize tr)"
  unfolding simulate_and_analyse_def simulation_calls_def cell_defs pbind_flat
  by (intro follows_intros)

lemma follows_input:
  "(\<And>home volume dim' dimsize tr. follows L ns (k home volume dim' dimsize tr)) \<Longrightarrow>
   follows L (input_calls @ ns)
     (pbind (load_participant_data L) (\<lambda>(home, nii, volume).
      pbind (participant_dimensions L nii volume) (\<lambda>(dim', dimsize, tr).
      k home volume dim' dimsize tr)))"
  unfolding input_calls_def cell_defs pbind_flat append.simps
  by (intro follows_intros)

lemma follows_notebook: "follows L notebook_calls (notebook L)"
  unfolding notebook_def notebook_calls_def
  by (rule follows_input) (rule follows_simulation)

lemma every_call_own: "every_call ok (own r)"
  by (simp add: every_call_def own_def)

lemma every_call_call: "(\<And>r. ok (f, args, r)) \<Longrightarrow> every_call ok (call L f args)"
  by (simp add: every_call_def call_def split: prod.splits)

lemma every_call_pbind:
  assumes "every_call ok m" "\<And>x. every_call ok (k x)"
  shows "every_call ok (pbind m k)"
  unfolding every_call_def
proof
  fix s
  obtain r s' where ms: "m s = (r, s')" by (cases "m s")
  from assms(1) obtain new where new: "log s' = log s @ new" "list_all ok new"
    unfolding every_call_def using ms by (metis snd_conv)
  show "\<exists>new. log (snd (pbind m k s)) = log s @ new \<and> list_all ok new"
  proof (cases r)
    case (Inl e)
    with new ms show ?thesis by (auto simp: pbind_def)
  next
    case (Inr x)
    from assms(2) [of x] obtain new' where "log (snd (k x s')) = log s' @ new'" "list_all ok new'"
      unfolding every_call_def by blast
    with new ms Inr show ?thesis
      by (intro exI [of _ "new @ new'"]) (simp add: pbind_def)
  qed
qed

lemma every_call_own_then:
  assumes "\<And>x. r = Inr x \<Longrightarrow> every_call ok (k x)"
  shows "every_call ok (pbind (own r) k)"
proof (cases r)
  case (Inl e)
  then show ?thesis by (simp add: every_call_def pbind_def own_def)
next
  case (Inr x)
  with assms [of x] show ?thesis by (simp add: every_call_def pbind_def own_def)
qed

lemma every_call_call_then:
  "(\<And>r. ok (f, args, r)) \<Longrightarrow> (\<And>x. every_call ok (k x)) \<Longrightarrow>
   every_call ok (pbind (call L f args) k)"
  by (intro every_call_pbind every_call_call)

lemma every_call_case_prod:
  "(\<And>a b. every_call ok (k a b)) \<Longrightarrow> every_call ok (case p of (a, b) \<Rightarrow> k a b)"
  by (cases p) simp

lemmas every_call_intros =
  every_call_call_then every_call_own_then every_call_case_prod every_call_call every_call_own

lemma downstream_calls:
  "every_call (downstream_ok home tr) (simulate_and_analyse L home volume dim' dimsize tr)"
  unfolding simulate_and_analyse_def cell_defs pbind_flat
  by (intro every_call_intros) (auto simp: downstream_ok_def exported_files_def)

lemma pbind_cases:
  assumes "pbind m k s = (r, s'')"
  obtains (raised) e where "m s = (Inl e, s'')" "r = Inl e"
  | (went_on) x s' where "m s = (Inr x, s')" "k x s' = (r, s'')"
  using assms by (auto simp: pbind_def split: prod.splits sum.splits)

lemma call_result:
  "call L f args s = (r, s') \<Longrightarrow>
   s' = \<lparr>log = log s @ [(f, args, r)], world = snd (L f args (world s))\<rparr>"
  by (auto simp: call_def split: prod.splits)

lemma own_result: "own r0 s = (r, s') \<longleftrightarrow> r0 = r \<and> s' = s"
  by (auto simp: own_def)

lemma every_call_run:
  "every_call ok m \<Longrightarrow> m s = (r, s') \<Longrightarrow> \<exists>new. log s' = log s @ new \<and> list_all ok new"
  unfolding every_call_def by (metis snd_conv)

lemma run_input:
  assumes "run L w = (r, s)"
  shows "(\<exists>e. r = Inl e
            \<and> list_all (\<lambda>(f, args, r). f \<in> set input_calls) (log s)
            \<and> (\<forall>a dimsize. (''.get_zooms'', a, Inr dimsize) \<in> set (log s) \<longrightarrow>
                  (\<exists>tr. repetition_time dimsize = Inr tr)
                  \<or> repetition_time dimsize = Inl e \<and> map fst (log s) = take 6 input_calls))
       \<or> (\<exists>p home path nii volume dim' header dimsize tr pr new.
            log s = [(''Path.home'', [], Inr p), (''str'', [P p], Inr home),
                     (''nibabel.load'', [P path], Inr nii), (''.get_data'', [P nii], Inr volume),
                     (''.header'', [P nii], Inr header),
                     (''.get_zooms'', [P header], Inr dimsize),
                     (''print'', [P dim'], Inr pr)] @ new
            \<and> str_add home (VStr scan_path) = Inr path
            \<and> nd_shape volume = Inr dim'
            \<and> repetition_time dimsize = Inr tr
            \<and> list_all (downstream_ok home tr) new)"
  using assms
  unfolding run_def notebook_def load_participant_data_def participant_dimensions_def pbind_flat
    pbind_own_Inr prod.case
  apply (elim pbind_cases)
  apply (auto simp: own_result input_calls_def scan_path_def dest!: call_result
      dest: every_call_run [OF downstream_calls])
  done

lemma run_log:
  assumes "run L w = (r, s)"
  shows "world s = replay L w (log s)" and "failing_last (log s) r"
    and "prefix (map fst (log s)) notebook_calls"
    and "r = Inr x \<Longrightarrow> map fst (log s) = notebook_calls"
  using follows_notebook [of L] assms unfolding follows_def run_def
  by (force split: sum.splits dest!: spec [of _ "\<lparr>log = [], world = w\<rparr>"])+

lemma replay_snoc: "replay L w (es @ [(f, args, r)]) = snd (L f args (replay L w es))"
  by (simp add: replay_append)

text \<open>
  Claim C6: the notebook has no \<^verbatim>\<open>try\<close>, so an exception raised by a library call is the
  outcome of the run. In every run in which some call raised \<open>e\<close>, for every library and
  every starting world: the run ends with \<open>e\<close>; the failing call is the last one logged,
  and every call before it returned; the world is the one the failing call left, so no file
  is written after it; and the calls made are an initial part of the notebook's calls, so
  no statement after the failing one ran.
\<close>

theorem exception_ends_run:
  assumes "run L w = (r, s)" and "(f, args, Inl e) \<in> set (log s)"
  shows "r = Inl e \<and> last (log s) = (f, args, Inl e)
         \<and> (\<forall>en \<in> set (butlast (log s)). \<exists>v. snd (snd en) = Inr v)
         \<and> world s = snd (L f args (replay L w (butlast (log s))))
         \<and> prefix (map fst (log s)) notebook_calls"
proof -
  note facts = run_log [OF assms(1)]
  from assms(2) obtain i where i: "i < length (log s)" "log s ! i = (f, args, Inl e)"
    by (auto simp: in_set_conv_nth)
  with facts(2) have last: "Suc i = length (log s)" and r: "r = Inl e"
    by (auto simp: failing_last_def)
  from i last have l: "last (log s) = (f, args, Inl e)"
    by (metis diff_Suc_1 last_conv_nth length_0_conv nat.distinct(1))
  have ne: "log s \<noteq> []" using i by auto
  have before: "\<exists>v. snd (snd en) = Inr v" if "en \<in> set (butlast (log s))" for en
  proof -
    from that obtain j where j: "j < length (butlast (log s))" "butlast (log s) ! j = en"
      by (auto simp: in_set_conv_nth)
    then have en: "log s ! j = en" "Suc j < length (log s)" by (auto simp: nth_butlast)
    show ?thesis
    proof (cases "snd (snd en)")
      case (Inl a)
      with facts(2) en have "Suc j = length (log s)"
        unfolding failing_last_def by (metis Suc_lessD)
      with en(2) show ?thesis by simp
    next
      case (Inr v)
      then show ?thesis by simp
    qed
  qed
  have "log s = butlast (log s) @ [(f, args, Inl e)]"
    using ne l by (metis append_butlast_last_id)
  then have "replay L w (log s) = snd (L f args (replay L w (butlast (log s))))"
    by (metis replay_snoc)
  with facts r l before show ?thesis by auto
qed


lemma trunc_of_int [simp]: "trunc (real_of_int k) = k"
  by (simp add: trunc_def)


lemma accesses_in_bounds:
  assumes "length shape = length zooms"
  shows "((\<exists>x. py_index (VTuple zooms) 3 = Inr x) \<and> (\<exists>y. py_index (VTuple shape) 3 = Inr y)
          \<and> (\<exists>xs. py_slice (VTuple shape) (Some 0) (Some 3) = Inr (VTuple xs) \<and> length xs = 3))
         \<longleftrightarrow> 4 \<le> length zooms"
  using assms by (auto simp: seq_index_def seq_slice_def slice_bound_def)

lemma input_log_names: "map fst (input_log p home path nii volume header dimsize dim' pr) = input_calls"
  by (simp add: input_log_def input_calls_def)

lemma input_log_zooms:
  "(''.get_zooms'', a, r) \<in> set (input_log p home path nii volume header dimsize dim' pr)
   \<longleftrightarrow> a = [P header] \<and> r = Inr dimsize"
  by (auto simp: input_log_def)


lemma input_calls_plain:
  assumes "f \<in> set input_calls"
  shows "f \<noteq> ''fmrisim.export_epoch_file''" "f \<noteq> ''fmrisim.export_3_column''"
    "f \<noteq> ''fmrisim.convolve_hrf''" "f \<noteq> ''fmrisim.generate_noise''"
  using assms by (auto simp: input_calls_def)

lemma run_cases:
  assumes "run L w = (r, s)"
  obtains (input_failed) e where "r = Inl e"
      "\<And>f args r. (f, args, r) \<in> set (log s) \<Longrightarrow> f \<in> set input_calls"
      "\<And>a dimsize. (''.get_zooms'', a, Inr dimsize) \<in> set (log s) \<Longrightarrow>
          (\<exists>tr. repetition_time dimsize = Inr tr)
          \<or> repetition_time dimsize = Inl e \<and> map fst (log s) = take 6 input_calls"
  | (simulated) p home path nii volume dim' header dimsize tr pr new where
      "log s = input_log p home path nii volume header dimsize dim' pr @ new"
      "str_add home (VStr scan_path) = Inr path"
      "nd_shape volume = Inr dim'"
      "repetition_time dimsize = Inr tr"
      "\<And>f args r. (f, args, r) \<in> set new \<Longrightarrow> downstream_ok home tr (f, args, r)"
proof -
  from run_input [OF assms] consider
    (a) e where "r = Inl e" "list_all (\<lambda>(f, args, r). f \<in> set input_calls) (log s)"
      "\<forall>a dimsize. (''.get_zooms'', a, Inr dimsize) \<in> set (log s) \<longrightarrow>
                  (\<exists>tr. repetition_time dimsize = Inr tr)
                  \<or> repetition_time dimsize = Inl e \<and> map fst (log s) = take 6 input_calls"
  | (b) p home path nii volume dim' header dimsize tr pr new where
      "log s = input_log p home path nii volume header dimsize dim' pr @ new"
      "str_add home (VStr scan_path) = Inr path"
      "nd_shape volume = Inr dim'"
      "repetition_time dimsize = Inr tr"
      "list_all (downstream_ok home tr) new"
    unfolding input_log_def by blast
  then show thesis
  proof cases
    case a
    show thesis
    proof (rule input_failed [OF a(1)])
      show "f \<in> set input_calls" if "(f, args, r) \<in> set (log s)" for f args r
        using a(2) that unfolding list_all_iff by blast
      show "(\<exists>tr. repetition_time dimsize = Inr tr)
          \<or> repetition_time dimsize = Inl e \<and> map fst (log s) = take 6 input_calls"
        if "(''.get_zooms'', a, Inr dimsize) \<in> set (log s)" for a dimsize
        using a(3) that by blast
    qed
  next
    case b
    show thesis
    proof (rule simulated [OF b(1-4)])
      show "downstream_ok home tr (f, args, r)" if "(f, args, r) \<in> set new" for f args r
        using b(5) that unfolding list_all_iff by blast
    qed
  qed
qed

lemma downstream_okD:
  assumes "downstream_ok home tr (f, args, r)"
  shows "f \<noteq> ''.get_zooms''" "f \<noteq> ''nibabel.load''"
    and "f = ''fmrisim.export_epoch_file'' \<or> f = ''fmrisim.convolve_hrf''
         \<Longrightarrow> kwarg ''tr_duration'' args = Some tr"
    and "f = ''fmrisim.generate_noise''
         \<Longrightarrow> \<exists>n. py_int tr = Inr n \<and> kwarg ''tr_duration'' args = Some (VInt n)"
    and "f = ''fmrisim.export_epoch_file'' \<or> f = ''fmrisim.export_3_column''
         \<Longrightarrow> \<exists>file \<in> set exported_files. \<exists>path.
               str_add home (VStr file) = Inr path \<and> kwarg ''filename'' args = Some path"
  using assms unfolding downstream_ok_def by auto

lemma short_zooms: "length zooms < 4 \<Longrightarrow> repetition_time (VTuple zooms) = Inl IndexError"
  by (simp add: repetition_time_def seq_index_def)

text \<open>The \<^verbatim>\<open>.get_zooms\<close> entry of a run, and what became of its result.\<close>

lemma run_zooms:
  assumes "run L w = (r, s)" and "(''.get_zooms'', a, Inr dimsize) \<in> set (log s)"
  shows "(repetition_time dimsize = Inl IndexError \<longrightarrow>
            r = Inl IndexError \<and> map fst (log s) = take 6 input_calls)
       \<and> (\<forall>tr. repetition_time dimsize = Inr tr \<longrightarrow>
            (\<forall>(f, args, r) \<in> set (log s).
               (f = ''fmrisim.export_epoch_file'' \<or> f = ''fmrisim.convolve_hrf''
                  \<longrightarrow> kwarg ''tr_duration'' args = Some tr)
             \<and> (f = ''fmrisim.generate_noise''
                  \<longrightarrow> (\<exists>n. py_int tr = Inr n \<and> kwarg ''tr_duration'' args = Some (VInt n)))))"
  using assms(1)
proof (cases rule: run_cases)
  case (input_failed e)
  from input_failed(3) [OF assms(2)] have 1: "repetition_time dimsize = Inl IndexError \<longrightarrow>
            r = Inl IndexError \<and> map fst (log s) = take 6 input_calls"
    using input_failed(1) by auto
  have 2: "(f = ''fmrisim.export_epoch_file'' \<or> f = ''fmrisim.convolve_hrf''
                  \<longrightarrow> kwarg ''tr_duration'' args = Some tr)
             \<and> (f = ''fmrisim.generate_noise''
                  \<longrightarrow> (\<exists>n. py_int tr = Inr n \<and> kwarg ''tr_duration'' args = Some (VInt n)))"
    if "(f, args, r') \<in> set (log s)" for f args r' tr
    using input_calls_plain [OF input_failed(2) [OF that]] by simp
  from 1 2 show ?thesis by blast
next
  case (simulated p home path nii volume dim' header dimsize' tr' pr new)
  have notnew: "(''.get_zooms'', a, Inr dimsize) \<notin> set new"
    using simulated(5) downstream_okD(1) by blast
  with assms(2) have same: "dimsize' = dimsize"
    unfolding simulated(1) by (auto simp: input_log_zooms)
  have 2: "(f = ''fmrisim.export_epoch_file'' \<or> f = ''fmrisim.convolve_hrf''
                  \<longrightarrow> kwarg ''tr_duration'' args = Some tr')
             \<and> (f = ''fmrisim.generate_noise''
                  \<longrightarrow> (\<exists>n. py_int tr' = Inr n \<and> kwarg ''tr_duration'' args = Some (VInt n)))"
    if "(f, args, r') \<in> set (log s)" for f args r'
  proof (cases "(f, args, r') \<in> set new")
    case True
    from simulated(5) [OF this] show ?thesis
      using downstream_okD(3,4) by blast
  next
    case False
    with that have "(f, args, r') \<in> set (input_log p home path nii volume header dimsize' dim' pr)"
      unfolding simulated(1) by simp
    then have "f \<in> set input_calls"
      by (metis input_log_names fst_conv image_eqI set_map)
    from input_calls_plain [OF this] show ?thesis by simp
  qed
  from simulated(4) same 2 show ?thesis by auto
qed

text \<open>
  Claim C5: the notebook needs a volume of four dimensions. For a header with one zoom per
  dimension of the volume, \<^verbatim>\<open>dimsize[3]\<close> and \<^verbatim>\<open>dim[3]\<close> are in bounds and
  \<^verbatim>\<open>dim[0:3]\<close> has its three entries exactly when there are at least four dimensions; and
  a run whose header has fewer than four zooms ends with \<^verbatim>\<open>IndexError\<close> at
  \<^verbatim>\<open>tr = dimsize[3]\<close>, after the six calls that load the scan and read its header, before
  any call of the simulation.
\<close>

theorem four_dimensions_needed:
  "(\<forall>shape zooms. length shape = length zooms \<longrightarrow>
      ((\<exists>x. py_index (VTuple zooms) 3 = Inr x) \<and> (\<exists>y. py_index (VTuple shape) 3 = Inr y)
        \<and> (\<exists>xs. py_slice (VTuple shape) (Some 0) (Some 3) = Inr (VTuple xs) \<and> length xs = 3))
      = (4 \<le> length zooms))
   \<and> (\<forall>L w r s a zooms.
        run L w = (r, s) \<longrightarrow> (''.get_zooms'', a, Inr (VTuple zooms)) \<in> set (log s) \<longrightarrow>
        length zooms < 4 \<longrightarrow>
        r = Inl IndexError
        \<and> map fst (log s)
            = [''Path.home'', ''str'', ''nibabel.load'', ''.get_data'', ''.header'',
               ''.get_zooms''])"
proof (intro conjI allI impI)
  fix shape zooms :: "val list"
  assume "length shape = length zooms"
  then show "((\<exists>x. py_index (VTuple zooms) 3 = Inr x) \<and> (\<exists>y. py_index (VTuple shape) 3 = Inr y)
        \<and> (\<exists>xs. py_slice (VTuple shape) (Some 0) (Some 3) = Inr (VTuple xs) \<and> length xs = 3))
      = (4 \<le> length zooms)"
    by (rule accesses_in_bounds)
next
  fix L :: "'w library" and w r s a zooms
  assume run: "run L w = (r, s)"
    and zooms: "(''.get_zooms'', a, Inr (VTuple zooms)) \<in> set (log s)" "length zooms < 4"
  from run_zooms [OF run zooms(1)] short_zooms [OF zooms(2)]
  have "r = Inl IndexError \<and> map fst (log s) = take 6 input_calls"
    by blast
  then show "r = Inl IndexError"
    and "map fst (log s) = [''Path.home'', ''str'', ''nibabel.load'', ''.get_data'', ''.header'',
               ''.get_zooms'']"
    by (simp_all add: input_calls_def)
qed


subsection \<open>Concrete runs\<close>

text \<open>
  Where the named calls stand among the calls of a finished run, and three runs on the
  demonstration library: one that finishes, one in which \<^verbatim>\<open>fmrisim.calc_noise\<close> raises, and
  one on a scan of three dimensions.
\<close>

lemma delegated_in_notebook:
  "filter (\<lambda>f. f \<in> set delegated_steps) notebook_calls = delegated_steps"
  by (simp add: delegated_steps_def notebook_calls_def input_calls_def simulation_calls_def)

lemma helpers_in_notebook:
  "filter (\<lambda>f. f \<in> set noise_helpers) notebook_calls = noise_helpers"
  by (simp add: noise_helpers_def notebook_calls_def input_calls_def simulation_calls_def)


lemma demo_summary:
  "(case run demo [] of (r, s) \<Rightarrow> (r, world s, take 7 (log s)))
   = (Inr (VFloat (3 / 4)),
      [(''/home/u/Condition_B.txt'', VNone), (''/home/u/Condition_A.txt'', VNone),
       (''/home/u/epoch_file.npy'', VNone)],
      [(''Path.home'', [], Inr VNone), (''str'', [P VNone], Inr (VStr ''/home/u'')),
       (''nibabel.load'', [P (VStr ''/home/u/Corr_MVPA/Participant_01_rest_run01.nii'')],
        Inr VNone),
       (''.get_data'', [P VNone], Inr demo_volume), (''.header'', [P VNone], Inr VNone),
       (''.get_zooms'', [P VNone], Inr demo_zooms),
       (''print'', [P (VTuple [VInt 1, VInt 1, VInt 1, VInt 20])], Inr VNone)])"
  by code_simp

lemma demo_succeeds: "fst (run demo []) = Inr (VFloat (3 / 4))"
  using demo_summary by (simp split: prod.splits)

lemma demo_world:
  "world (snd (run demo []))
   = [(''/home/u/Condition_B.txt'', VNone), (''/home/u/Condition_A.txt'', VNone),
      (''/home/u/epoch_file.npy'', VNone)]"
  using demo_summary by (simp split: prod.splits)


lemma broken_summary:
  "(case run broken_demo [] of (r, s) \<Rightarrow> (r, world s, map fst (log s), last (log s)))
   = (Inl (LibraryError ''fmrisim.calc_noise''), [],
      [''Path.home'', ''str'', ''nibabel.load'', ''.get_data'', ''.header'', ''.get_zooms'',
       ''print'', ''fmrisim.mask_brain'', ''fmrisim.calc_noise''],
      (''fmrisim.calc_noise'',
       [K ''volume'' (VArr [1, 1, 1, 20] (replicate 20 0)), K ''mask'' (VArr [1, 1, 1] [1]),
        K ''noise_dict'' (VDict [(''voxel_size'', VList [VFloat 3, VFloat 3, VFloat 3])])],
       Inl (LibraryError ''fmrisim.calc_noise'')))"
  by code_simp

lemma flat_summary:
  "run flat_demo []
   = (Inl IndexError,
      \<lparr>log = [(''Path.home'', [], Inr VNone), (''str'', [P VNone], Inr (VStr ''/home/u'')),
         (''nibabel.load'', [P (VStr ''/home/u/Corr_MVPA/Participant_01_rest_run01.nii'')],
          Inr VNone),
         (''.get_data'', [P VNone], Inr (VArr [1, 1, 1] [0])),
         (''.header'', [P VNone], Inr VNone),
         (''.get_zooms'', [P VNone], Inr (VTuple [VFloat 3, VFloat 3, VFloat 3]))],
       world = []\<rparr>)"
  by code_simp

text \<open>The theorems above, at these runs.\<close>

theorem exception_ends_run_witness:
  "(''fmrisim.calc_noise'',
     [K ''volume'' (VArr [1, 1, 1, 20] (replicate 20 0)), K ''mask'' (VArr [1, 1, 1] [1]),
      K ''noise_dict'' (VDict [(''voxel_size'', VList [VFloat 3, VFloat 3, VFloat 3])])],
     Inl (LibraryError ''fmrisim.calc_noise'')) \<in> set (log (snd (run broken_demo [])))
   \<and> fst (run broken_demo []) = Inl (LibraryError ''fmrisim.calc_noise'')
   \<and> map fst (log (snd (run broken_demo [])))
       = [''Path.home'', ''str'', ''nibabel.load'', ''.get_data'', ''.header'', ''.get_zooms'',
          ''print'', ''fmrisim.mask_brain'', ''fmrisim.calc_noise'']
   \<and> world (snd (run broken_demo [])) = []"
proof -
  obtain r s where rs: "run broken_demo [] = (r, s)" by (cases "run broken_demo []")
  let ?en = "(''fmrisim.calc_noise'',
     [K ''volume'' (VArr [1, 1, 1, 20] (replicate 20 0)), K ''mask'' (VArr [1, 1, 1] [1]),
      K ''noise_dict'' (VDict [(''voxel_size'', VList [VFloat 3, VFloat 3, VFloat 3])])],
     Inl (LibraryError ''fmrisim.calc_noise''))"
  from broken_summary have sum: "r = Inl (LibraryError ''fmrisim.calc_noise'')" "world s = []"
    "map fst (log s) = [''Path.home'', ''str'', ''nibabel.load'', ''.get_data'', ''.header'',
       ''.get_zooms'', ''print'', ''fmrisim.mask_brain'', ''fmrisim.calc_noise'']"
    "last (log s) = ?en"
    unfolding rs by simp_all
  from sum(3) have "log s \<noteq> []" by auto
  with sum(4) have "?en \<in> set (log s)" by (metis last_in_set)
  from exception_ends_run [OF rs this] this sum show ?thesis
    unfolding rs by simp
qed

theorem four_dimensions_needed_witness:
  "(''.get_zooms'', [P VNone], Inr (VTuple [VFloat 3, VFloat 3, VFloat 3]))
     \<in> set (log (snd (run flat_demo [])))
   \<and> fst (run flat_demo []) = Inl IndexError
   \<and> map fst (log (snd (run flat_demo [])))
       = [''Path.home'', ''str'', ''nibabel.load'', ''.get_data'', ''.header'', ''.get_zooms'']
   \<and> ((\<exists>x. py_index (VTuple [VFloat 3, VFloat 3, VFloat 3, VFloat 1500]) 3 = Inr x)
        \<and> (\<exists>y. py_index (VTuple [VInt 1, VInt 1, VInt 1, VInt 20]) 3 = Inr y)
        \<and> (\<exists>xs. py_slice (VTuple [VInt 1, VInt 1, VInt 1, VInt 20]) (Some 0) (Some 3)
                   = Inr (VTuple xs) \<and> length xs = 3))
   \<and> \<not> ((\<exists>x. py_index (VTuple [VFloat 3, VFloat 3, VFloat 3]) 3 = Inr x)
        \<and> (\<exists>y. py_index (VTuple [VInt 1, VInt 1, VInt 1]) 3 = Inr y)
        \<and> (\<exists>xs. py_slice (VTuple [VInt 1, VInt 1, VInt 1]) (Some 0) (Some 3)
                   = Inr (VTuple xs) \<and> length xs = 3))"
proof -
  note bounds = conjunct1 [OF four_dimensions_needed, rule_format]
  note fails = conjunct2 [OF four_dimensions_needed, rule_format]
  have logged: "(''.get_zooms'', [P VNone], Inr (VTuple [VFloat 3, VFloat 3, VFloat 3]))
     \<in> set (log (snd (run flat_demo [])))"
    unfolding flat_summary by simp
  have run: "run flat_demo [] = (fst (run flat_demo []), snd (run flat_demo []))" by simp
  from fails [OF run logged] have 1: "fst (run flat_demo []) = Inl IndexError
   \<and> map fst (log (snd (run flat_demo [])))
       = [''Path.home'', ''str'', ''nibabel.load'', ''.get_data'', ''.header'', ''.get_zooms'']"
    by simp
  have 2: "((\<exists>x. py_index (VTuple [VFloat 3, VFloat 3, VFloat 3, VFloat 1500]) 3 = Inr x)
        \<and> (\<exists>y. py_index (VTuple [VInt 1, VInt 1, VInt 1, VInt 20]) 3 = Inr y)
        \<and> (\<exists>xs. py_slice (VTuple [VInt 1, VInt 1, VInt 1, VInt 20]) (Some 0) (Some 3)
                   = Inr (VTuple xs) \<and> length xs = 3))"
    using bounds [of "[VInt 1, VInt 1, VInt 1, VInt 20]"
        "[VFloat 3, VFloat 3, VFloat 3, VFloat 1500]"] by simp
  have 3: "\<not> ((\<exists>x. py_index (VTuple [VFloat 3, VFloat 3, VFloat 3]) 3 = Inr x)
        \<and> (\<exists>y. py_index (VTuple [VInt 1, VInt 1, VInt 1]) 3 = Inr y)
        \<and> (\<exists>xs. py_slice (VTuple [VInt 1, VInt 1, VInt 1]) (Some 0) (Some 3)
                   = Inr (VTuple xs) \<and> length xs = 3))"
    using bounds [of "[VInt 1, VInt 1, VInt 1]" "[VFloat 3, VFloat 3, VFloat 3]"] by simp
  from logged 1 2 3 show ?thesis by blast
qed

subsection \<open>The data flow of a finished run\<close>

text \<open>
  A run that finishes went through every cell. The states between the cells are named, so
  that what a cell logged can be read off its definition; every entry logged on the way is
  in the log of the run.
\<close>

lemma pbind_Inr:
  "pbind m k s = (Inr y, s'') \<longleftrightarrow> (\<exists>x s'. m s = (Inr x, s') \<and> k x s' = (Inr y, s''))"
  by (auto simp: pbind_def split: prod.splits sum.splits)

lemma call_Inr:
  "call L f args s = (Inr x, s') \<longleftrightarrow>
     fst (L f args (world s)) = Inr x
     \<and> s' = \<lparr>log = log s @ [(f, args, Inr x)], world = snd (L f args (world s))\<rparr>"
  by (auto simp: call_def split: prod.splits)

lemma own_Inr: "own r s = (Inr x, s') \<longleftrightarrow> r = Inr x \<and> s' = s"
  by (auto simp: own_def)

lemma input_steps:
  assumes "run L w = (Inr score, s)"
  shows "\<exists>p home path nii volume header dimsize dim' pr tr s0.
    log s0 = input_log p home path nii volume header dimsize dim' pr
    \<and> simulate_and_analyse L home volume dim' dimsize tr s0 = (Inr score, s)
    \<and> nd_shape volume = Inr dim' \<and> repetition_time dimsize = Inr tr"
  using assms unfolding run_def notebook_def load_participant_data_def
    participant_dimensions_def input_log_def
  apply (clarsimp simp: pbind_Inr call_Inr own_Inr)
  apply (rule exI)+
  apply (intro conjI)
     prefer 2
     apply assumption
    prefer 2
    apply assumption
   prefer 2
   apply assumption
  apply simp
  done

lemma cells_extend:
  fixes L :: "'w library"
  shows "every_call (\<lambda>_. True) (template_and_mask L volume)"
    and "every_call (\<lambda>_. True) (noise_parameters L volume mask' dimsize)"
    and "every_call (\<lambda>_. True) (print_noise_parameters L noise_dict)"
    and "every_call (\<lambda>_. True) (signal_voxels L dim')"
    and "every_call (\<lambda>_. True) (plot_signal_voxels L signal_volume mask')"
    and "every_call (\<lambda>_. True) (establish_effect_size L template noise_dict signal_volume)"
    and "every_call (\<lambda>_. True) (characterize_patterns L signal_change)"
    and "every_call (\<lambda>_. True) (plot_patterns L pattern_A pattern_B)"
    and "every_call (\<lambda>_. True) (event_time_course L dim' tr)"
    and "every_call (\<lambda>_. True) (export_time_course L home tr stimfunc_A stimfunc_B)"
    and "every_call (\<lambda>_. True) (voxel_weights L stimfunc_A stimfunc_B pattern_A pattern_B)"
    and "every_call (\<lambda>_. True) (convolve_with_hrf L weights_all tr)"
    and "every_call (\<lambda>_. True) (plot_signal L signal_func stimfunc_A stimfunc_B)"
    and "every_call (\<lambda>_. True) (multiply_response L signal_func signal_volume)"
    and "every_call (\<lambda>_. True) (add_noise L dim' tr weights_all mask' template noise_dict)"
    and "every_call (\<lambda>_. True) (plot_noise L noise)"
    and "every_call (\<lambda>_. True) (plot_spatial_noise L dim')"
    and "every_call (\<lambda>_. True) (plot_temporal_noise L total_time tr stimfunc_A)"
    and "every_call (\<lambda>_. True) (plot_system_noise L dim')"
    and "every_call (\<lambda>_. True) (combine_signal_and_noise L signal noise)"
    and "every_call (\<lambda>_. True) (pull_out_trials L coordinates brain onsets_A onsets_B tr)"
    and "every_call (\<lambda>_. True) (plot_trials L trials_A trials_B)"
    and "every_call (\<lambda>_. True) (represent_data L trials_A trials_B)"
    and "every_call (\<lambda>_. True) (univariate_test L trials_A trials_B)"
    and "every_call (\<lambda>_. True) (multivariate_test L trials_A trials_B)"
  unfolding cell_defs pbind_flat by (intro every_call_intros TrueI)+

lemma simulation_steps:
  assumes "simulate_and_analyse L home volume dim' dimsize tr s0 = (Inr score, s)"
  obtains mask' template s1 noise_dict s2 u3 s3 coordinates signal_volume s4 u5 s5 temporal_sd
    signal_change s6 pattern_A pattern_B s7 u8 s8 total_time onsets_A onsets_B stimfunc_A
    stimfunc_B s9 u10 s10 weights_all s11 signal_func s12 u13 s13 signal s14 noise s15 u16 s16
    u17 s17 u18 s18 u19 s19 brain s20 trials_A trials_B s21 u22 s22 distance_matrix mds coords
    s23 mean_difference ttest s24
  where
    "template_and_mask L volume s0 = (Inr (mask', template), s1)"
    "noise_parameters L volume mask' dimsize s1 = (Inr noise_dict, s2)"
    "print_noise_parameters L noise_dict s2 = (Inr u3, s3)"
    "signal_voxels L dim' s3 = (Inr (coordinates, signal_volume), s4)"
    "plot_signal_voxels L signal_volume mask' s4 = (Inr u5, s5)"
    "establish_effect_size L template noise_dict signal_volume s5 = (Inr (temporal_sd, signal_change), s6)"
    "characterize_patterns L signal_change s6 = (Inr (pattern_A, pattern_B), s7)"
    "plot_patterns L pattern_A pattern_B s7 = (Inr u8, s8)"
    "event_time_course L dim' tr s8 = (Inr (total_time, onsets_A, onsets_B, stimfunc_A, stimfunc_B), s9)"
    "export_time_course L home tr stimfunc_A stimfunc_B s9 = (Inr u10, s10)"
    "voxel_weights L stimfunc_A stimfunc_B pattern_A pattern_B s10 = (Inr weights_all, s11)"
    "convolve_with_hrf L weights_all tr s11 = (Inr signal_func, s12)"
    "plot_signal L signal_func stimfunc_A stimfunc_B s12 = (Inr u13, s13)"
    "multiply_response L signal_func signal_volume s13 = (Inr signal, s14)"
    "add_noise L dim' tr weights_all mask' template noise_dict s14 = (Inr noise, s15)"
    "plot_noise L noise s15 = (Inr u16, s16)"
    "plot_spatial_noise L dim' s16 = (Inr u17, s17)"
    "plot_temporal_noise L total_time tr stimfunc_A s17 = (Inr u18, s18)"
    "plot_system_noise L dim' s18 = (Inr u19, s19)"
    "combine_signal_and_noise L signal noise s19 = (Inr brain, s20)"
    "pull_out_trials L coordinates brain onsets_A onsets_B tr s20 = (Inr (trials_A, trials_B), s21)"
    "plot_trials L trials_A trials_B s21 = (Inr u22, s22)"
    "represent_data L trials_A trials_B s22 = (Inr (distance_matrix, mds, coords), s23)"
    "univariate_test L trials_A trials_B s23 = (Inr (mean_difference, ttest), s24)"
    "multivariate_test L trials_A trials_B s24 = (Inr score, s)"
  using assms unfolding simulate_and_analyse_def
  by (clarsimp simp: pbind_Inr)

lemma run_steps:
  assumes "run L w = (Inr score, s)"
  obtains p home path nii volume header dimsize dim' pr tr s0 mask' template s1 noise_dict s2 u3
    s3 coordinates signal_volume s4 u5 s5 temporal_sd signal_change s6 pattern_A pattern_B
    s7 u8 s8 total_time onsets_A onsets_B stimfunc_A stimfunc_B s9 u10 s10 weights_all s11
    signal_func s12 u13 s13 signal s14 noise s15 u16 s16 u17 s17 u18 s18 u19 s19 brain s20
    trials_A trials_B s21 u22 s22 distance_matrix mds coords s23 mean_difference ttest s24
  where
    "log s0 = input_log p home path nii volume header dimsize dim' pr"
    "template_and_mask L volume s0 = (Inr (mask', template), s1)"
    "noise_parameters L volume mask' dimsize s1 = (Inr noise_dict, s2)"
    "print_noise_parameters L noise_dict s2 = (Inr u3, s3)"
    "signal_voxels L dim' s3 = (Inr (coordinates, signal_volume), s4)"
    "plot_signal_voxels L signal_volume mask' s4 = (Inr u5, s5)"
    "establish_effect_size L template noise_dict signal_volume s5 = (Inr (temporal_sd, signal_change), s6)"
    "characterize_patterns L signal_change s6 = (Inr (pattern_A, pattern_B), s7)"
    "plot_patterns L pattern_A pattern_B s7 = (Inr u8, s8)"
    "event_time_course L dim' tr s8 = (Inr (total_time, onsets_A, onsets_B, stimfunc_A, stimfunc_B), s9)"
    "export_time_course L home tr stimfunc_A stimfunc_B s9 = (Inr u10, s10)"
    "voxel_weights L stimfunc_A stimfunc_B pattern_A pattern_B s10 = (Inr weights_all, s11)"
    "convolve_with_hrf L weights_all tr s11 = (Inr signal_func, s12)"
    "plot_signal L signal_func stimfunc_A stimfunc_B s12 = (Inr u13, s13)"
    "multiply_response L signal_func signal_volume s13 = (Inr signal, s14)"
    "add_noise L dim' tr weights_all mask' template noise_dict s14 = (Inr noise, s15)"
    "plot_noise L noise s15 = (Inr u16, s16)"
    "plot_spatial_noise L dim' s16 = (Inr u17, s17)"
    "plot_temporal_noise L total_time tr stimfunc_A s17 = (Inr u18, s18)"
    "plot_system_noise L dim' s18 = (Inr u19, s19)"
    "combine_signal_and_noise L signal noise s19 = (Inr brain, s20)"
    "pull_out_trials L coordinates brain onsets_A onsets_B tr s20 = (Inr (trials_A, trials_B), s21)"
    "plot_trials L trials_A trials_B s21 = (Inr u22, s22)"
    "represent_data L trials_A trials_B s22 = (Inr (distance_matrix, mds, coords), s23)"
    "univariate_test L trials_A trials_B s23 = (Inr (mean_difference, ttest), s24)"
    "multivariate_test L trials_A trials_B s24 = (Inr score, s)"
    "set (log s0) \<subseteq> set (log s)"
    "set (log s1) \<subseteq> set (log s)"
    "set (log s2) \<subseteq> set (log s)"
    "set (log s3) \<subseteq> set (log s)"
    "set (log s4) \<subseteq> set (log s)"
    "set (log s5) \<subseteq> set (log s)"
    "set (log s6) \<subseteq> set (log s)"
    "set (log s7) \<subseteq> set (log s)"
    "set (log s8) \<subseteq> set (log s)"
    "set (log s9) \<subseteq> set (log s)"
    "set (log s10) \<subseteq> set (log s)"
    "set (log s11) \<subseteq> set (log s)"
    "set (log s12) \<subseteq> set (log s)"
    "set (log s13) \<subseteq> set (log s)"
    "set (log s14) \<subseteq> set (log s)"
    "set (log s15) \<subseteq> set (log s)"
    "set (log s16) \<subseteq> set (log s)"
    "set (log s17) \<subseteq> set (log s)"
    "set (log s18) \<subseteq> set (log s)"
    "set (log s19) \<subseteq> set (log s)"
    "set (log s20) \<subseteq> set (log s)"
    "set (log s21) \<subseteq> set (log s)"
    "set (log s22) \<subseteq> set (log s)"
    "set (log s23) \<subseteq> set (log s)"
    "set (log s24) \<subseteq> set (log s)"
    "nd_shape volume = Inr dim'"
    "repetition_time dimsize = Inr tr"
proof -
  from input_steps [OF assms] obtain p home path nii volume header dimsize dim' pr tr s0 where
    i: "log s0 = input_log p home path nii volume header dimsize dim' pr"
    and sim: "simulate_and_analyse L home volume dim' dimsize tr s0 = (Inr score, s)"
    and shape: "nd_shape volume = Inr dim'" and rt: "repetition_time dimsize = Inr tr"
    by blast
  show thesis
  proof (rule simulation_steps [OF sim], goal_cases)
    case (1 mask' template s1 noise_dict s2 u3 s3 coordinates signal_volume s4 u5 s5 temporal_sd
      signal_change s6 pattern_A pattern_B s7 u8 s8 total_time onsets_A onsets_B stimfunc_A
      stimfunc_B s9 u10 s10 weights_all s11 signal_func s12 u13 s13 signal s14 noise s15
      u16 s16 u17 s17 u18 s18 u19 s19 brain s20 trials_A trials_B s21 u22 s22
      distance_matrix mds coords s23 mean_difference ttest s24)
    note c = 1
    from every_call_run [OF cells_extend(25) c(25)] have sub24: "set (log s24) \<subseteq> set (log s)"
      by auto
    from every_call_run [OF cells_extend(24) c(24)] sub24 have sub23: "set (log s23) \<subseteq> set (log s)"
      by auto
    from every_call_run [OF cells_extend(23) c(23)] sub23 have sub22: "set (log s22) \<subseteq> set (log s)"
      by auto
    from every_call_run [OF cells_extend(22) c(22)] sub22 have sub21: "set (log s21) \<subseteq> set (log s)"
      by auto
    from every_call_run [OF cells_extend(21) c(21)] sub21 have sub20: "set (log s20) \<subseteq> set (log s)"
      by auto
    from every_call_run [OF cells_extend(20) c(20)] sub20 have sub19: "set (log s19) \<subseteq> set (log s)"
      by auto
    from every_call_run [OF cells_extend(19) c(19)] sub19 have sub18: "set (log s18) \<subseteq> set (log s)"
      by auto
    from every_call_run [OF cells_extend(18) c(18)] sub18 have sub17: "set (log s17) \<subseteq> set (log s)"
      by auto
    from every_call_run [OF cells_extend(17) c(17)] sub17 have sub16: "set (log s16) \<subseteq> set (log s)"
      by auto
    from every_call_run [OF cells_extend(16) c(16)] sub16 have sub15: "set (log s15) \<subseteq> set (log s)"
      by auto
    from every_call_run [OF cells_extend(15) c(15)] sub15 have sub14: "set (log s14) \<subseteq> set (log s)"
      by auto
    from every_call_run [OF cells_extend(14) c(14)] sub14 have sub13: "set (log s13) \<subseteq> set (log s)"
      by auto
    from every_call_run [OF cells_extend(13) c(13)] sub13 have sub12: "set (log s12) \<subseteq> set (log s)"
      by auto
    from every_call_run [OF cells_extend(12) c(12)] sub12 have sub11: "set (log s11) \<subseteq> set (log s)"
      by auto
    from every_call_run [OF cells_extend(11) c(11)] sub11 have sub10: "set (log s10) \<subseteq> set (log s)"
      by auto
    from every_call_run [OF cells_extend(10) c(10)] sub10 have sub9: "set (log s9) \<subseteq> set (log s)"
      by auto
    from every_call_run [OF cells_extend(9) c(9)] sub9 have sub8: "set (log s8) \<subseteq> set (log s)"
      by auto
    from every_call_run [OF cells_extend(8) c(8)] sub8 have sub7: "set (log s7) \<subseteq> set (log s)"
      by auto
    from every_call_run [OF cells_extend(7) c(7)] sub7 have sub6: "set (log s6) \<subseteq> set (log s)"
      by auto
    from every_call_run [OF cells_extend(6) c(6)] sub6 have sub5: "set (log s5) \<subseteq> set (log s)"
      by auto
    from every_call_run [OF cells_extend(5) c(5)] sub5 have sub4: "set (log s4) \<subseteq> set (log s)"
      by auto
    from every_call_run [OF cells_extend(4) c(4)] sub4 have sub3: "set (log s3) \<subseteq> set (log s)"
      by auto
    from every_call_run [OF cells_extend(3) c(3)] sub3 have sub2: "set (log s2) \<subseteq> set (log s)"
      by auto
    from every_call_run [OF cells_extend(2) c(2)] sub2 have sub1: "set (log s1) \<subseteq> set (log s)"
      by auto
    from every_call_run [OF cells_extend(1) c(1)] sub1 have sub0: "set (log s0) \<subseteq> set (log s)"
      by auto
    show ?case
      by (rule that [OF i c sub0 sub1 sub2 sub3 sub4 sub5 sub6 sub7 sub8 sub9 sub10 sub11 sub12 sub13 sub14 sub15 sub16 sub17 sub18 sub19 sub20 sub21 sub22 sub23 sub24 shape rt])
  qed
qed

text \<open>What a cell that finished has logged, and how its result was obtained.\<close>

lemma template_and_mask_run:
  assumes "template_and_mask L volume s = (Inr result, s')"
  shows "\<exists>r.
      log s' = log s @
       [(''fmrisim.mask_brain'', [K ''volume'' volume, K ''mask_self'' (VBool True)], Inr r)]
    \<and> unpack2 r = Inr result"
  using assms unfolding template_and_mask_def
  by (clarsimp simp: pbind_Inr call_Inr own_Inr)

lemma noise_parameters_run:
  assumes "noise_parameters L volume mask' dimsize s = (Inr result, s')"
  shows "\<exists>x y z.
      log s' = log s @
       [(''fmrisim.calc_noise'', [K ''volume'' volume, K ''mask'' mask', K ''noise_dict'' (VDict [(''voxel_size'', VList [x, y, z])])], Inr result)]
    \<and> py_index dimsize 0 = Inr x
    \<and> py_index dimsize 1 = Inr y
    \<and> py_index dimsize 2 = Inr z"
  using assms unfolding noise_parameters_def
  by (clarsimp simp: pbind_Inr call_Inr own_Inr)


lemma convolve_with_hrf_run:
  assumes "convolve_with_hrf L weights_all tr s = (Inr result, s')"
  shows "\<exists>resolution.
      log s' = log s @
       [(''fmrisim.convolve_hrf'', [K ''stimfunction'' weights_all, K ''tr_duration'' tr, K ''temporal_resolution'' resolution, K ''scale_function'' (VInt 0)], Inr result)]
    \<and> py_truediv (VFloat temporal_res) tr = Inr resolution"
  using assms unfolding convolve_with_hrf_def
  by (clarsimp simp: pbind_Inr call_Inr own_Inr)

lemma multiply_response_run:
  assumes "multiply_response L signal_func signal_volume s = (Inr result, s')"
  shows "log s' = log s @
       [(''fmrisim.apply_signal'', [P signal_func, P signal_volume], Inr result)]"
  using assms unfolding multiply_response_def
  by (clarsimp simp: pbind_Inr call_Inr own_Inr)

lemma add_noise_run:
  assumes "add_noise L dim' tr weights_all mask' template noise_dict s = (Inr result, s')"
  shows "\<exists>dimensions tr_duration step stimfunction_tr.
      log s' = log s @
       [(''[]'', [P weights_all, P (VSlice VNone VNone (VInt step))], Inr stimfunction_tr),
        (''fmrisim.generate_noise'', [K ''dimensions'' dimensions, K ''tr_duration'' (VInt tr_duration), K ''stimfunction_tr'' stimfunction_tr, K ''mask'' mask', K ''template'' template, K ''noise_dict'' noise_dict], Inr result)]
    \<and> py_slice dim' (Some 0) (Some 3) = Inr dimensions
    \<and> py_int tr = Inr tr_duration
    \<and> py_int tr = Inr step"
  using assms unfolding add_noise_def
  by (clarsimp simp: pbind_Inr call_Inr own_Inr)

lemma combine_signal_and_noise_run:
  assumes "combine_signal_and_noise L signal noise s = (Inr result, s')"
  shows "log s' = log s @
       [(''+'', [P signal, P noise], Inr result)]"
  using assms unfolding combine_signal_and_noise_def
  by (clarsimp simp: pbind_Inr call_Inr own_Inr)




lemma represent_data_run:
  assumes "represent_data L trials_A trials_B s = (Inr (distance_matrix, mds, coords), s')"
  shows "\<exists>ta tb stacked distances fitted u1 xs ys colours u2 u3 u4.
      log s' = log s @
       [(''.transpose'', [P trials_A], Inr ta),
        (''.transpose'', [P trials_B], Inr tb),
        (''np.vstack'', [P (VList [ta, tb])], Inr stacked),
        (''sp_distance.pdist'', [P stacked], Inr distances),
        (''sp_distance.squareform'', [P distances], Inr distance_matrix),
        (''manifold.MDS'', [K ''n_components'' (VInt 2), K ''dissimilarity'' (VStr ''precomputed'')], Inr mds),
        (''.fit'', [P mds, P distance_matrix], Inr fitted),
        (''.embedding_'', [P fitted], Inr coords),
        (''plt.figure'', [], Inr u1),
        (''[]'', [P coords, P (VTuple [VSlice VNone VNone VNone, VInt 0])], Inr xs),
        (''[]'', [P coords, P (VTuple [VSlice VNone VNone VNone, VInt 1])], Inr ys),
        (''plt.scatter'', [P xs, P ys, K ''c'' colours], Inr u2),
        (''plt.axis'', [P (VStr ''off'')], Inr u3),
        (''plt.title'', [P (VStr ''Low Dimensional Representation of conditions A and B'')], Inr u4)]
    \<and> colours_of trials_A trials_B = Inr colours"
  using assms unfolding represent_data_def
  by (clarsimp simp: pbind_Inr call_Inr own_Inr)

lemma multivariate_test_run:
  assumes "multivariate_test L trials_A trials_B s = (Inr score, s')"
  shows "\<exists>ta tb input_mat input_labels split X_train X_test y_train y_test svc clf s_str s_head s_line u1.
      log s' = log s @
       [(''.transpose'', [P trials_A], Inr ta),
        (''.transpose'', [P trials_B], Inr tb),
        (''np.vstack'', [P (VList [ta, tb])], Inr input_mat),
        (''sklearn.model_selection.train_test_split'', [P input_mat, P input_labels, K ''test_size'' (VFloat (2 / 10)), K ''random_state'' (VInt 0)], Inr split),
        (''sklearn.svm.SVC'', [K ''kernel'' (VStr ''linear''), K ''C'' (VInt 1)], Inr svc),
        (''.fit'', [P svc, P X_train, P y_train], Inr clf),
        (''.score'', [P clf, P X_test, P y_test], Inr score),
        (''str'', [P score], Inr s_str),
        (''print'', [P s_line], Inr u1)]
    \<and> input_labels_of trials_A trials_B = Inr input_labels
    \<and> unpack4 split = Inr (X_train, X_test, y_train, y_test)
    \<and> py_slice s_str (Some 0) (Some 5) = Inr s_head
    \<and> str_add (VStr ''Classification accuracy between condition A and B: '') s_head = Inr s_line"
  using assms unfolding multivariate_test_def
  by (clarsimp simp: pbind_Inr call_Inr own_Inr)



lemma establish_effect_size_run:
  assumes "establish_effect_size L template noise_dict signal_volume s = (Inr (temporal_sd, signal_change), s')"
  shows "\<exists>max_activity scaled sfnr.
      log s' = log s @
       [(''*'', [P template, P max_activity], Inr scaled),
        (''/'', [P scaled, P sfnr], Inr temporal_sd)]
    \<and> py_getitem_str noise_dict ''max_activity'' = Inr max_activity
    \<and> py_getitem_str noise_dict ''sfnr'' = Inr sfnr
    \<and> signal_change_of signal_volume temporal_sd = Inr signal_change"
  using assms unfolding establish_effect_size_def
  by (clarsimp simp: pbind_Inr call_Inr own_Inr)



lemma plot_spatial_noise_run:
  assumes "plot_spatial_noise L dim' s = (Inr result, s')"
  shows "\<exists>d_low low_spatial d_high high_spatial u1 u2 u3 a u4 u5 u6 u7 b u8.
      log s' = log s @
       [(''fmrisim._generate_noise_spatial'', [P d_low, K ''fwhm'' (VFloat 4)], Inr low_spatial),
        (''fmrisim._generate_noise_spatial'', [P d_high, K ''fwhm'' (VFloat 1)], Inr high_spatial),
        (''plt.figure'', [], Inr u1),
        (''plt.subplot'', [P (VInt 1), P (VInt 2), P (VInt 1)], Inr u2),
        (''plt.title'', [P (VStr ''Low noise'')], Inr u3),
        (''[]'', [P low_spatial, P (VTuple [VSlice VNone VNone VNone, VSlice VNone VNone VNone, VInt 12])], Inr a),
        (''plt.imshow'', [P a], Inr u4),
        (''plt.axis'', [P (VStr ''off'')], Inr u5),
        (''plt.subplot'', [P (VInt 1), P (VInt 2), P (VInt 2)], Inr u6),
        (''plt.title'', [P (VStr ''High noise'')], Inr u7),
        (''[]'', [P high_spatial, P (VTuple [VSlice VNone VNone VNone, VSlice VNone VNone VNone, VInt 12])], Inr b),
        (''plt.imshow'', [P b], Inr u8),
        (''plt.axis'', [P (VStr ''off'')], Inr result)]
    \<and> py_slice dim' (Some 0) (Some 3) = Inr d_low
    \<and> py_slice dim' (Some 0) (Some 3) = Inr d_high"
  using assms unfolding plot_spatial_noise_def
  by (clarsimp simp: pbind_Inr call_Inr own_Inr)

lemma plot_temporal_noise_run:
  assumes "plot_temporal_noise L total_time tr stimfunc_A s = (Inr result, s')"
  shows "\<exists>step timepoints tr_duration drift autoreg phys step_A a b task u1 u2 u3 u4 u5 u6 u7 u8 u9 u10 u11 u12 u13 u14 u15 u16 u17.
      log s' = log s @
       [(''fmrisim._generate_noise_temporal_drift'', [P (VInt total_time), P (VInt tr_duration)], Inr drift),
        (''fmrisim._generate_noise_temporal_autoregression'', [P (VList (map VInt timepoints))], Inr autoreg),
        (''fmrisim._generate_noise_temporal_phys'', [P (VList (map VInt timepoints))], Inr phys),
        (''[]'', [P stimfunc_A, P (VSlice VNone VNone (VInt step_A))], Inr a),
        (''abs'', [P a], Inr b),
        (''fmrisim._generate_noise_temporal_task'', [P b], Inr task),
        (''plt.figure'', [], Inr u1),
        (''plt.title'', [P (VStr ''Noise types'')], Inr u2),
        (''plt.subplot'', [P (VInt 4), P (VInt 1), P (VInt 1)], Inr u3),
        (''plt.plot'', [P drift], Inr u4),
        (''plt.axis'', [P (VStr ''off'')], Inr u5),
        (''plt.xlabel'', [P (VStr ''Drift'')], Inr u6),
        (''plt.subplot'', [P (VInt 4), P (VInt 1), P (VInt 2)], Inr u7),
        (''plt.plot'', [P autoreg], Inr u8),
        (''plt.axis'', [P (VStr ''off'')], Inr u9),
        (''plt.xlabel'', [P (VStr ''Autoregression'')], Inr u10),
        (''plt.subplot'', [P (VInt 4), P (VInt 1), P (VInt 3)], Inr u11),
        (''plt.plot'', [P phys], Inr u12),
        (''plt.axis'', [P (VStr ''off'')], Inr u13),
        (''plt.xlabel'', [P (VStr ''Physiological'')], Inr u14),
        (''plt.subplot'', [P (VInt 4), P (VInt 1), P (VInt 4)], Inr u15),
        (''plt.plot'', [P task], Inr u16),
        (''plt.axis'', [P (VStr ''off'')], Inr u17),
        (''plt.xlabel'', [P (VStr ''Task'')], Inr result)]
    \<and> py_int tr = Inr step
    \<and> py_range 0 total_time step = Inr timepoints
    \<and> py_int tr = Inr tr_duration
    \<and> py_int tr = Inr step_A"
  using assms unfolding plot_temporal_noise_def
  by (clarsimp simp: pbind_Inr call_Inr own_Inr)

lemma plot_system_noise_run:
  assumes "plot_system_noise L dim' s = (Inr result, s')"
  shows "\<exists>system u1 u2 flat u3 u4 u5 u6 u7 a u8 u9 u10 lo hi u11 u12 b u13 u14 u15 lo' hi'.
      log s' = log s @
       [(''fmrisim._generate_noise_system'', [K ''dimensions_tr'' dim', K ''spatial_sd'' (VFloat (3 / 2)), K ''temporal_sd'' (VInt 1)], Inr system),
        (''plt.figure'', [], Inr u1),
        (''plt.subplot'', [P (VInt 1), P (VInt 3), P (VInt 1)], Inr u2),
        (''.flatten'', [P system], Inr flat),
        (''plt.hist'', [P flat], Inr u3),
        (''plt.title'', [P (VStr ''Activity distribution'')], Inr u4),
        (''plt.xlabel'', [P (VStr ''Activity'')], Inr u5),
        (''plt.ylabel'', [P (VStr ''Frequency'')], Inr u6),
        (''plt.subplot'', [P (VInt 1), P (VInt 3), P (VInt 2)], Inr u7),
        (''[]'', [P system, P (VTuple [VSlice VNone VNone VNone, VSlice VNone VNone VNone, VInt 0, VInt 0])], Inr a),
        (''plt.imshow'', [P a], Inr u8),
        (''plt.axis'', [P (VStr ''off'')], Inr u9),
        (''plt.title'', [P (VStr ''Spatial plane'')], Inr u10),
        (''.min'', [P system], Inr lo),
        (''np.percentile'', [P system, P (VInt 95)], Inr hi),
        (''plt.clim'', [P (VList [lo, hi])], Inr u11),
        (''plt.subplot'', [P (VInt 1), P (VInt 3), P (VInt 3)], Inr u12),
        (''[]'', [P system, P (VTuple [VInt 0, VSlice VNone (VInt 64) VNone, VInt 0, VSlice VNone (VInt 64) VNone])], Inr b),
        (''plt.imshow'', [P b], Inr u13),
        (''plt.axis'', [P (VStr ''off'')], Inr u14),
        (''plt.title'', [P (VStr ''Temporal plane'')], Inr u15),
        (''.min'', [P system], Inr lo'),
        (''np.percentile'', [P system, P (VInt 95)], Inr hi'),
        (''plt.clim'', [P (VList [lo', hi'])], Inr result)]"
  using assms unfolding plot_system_noise_def
  by (clarsimp simp: pbind_Inr call_Inr own_Inr)



lemma analysis_in_notebook:
  "filter (\<lambda>f. f \<in> set analysis_calls) notebook_calls = analysis_calls"
  by (simp add: analysis_calls_def notebook_calls_def input_calls_def simulation_calls_def)



text \<open>
  Claim C4: the analysis is the library's. In every run that finishes, the distance matrix
  is \<^verbatim>\<open>squareform(pdist(...))\<close> of the stacked transposed trials, the embedding is
  \<^verbatim>\<open>.embedding_\<close> of \<^verbatim>\<open>MDS(n_components=2, dissimilarity='precomputed')\<close> fitted to that
  matrix; the stacked trials and their labels are split by \<^verbatim>\<open>train_test_split\<close> with
  \<^verbatim>\<open>test_size=0.2\<close> and \<^verbatim>\<open>random_state=0\<close>, \<^verbatim>\<open>SVC(kernel='linear', C=1)\<close> is fitted
  to the training part, and the value of the run is the result of \<^verbatim>\<open>.score\<close> on the test
  part; what is printed is the first five characters of \<^verbatim>\<open>str(score)\<close>. These routines
  are called once each, in this order (\<open>analysis_calls\<close>), and nothing else of the run is
  a classifier or an embedding.
\<close>

theorem analysis_is_standard:
  assumes "run L w = (Inr score, s)"
  shows "filter (\<lambda>f. f \<in> set analysis_calls) (map fst (log s)) = analysis_calls
    \<and> (\<exists>trials_A trials_B ta' tb' stacked distances distance_matrix mds fitted coords ta
          tb input_mat input_labels split X_train X_test y_train y_test svc clf s_str
          s_head s_line u1.
        {(''.transpose'', [P trials_A], Inr ta'),
         (''.transpose'', [P trials_B], Inr tb'),
         (''np.vstack'', [P (VList [ta', tb'])], Inr stacked),
         (''sp_distance.pdist'', [P stacked], Inr distances),
         (''sp_distance.squareform'', [P distances], Inr distance_matrix),
         (''manifold.MDS'',
           [K ''n_components'' (VInt 2), K ''dissimilarity'' (VStr ''precomputed'')], Inr mds),
         (''.fit'', [P mds, P distance_matrix], Inr fitted),
         (''.embedding_'', [P fitted], Inr coords),
         (''.transpose'', [P trials_A], Inr ta),
         (''.transpose'', [P trials_B], Inr tb),
         (''np.vstack'', [P (VList [ta, tb])], Inr input_mat),
         (''sklearn.model_selection.train_test_split'',
           [P input_mat, P input_labels, K ''test_size'' (VFloat (2 / 10)),
            K ''random_state'' (VInt 0)], Inr split),
         (''sklearn.svm.SVC'', [K ''kernel'' (VStr ''linear''), K ''C'' (VInt 1)], Inr svc),
         (''.fit'', [P svc, P X_train, P y_train], Inr clf),
         (''.score'', [P clf, P X_test, P y_test], Inr score),
         (''str'', [P score], Inr s_str),
         (''print'', [P s_line], Inr u1)}
          \<subseteq> set (log s)
        \<and> input_labels_of trials_A trials_B = Inr input_labels
        \<and> unpack4 split = Inr (X_train, X_test, y_train, y_test)
        \<and> py_slice s_str (Some 0) (Some 5) = Inr s_head
        \<and> str_add (VStr ''Classification accuracy between condition A and B: '') s_head = Inr s_line)"
proof -
  from run_log(4) [OF assms refl] analysis_in_notebook
  have order: "filter (\<lambda>f. f \<in> set analysis_calls) (map fst (log s)) = analysis_calls"
    by simp
  show ?thesis
  proof (rule run_steps [OF assms], goal_cases)
    case (1 p home path nii volume header dimsize dim' pr tr s0 mask' template s1 noise_dict s2
      u3 s3 coordinates signal_volume s4 u5 s5 temporal_sd signal_change s6 pattern_A
      pattern_B s7 u8 s8 total_time onsets_A onsets_B stimfunc_A stimfunc_B s9 u10 s10
      weights_all s11 signal_func s12 u13 s13 signal s14 noise s15 u16 s16 u17 s17 u18 s18
      u19 s19 brain s20 trials_A trials_B s21 u22 s22 distance_matrix mds coords s23
      mean_difference ttest s24)
    from represent_data_run [OF 1(24)] obtain ta' tb' stacked distances fitted u1 xs ys colours u2 u3 u4 where
      mds_l: "log s23 = log s22 @
        [(''.transpose'', [P trials_A], Inr ta'),
         (''.transpose'', [P trials_B], Inr tb'),
         (''np.vstack'', [P (VList [ta', tb'])], Inr stacked),
         (''sp_distance.pdist'', [P stacked], Inr distances),
         (''sp_distance.squareform'', [P distances], Inr distance_matrix),
         (''manifold.MDS'',
           [K ''n_components'' (VInt 2), K ''dissimilarity'' (VStr ''precomputed'')], Inr mds),
         (''.fit'', [P mds, P distance_matrix], Inr fitted),
         (''.embedding_'', [P fitted], Inr coords),
         (''plt.figure'', [], Inr u1),
         (''[]'', [P coords, P (VTuple [VSlice VNone VNone VNone, VInt 0])], Inr xs),
         (''[]'', [P coords, P (VTuple [VSlice VNone VNone VNone, VInt 1])], Inr ys),
         (''plt.scatter'', [P xs, P ys, K ''c'' colours], Inr u2),
         (''plt.axis'', [P (VStr ''off'')], Inr u3),
         (''plt.title'',
           [P (VStr ''Low Dimensional Representation of conditions A and B'')], Inr u4)]"
      and mds_c1: "colours_of trials_A trials_B = Inr colours"
      by blast
    have mds_m:
      "(''.transpose'', [P trials_A], Inr ta') \<in> set (log s)"
      "(''.transpose'', [P trials_B], Inr tb') \<in> set (log s)"
      "(''np.vstack'', [P (VList [ta', tb'])], Inr stacked) \<in> set (log s)"
      "(''sp_distance.pdist'', [P stacked], Inr distances) \<in> set (log s)"
      "(''sp_distance.squareform'', [P distances], Inr distance_matrix) \<in> set (log s)"
      "(''manifold.MDS'',
           [K ''n_components'' (VInt 2), K ''dissimilarity'' (VStr ''precomputed'')], Inr mds) \<in> set (log s)"
      "(''.fit'', [P mds, P distance_matrix], Inr fitted) \<in> set (log s)"
      "(''.embedding_'', [P fitted], Inr coords) \<in> set (log s)"
      using 1(50) unfolding mds_l by simp_all
    from multivariate_test_run [OF 1(26)] obtain ta tb input_mat input_labels split X_train X_test y_train y_test svc clf s_str s_head s_line u1 where
      svm_l: "log s = log s24 @
        [(''.transpose'', [P trials_A], Inr ta),
         (''.transpose'', [P trials_B], Inr tb),
         (''np.vstack'', [P (VList [ta, tb])], Inr input_mat),
         (''sklearn.model_selection.train_test_split'',
           [P input_mat, P input_labels, K ''test_size'' (VFloat (2 / 10)),
            K ''random_state'' (VInt 0)], Inr split),
         (''sklearn.svm.SVC'', [K ''kernel'' (VStr ''linear''), K ''C'' (VInt 1)], Inr svc),
         (''.fit'', [P svc, P X_train, P y_train], Inr clf),
         (''.score'', [P clf, P X_test, P y_test], Inr score),
         (''str'', [P score], Inr s_str),
         (''print'', [P s_line], Inr u1)]"
      and svm_c1: "input_labels_of trials_A trials_B = Inr input_labels"
      and svm_c2: "unpack4 split = Inr (X_train, X_test, y_train, y_test)"
      and svm_c3: "py_slice s_str (Some 0) (Some 5) = Inr s_head"
      and svm_c4: "str_add (VStr ''Classification accuracy between condition A and B: '') s_head = Inr s_line"
      by blast
    have svm_m:
      "(''.transpose'', [P trials_A], Inr ta) \<in> set (log s)"
      "(''.transpose'', [P trials_B], Inr tb) \<in> set (log s)"
      "(''np.vstack'', [P (VList [ta, tb])], Inr input_mat) \<in> set (log s)"
      "(''sklearn.model_selection.train_test_split'',
           [P input_mat, P input_labels, K ''test_size'' (VFloat (2 / 10)),
            K ''random_state'' (VInt 0)], Inr split) \<in> set (log s)"
      "(''sklearn.svm.SVC'', [K ''kernel'' (VStr ''linear''), K ''C'' (VInt 1)], Inr svc) \<in> set (log s)"
      "(''.fit'', [P svc, P X_train, P y_train], Inr clf) \<in> set (log s)"
      "(''.score'', [P clf, P X_test, P y_test], Inr score) \<in> set (log s)"
      "(''str'', [P score], Inr s_str) \<in> set (log s)"
      "(''print'', [P s_line], Inr u1) \<in> set (log s)"
      unfolding svm_l by simp_all
    have incl:
      "{(''.transpose'', [P trials_A], Inr ta'),
        (''.transpose'', [P trials_B], Inr tb'),
        (''np.vstack'', [P (VList [ta', tb'])], Inr stacked),
        (''sp_distance.pdist'', [P stacked], Inr distances),
        (''sp_distance.squareform'', [P distances], Inr distance_matrix),
        (''manifold.MDS'',
          [K ''n_components'' (VInt 2), K ''dissimilarity'' (VStr ''precomputed'')], Inr mds),
        (''.fit'', [P mds, P distance_matrix], Inr fitted),
        (''.embedding_'', [P fitted], Inr coords),
        (''.transpose'', [P trials_A], Inr ta),
        (''.transpose'', [P trials_B], Inr tb),
        (''np.vstack'', [P (VList [ta, tb])], Inr input_mat),
        (''sklearn.model_selection.train_test_split'',
          [P input_mat, P input_labels, K ''test_size'' (VFloat (2 / 10)),
           K ''random_state'' (VInt 0)], Inr split),
        (''sklearn.svm.SVC'', [K ''kernel'' (VStr ''linear''), K ''C'' (VInt 1)], Inr svc),
        (''.fit'', [P svc, P X_train, P y_train], Inr clf),
        (''.score'', [P clf, P X_test, P y_test], Inr score),
        (''str'', [P score], Inr s_str),
        (''print'', [P s_line], Inr u1)}
        \<subseteq> set (log s)"
      using  mds_m svm_m by simp
    show ?case
      apply (rule conjI [OF order])
      apply (intro exI conjI)
        apply (rule incl)
       apply (rule svm_c1)
       apply (rule svm_c2)
       apply (rule svm_c3)
       apply (rule svm_c4)
      done
  qed
qed

theorem analysis_is_standard_witness:
  "fst (run demo []) = Inr (VFloat (3 / 4))
    \<and> filter (\<lambda>f. f \<in> set analysis_calls) (map fst (log (snd (run demo [])))) = analysis_calls
    \<and> (\<exists>trials_A trials_B ta' tb' stacked distances distance_matrix mds fitted coords ta
          tb input_mat input_labels split X_train X_test y_train y_test svc clf s_str
          s_head s_line u1.
        {(''.transpose'', [P trials_A], Inr ta'),
         (''.transpose'', [P trials_B], Inr tb'),
         (''np.vstack'', [P (VList [ta', tb'])], Inr stacked),
         (''sp_distance.pdist'', [P stacked], Inr distances),
         (''sp_distance.squareform'', [P distances], Inr distance_matrix),
         (''manifold.MDS'',
           [K ''n_components'' (VInt 2), K ''dissimilarity'' (VStr ''precomputed'')], Inr mds),
         (''.fit'', [P mds, P distance_matrix], Inr fitted),
         (''.embedding_'', [P fitted], Inr coords),
         (''.transpose'', [P trials_A], Inr ta),
         (''.transpose'', [P trials_B], Inr tb),
         (''np.vstack'', [P (VList [ta, tb])], Inr input_mat),
         (''sklearn.model_selection.train_test_split'',
           [P input_mat, P input_labels, K ''test_size'' (VFloat (2 / 10)),
            K ''random_state'' (VInt 0)], Inr split),
         (''sklearn.svm.SVC'', [K ''kernel'' (VStr ''linear''), K ''C'' (VInt 1)], Inr svc),
         (''.fit'', [P svc, P X_train, P y_train], Inr clf),
         (''.score'', [P clf, P X_test, P y_test], Inr (VFloat (3 / 4))),
         (''str'', [P (VFloat (3 / 4))], Inr s_str),
         (''print'', [P s_line], Inr u1)}
          \<subseteq> set (log (snd (run demo [])))
        \<and> input_labels_of trials_A trials_B = Inr input_labels
        \<and> unpack4 split = Inr (X_train, X_test, y_train, y_test)
        \<and> py_slice s_str (Some 0) (Some 5) = Inr s_head
        \<and> str_add (VStr ''Classification accuracy between condition A and B: '') s_head = Inr s_line)"
proof -
  have r: "run demo [] = (Inr (VFloat (3 / 4)), snd (run demo []))"
    using demo_succeeds by (metis prod.collapse)
  show ?thesis
    by (rule conjI [OF demo_succeeds analysis_is_standard [OF r]])
qed

subsection \<open>The trials of the two conditions\<close>

lemma even_events: "even (events_of total_time)"
  by (simp add: events_of_def)

lemma trunc_half: "even e \<Longrightarrow> trunc (real_of_int e / 2) = e div 2"
  by (auto elim!: evenE simp: trunc_of_int)

lemma linspace_distinct:
  assumes "np_linspace start stop num = Inr (VArr sh xs)" "start < stop"
  shows "distinct xs \<and> int (length xs) = num \<and> sh = [length xs]"
proof (cases "num = 1")
  case True
  with assms show ?thesis by (auto simp: np_linspace_def)
next
  case False
  with assms have num: "0 \<le> num" and
    xs: "xs = map (\<lambda>i. start + real i * ((stop - start) / real_of_int (num - 1))) [0 ..< nat num]"
    and sh: "sh = [nat num]"
    by (auto simp: np_linspace_def split: if_splits)
  have "inj_on (\<lambda>i. start + real i * ((stop - start) / real_of_int (num - 1))) {0 ..< nat num}"
  proof (rule inj_onI)
    fix i j
    assume ij: "i \<in> {0 ..< nat num}" "j \<in> {0 ..< nat num}"
      and eq: "start + real i * ((stop - start) / real_of_int (num - 1))
               = start + real j * ((stop - start) / real_of_int (num - 1))"
    from ij False num have "1 < num" by auto
    then have "(stop - start) / real_of_int (num - 1) \<noteq> 0" using assms(2) by simp
    with eq show "i = j" by simp
  qed
  then have "distinct xs" unfolding xs by (simp add: distinct_map)
  with xs sh num show ?thesis by simp
qed

lemma onsets_all_distinct:
  assumes "onsets_all_of (events_of total_time) = Inr (VArr sh xs)"
  shows "distinct xs \<and> int (length xs) = events_of total_time \<and> sh = [length xs]"
proof (cases "events_of total_time = 0")
  case True
  with assms show ?thesis by (auto simp: onsets_all_of_def np_linspace_def)
next
  case False
  have "0 \<le> events_of total_time"
    using assms by (auto simp: onsets_all_of_def np_linspace_def split: if_splits)
  with False have "0 < events_of total_time" by simp
  then have "real_of_int burn_in
             < real_of_int (events_of total_time * (event_duration + isi))"
    by (simp add: burn_in_def event_duration_def isi_def)
  with assms show ?thesis
    unfolding onsets_all_of_def by (rule linspace_distinct)
qed

lemma count_list_replicate: "count_list (replicate n x) y = (if x = y then n else 0)"
  by (induction n) auto

text \<open>
  Claim C9: the two conditions have the same number of trials. \<^verbatim>\<open>events\<close> is even. Where
  \<^verbatim>\<open>np.linspace\<close> returns the onsets \<open>xs\<close> and \<^verbatim>\<open>np.random.shuffle\<close> leaves a permutation
  \<open>ys\<close> of them, \<^verbatim>\<open>onsets_A\<close> and \<^verbatim>\<open>onsets_B\<close> are the two halves of \<open>ys\<close>: together they
  are \<open>ys\<close>, they share no onset, and each has \<^verbatim>\<open>events / 2\<close> of them. And for trial
  arrays with one column per onset, as indexing \<^verbatim>\<open>brain\<close> with the onsets and the
  \<^verbatim>\<open>reshape\<close> leave them, the list \<^verbatim>\<open>input_labels\<close> has as many ones as zeros.
\<close>

theorem balanced_conditions:
  assumes all: "onsets_all_of (events_of total_time) = Inr (VArr sh xs)"
    and shuffle: "mset ys = mset xs"
    and A: "onsets_A_of (events_of total_time) (VArr [length ys] ys) = Inr onsets_A"
    and B: "onsets_B_of (events_of total_time) (VArr [length ys] ys) = Inr onsets_B"
  shows "even (events_of total_time)
    \<and> (\<exists>as bs. onsets_A = VArr [length as] as \<and> onsets_B = VArr [length bs] bs
          \<and> as @ bs = ys \<and> set as \<inter> set bs = {}
          \<and> int (length as) = events_of total_time div 2
          \<and> int (length bs) = events_of total_time div 2
          \<and> (\<forall>v w da db. \<exists>labels.
                input_labels_of (VArr [v, length as] da) (VArr [w, length bs] db)
                  = Inr (VList labels)
                \<and> count_list labels (VInt 1) = count_list labels (VInt 0)))"
proof -
  let ?e = "events_of total_time"
  let ?k = "nat (?e div 2)"
  have ev: "even ?e" by (rule even_events)
  from onsets_all_distinct [OF all] have dx: "distinct xs" and len: "int (length xs) = ?e"
    by auto
  have leny: "length ys = length xs" using shuffle by (metis size_mset)
  have dy: "distinct ys"
    using dx shuffle by (metis distinct_count_atmost_1 mset_eq_setD set_mset_mset)
  have e0: "0 \<le> ?e" using len by linarith
  have half: "trunc (real_of_int ?e / 2) = ?e div 2" using ev by (rule trunc_half)
  have kle: "?k \<le> length ys" using e0 len leny by linarith
  have a: "onsets_A = VArr [length (take ?k ys)] (take ?k ys)"
    using A e0 kle by (auto simp: onsets_A_of_def half seq_slice_def slice_bound_def Let_def)
  have b: "onsets_B = VArr [length (drop ?k ys)] (drop ?k ys)"
    using B e0 kle by (auto simp: onsets_B_of_def half seq_slice_def slice_bound_def Let_def)
  have parts: "take ?k ys @ drop ?k ys = ys" by simp
  have disj: "set (take ?k ys) \<inter> set (drop ?k ys) = {}"
    using dy by (metis append_take_drop_id distinct_append)
  have la: "int (length (take ?k ys)) = ?e div 2" using kle e0 by simp
  have lb: "int (length (drop ?k ys)) = ?e div 2"
    using kle e0 len leny ev by (auto elim!: evenE)
  have labels: "\<forall>v w da db. \<exists>labels.
      input_labels_of (VArr [v, length (take ?k ys)] da) (VArr [w, length (drop ?k ys)] db)
        = Inr (VList labels)
      \<and> count_list labels (VInt 1) = count_list labels (VInt 0)"
  proof -
    have "length (take ?k ys) = length (drop ?k ys)" using la lb by linarith
    then show ?thesis
      by (simp add: input_labels_of_def per_trial_def seq_index_def list_repeat_def
          count_list_replicate)
  qed
  show ?thesis
    apply (rule conjI [OF ev])
    apply (rule exI [of _ "take ?k ys"])
    apply (rule exI [of _ "drop ?k ys"])
    apply (intro conjI)
          apply (fact a)
         apply (fact b)
        apply (fact parts)
       apply (fact disj)
      apply (fact la)
     apply (fact lb)
    apply (fact labels)
    done
qed

lemma events_33: "events_of 33 = 4"
  by (simp add: events_of_def event_duration_def isi_def trunc_def)

lemma onsets_33:
  "onsets_all_of 4 = Inr (VArr [4] [3, 26 / 3, 43 / 3, 20])"
  by (simp add: onsets_all_of_def np_linspace_def burn_in_def event_duration_def isi_def
      upt_conv_Cons)

lemma halves_33:
  "onsets_A_of 4 (VArr [4] [3, 26 / 3, 43 / 3, 20]) = Inr (VArr [2] [3, 26 / 3])"
  "onsets_B_of 4 (VArr [4] [3, 26 / 3, 43 / 3, 20]) = Inr (VArr [2] [43 / 3, 20])"
  by (simp_all add: onsets_A_of_def onsets_B_of_def seq_slice_def slice_bound_def trunc_def)

theorem balanced_conditions_witness:
  "onsets_all_of (events_of 33) = Inr (VArr [4] [3, 26 / 3, 43 / 3, 20])
   \<and> onsets_A_of (events_of 33) (VArr [4] [3, 26 / 3, 43 / 3, 20]) = Inr (VArr [2] [3, 26 / 3])
   \<and> onsets_B_of (events_of 33) (VArr [4] [3, 26 / 3, 43 / 3, 20]) = Inr (VArr [2] [43 / 3, 20])
   \<and> even (events_of 33)
   \<and> (\<exists>as bs. VArr [2] [3, 26 / 3] = VArr [length as] as
          \<and> VArr [2] [43 / 3, 20] = VArr [length bs] bs
          \<and> as @ bs = [3, 26 / 3, 43 / 3, 20] \<and> set as \<inter> set bs = {}
          \<and> int (length as) = events_of 33 div 2
          \<and> int (length bs) = events_of 33 div 2
          \<and> (\<forall>v w da db. \<exists>labels.
                input_labels_of (VArr [v, length as] da) (VArr [w, length bs] db)
                  = Inr (VList labels)
                \<and> count_list labels (VInt 1) = count_list labels (VInt 0)))"
proof -
  have all: "onsets_all_of (events_of 33) = Inr (VArr [4] [3, 26 / 3, 43 / 3, 20])"
    unfolding events_33 by (rule onsets_33)
  have l: "length [3, 26 / 3, 43 / 3, 20 :: real] = 4" by simp
  have A': "onsets_A_of (events_of 33) (VArr [4] [3, 26 / 3, 43 / 3, 20])
      = Inr (VArr [2] [3, 26 / 3])"
    unfolding events_33 by (rule halves_33(1))
  have B': "onsets_B_of (events_of 33) (VArr [4] [3, 26 / 3, 43 / 3, 20])
      = Inr (VArr [2] [43 / 3, 20])"
    unfolding events_33 by (rule halves_33(2))
  have A: "onsets_A_of (events_of 33) (VArr [length [3, 26 / 3, 43 / 3, 20 :: real]]
      [3, 26 / 3, 43 / 3, 20]) = Inr (VArr [2] [3, 26 / 3])"
    unfolding l by (rule A')
  have B: "onsets_B_of (events_of 33) (VArr [length [3, 26 / 3, 43 / 3, 20 :: real]]
      [3, 26 / 3, 43 / 3, 20]) = Inr (VArr [2] [43 / 3, 20])"
    unfolding l by (rule B')
  note balanced_conditions [OF all refl A B]
  with all A' B' show ?thesis by blast
qed

subsection \<open>The repetition time of the noise\<close>




subsection \<open>The delegated steps\<close>

text \<open>The outcomes in the log of a run are those of the library.\<close>

lemma answers_append:
  "answers L w (es @ es') \<longleftrightarrow> answers L w es \<and> answers L (replay L w es) es'"
  by (induction es arbitrary: w) auto

lemma honest_own: "honest L (own r)"
  by (simp add: honest_def own_def)

lemma honest_call: "honest L (call L f args)"
  by (simp add: honest_def call_def split: prod.splits)

lemma honest_pbind:
  assumes "honest L m" "\<And>x. honest L (k x)"
  shows "honest L (pbind m k)"
  unfolding honest_def
proof
  fix s
  obtain r s' where ms: "m s = (r, s')" by (cases "m s")
  from assms(1) obtain new where new: "log s' = log s @ new" "answers L (world s) new"
      "world s' = replay L (world s) new"
    unfolding honest_def using ms by (metis snd_conv)
  show "\<exists>new. log (snd (pbind m k s)) = log s @ new \<and> answers L (world s) new
            \<and> world (snd (pbind m k s)) = replay L (world s) new"
  proof (cases r)
    case (Inl e)
    with new show ?thesis by (simp add: pbind_def ms)
  next
    case (Inr x)
    from assms(2) [of x] obtain new' where new': "log (snd (k x s')) = log s' @ new'"
        "answers L (world s') new'" "world (snd (k x s')) = replay L (world s') new'"
      unfolding honest_def by blast
    have "snd (pbind m k s) = snd (k x s')" by (simp add: pbind_def ms Inr)
    with new new' show ?thesis
      by (intro exI [of _ "new @ new'"]) (simp add: answers_append replay_append)
  qed
qed

lemma honest_call_then: "(\<And>x. honest L (k x)) \<Longrightarrow> honest L (pbind (call L f args) k)"
  by (intro honest_pbind honest_call)

lemma honest_own_then: "(\<And>x. honest L (k x)) \<Longrightarrow> honest L (pbind (own r) k)"
  by (intro honest_pbind honest_own)

lemma honest_case_prod: "(\<And>a b. honest L (k a b)) \<Longrightarrow> honest L (case p of (a, b) \<Rightarrow> k a b)"
  by (cases p) simp

lemmas honest_intros =
  honest_call_then honest_own_then honest_case_prod honest_call honest_own

lemma honest_notebook: "honest L (notebook L)"
  unfolding notebook_def simulate_and_analyse_def cell_defs pbind_flat
  by (intro honest_intros)

lemma run_answers:
  assumes "run L w = (r, s)"
  shows "answers L w (log s)"
  using honest_notebook [of L] assms unfolding honest_def run_def
  by (force dest!: spec [of _ "\<lparr>log = [], world = w\<rparr>"])

text \<open>
  Claim C2: each of the six steps is one call into the library, and what the run goes on
  with is what that call returned. In every run that finishes, for every library:
  \<^verbatim>\<open>fmrisim.mask_brain\<close>, \<^verbatim>\<open>fmrisim.calc_noise\<close>, \<^verbatim>\<open>fmrisim.convolve_hrf\<close>,
  \<^verbatim>\<open>fmrisim.apply_signal\<close>, \<^verbatim>\<open>fmrisim.generate_noise\<close> and \<^verbatim>\<open>sklearn.svm.SVC\<close> are called
  exactly once each, in this order, and the \<^verbatim>\<open>fmrisim._generate_noise_*\<close> helpers as
  listed in \<open>noise_helpers\<close>; every logged outcome is the library's (\<open>answers\<close>); and the
  calls have the arguments of the source and hand their results on: the mask and the
  template of \<^verbatim>\<open>mask_brain\<close> go to \<^verbatim>\<open>calc_noise\<close> and \<^verbatim>\<open>generate_noise\<close>, the noise
  parameters of \<^verbatim>\<open>calc_noise\<close> to \<^verbatim>\<open>generate_noise\<close> and to \<^verbatim>\<open>temporal_sd\<close>, the result of
  \<^verbatim>\<open>convolve_hrf\<close> to \<^verbatim>\<open>apply_signal\<close>, the results of \<^verbatim>\<open>apply_signal\<close> and
  \<^verbatim>\<open>generate_noise\<close> to the sum \<^verbatim>\<open>brain\<close>, the classifier of \<^verbatim>\<open>SVC\<close> to \<^verbatim>\<open>.fit\<close> and
  \<^verbatim>\<open>.score\<close>, and the value of the run is what \<^verbatim>\<open>.score\<close> returned. So the notebook's own
  code computes none of these values: it has them from the library.
\<close>

theorem steps_delegated:
  assumes "run L w = (Inr score, s)"
  shows "filter (\<lambda>f. f \<in> set delegated_steps) (map fst (log s)) = delegated_steps
    \<and> filter (\<lambda>f. f \<in> set noise_helpers) (map fst (log s)) = noise_helpers
    \<and> answers L w (log s)
    \<and> (\<exists>nii volume header dimsize mt mask' template x y z noise_dict max_activity scaled
          sfnr temporal_sd weights_all tr resolution signal_func signal_volume signal
          dimensions tr_duration step stimfunction_tr noise dim' d_low low_spatial d_high
          high_spatial total_time tr_duration' timepoints drift autoreg phys stimfunc_A
          step_A every magnitude task system brain input_mat input_labels split X_train
          X_test y_train y_test svc clf.
        {(''.get_data'', [P nii], Inr volume),
         (''.get_zooms'', [P header], Inr dimsize),
         (''fmrisim.mask_brain'', [K ''volume'' volume, K ''mask_self'' (VBool True)], Inr mt),
         (''fmrisim.calc_noise'',
           [K ''volume'' volume, K ''mask'' mask',
            K ''noise_dict'' (VDict [(''voxel_size'', VList [x, y, z])])], Inr noise_dict),
         (''*'', [P template, P max_activity], Inr scaled),
         (''/'', [P scaled, P sfnr], Inr temporal_sd),
         (''fmrisim.convolve_hrf'',
           [K ''stimfunction'' weights_all, K ''tr_duration'' tr,
            K ''temporal_resolution'' resolution, K ''scale_function'' (VInt 0)],
           Inr signal_func),
         (''fmrisim.apply_signal'', [P signal_func, P signal_volume], Inr signal),
         (''[]'', [P weights_all, P (VSlice VNone VNone (VInt step))], Inr stimfunction_tr),
         (''fmrisim.generate_noise'',
           [K ''dimensions'' dimensions, K ''tr_duration'' (VInt tr_duration),
            K ''stimfunction_tr'' stimfunction_tr, K ''mask'' mask', K ''template'' template,
            K ''noise_dict'' noise_dict], Inr noise),
         (''fmrisim._generate_noise_spatial'',
           [P d_low, K ''fwhm'' (VFloat 4)], Inr low_spatial),
         (''fmrisim._generate_noise_spatial'',
           [P d_high, K ''fwhm'' (VFloat 1)], Inr high_spatial),
         (''fmrisim._generate_noise_temporal_drift'',
           [P (VInt total_time), P (VInt tr_duration')], Inr drift),
         (''fmrisim._generate_noise_temporal_autoregression'',
           [P (VList (map VInt timepoints))], Inr autoreg),
         (''fmrisim._generate_noise_temporal_phys'',
           [P (VList (map VInt timepoints))], Inr phys),
         (''[]'', [P stimfunc_A, P (VSlice VNone VNone (VInt step_A))], Inr every),
         (''abs'', [P every], Inr magnitude),
         (''fmrisim._generate_noise_temporal_task'', [P magnitude], Inr task),
         (''fmrisim._generate_noise_system'',
           [K ''dimensions_tr'' dim', K ''spatial_sd'' (VFloat (3 / 2)),
            K ''temporal_sd'' (VInt 1)], Inr system),
         (''+'', [P signal, P noise], Inr brain),
         (''sklearn.model_selection.train_test_split'',
           [P input_mat, P input_labels, K ''test_size'' (VFloat (2 / 10)),
            K ''random_state'' (VInt 0)], Inr split),
         (''sklearn.svm.SVC'', [K ''kernel'' (VStr ''linear''), K ''C'' (VInt 1)], Inr svc),
         (''.fit'', [P svc, P X_train, P y_train], Inr clf),
         (''.score'', [P clf, P X_test, P y_test], Inr score)}
          \<subseteq> set (log s)
        \<and> unpack2 mt = Inr (mask', template)
        \<and> py_index dimsize 0 = Inr x
        \<and> py_index dimsize 1 = Inr y
        \<and> py_index dimsize 2 = Inr z
        \<and> py_getitem_str noise_dict ''max_activity'' = Inr max_activity
        \<and> py_getitem_str noise_dict ''sfnr'' = Inr sfnr
        \<and> unpack4 split = Inr (X_train, X_test, y_train, y_test))"
proof -
  from run_log(4) [OF assms refl] delegated_in_notebook helpers_in_notebook
  have order: "filter (\<lambda>f. f \<in> set delegated_steps) (map fst (log s)) = delegated_steps"
    and helpers: "filter (\<lambda>f. f \<in> set noise_helpers) (map fst (log s)) = noise_helpers"
    by simp_all
  have outcomes: "answers L w (log s)" by (rule run_answers [OF assms])
  show ?thesis
  proof (rule run_steps [OF assms], goal_cases)
    case (1 p home path nii volume header dimsize dim' pr tr s0 mask' template s1 noise_dict s2
      u3 s3 coordinates signal_volume s4 u5 s5 temporal_sd signal_change s6 pattern_A
      pattern_B s7 u8 s8 total_time onsets_A onsets_B stimfunc_A stimfunc_B s9 u10 s10
      weights_all s11 signal_func s12 u13 s13 signal s14 noise s15 u16 s16 u17 s17 u18 s18
      u19 s19 brain s20 trials_A trials_B s21 u22 s22 distance_matrix mds coords s23
      mean_difference ttest s24)
    have in_m:
      "(''.get_data'', [P nii], Inr volume) \<in> set (log s)"
      "(''.get_zooms'', [P header], Inr dimsize) \<in> set (log s)"
      using 1(27) unfolding 1(1) input_log_def by simp_all
    from template_and_mask_run [OF 1(2)] obtain mt where
      mask_l: "log s1 = log s0 @
        [(''fmrisim.mask_brain'', [K ''volume'' volume, K ''mask_self'' (VBool True)], Inr mt)]"
      and mask_c1: "unpack2 mt = Inr (mask', template)"
      by (elim exE conjE) (rule that)
    have mask_m:
      "(''fmrisim.mask_brain'', [K ''volume'' volume, K ''mask_self'' (VBool True)], Inr mt) \<in> set (log s)"
      using 1(28) unfolding mask_l by simp_all
    from noise_parameters_run [OF 1(3)] obtain x y z where
      est_l: "log s2 = log s1 @
        [(''fmrisim.calc_noise'',
           [K ''volume'' volume, K ''mask'' mask',
            K ''noise_dict'' (VDict [(''voxel_size'', VList [x, y, z])])], Inr noise_dict)]"
      and est_c1: "py_index dimsize 0 = Inr x"
      and est_c2: "py_index dimsize 1 = Inr y"
      and est_c3: "py_index dimsize 2 = Inr z"
      by (elim exE conjE) (rule that)
    have est_m:
      "(''fmrisim.calc_noise'',
           [K ''volume'' volume, K ''mask'' mask',
            K ''noise_dict'' (VDict [(''voxel_size'', VList [x, y, z])])], Inr noise_dict) \<in> set (log s)"
      using 1(29) unfolding est_l by simp_all
    from establish_effect_size_run [OF 1(7)] obtain max_activity scaled sfnr where
      eff_l: "log s6 = log s5 @
        [(''*'', [P template, P max_activity], Inr scaled),
         (''/'', [P scaled, P sfnr], Inr temporal_sd)]"
      and eff_c1: "py_getitem_str noise_dict ''max_activity'' = Inr max_activity"
      and eff_c2: "py_getitem_str noise_dict ''sfnr'' = Inr sfnr"
      and eff_c3: "signal_change_of signal_volume temporal_sd = Inr signal_change"
      by (elim exE conjE) (rule that)
    have eff_m:
      "(''*'', [P template, P max_activity], Inr scaled) \<in> set (log s)"
      "(''/'', [P scaled, P sfnr], Inr temporal_sd) \<in> set (log s)"
      using 1(33) unfolding eff_l by simp_all
    from convolve_with_hrf_run [OF 1(13)] obtain resolution where
      hrf_l: "log s12 = log s11 @
        [(''fmrisim.convolve_hrf'',
           [K ''stimfunction'' weights_all, K ''tr_duration'' tr,
            K ''temporal_resolution'' resolution, K ''scale_function'' (VInt 0)],
           Inr signal_func)]"
      and hrf_c1: "py_truediv (VFloat temporal_res) tr = Inr resolution"
      by (elim exE conjE) (rule that)
    have hrf_m:
      "(''fmrisim.convolve_hrf'',
           [K ''stimfunction'' weights_all, K ''tr_duration'' tr,
            K ''temporal_resolution'' resolution, K ''scale_function'' (VInt 0)],
           Inr signal_func) \<in> set (log s)"
      using 1(39) unfolding hrf_l by simp_all
    from multiply_response_run [OF 1(15)] have
      app_l: "log s14 = log s13 @
        [(''fmrisim.apply_signal'', [P signal_func, P signal_volume], Inr signal)]"
      by simp
    have app_m:
      "(''fmrisim.apply_signal'', [P signal_func, P signal_volume], Inr signal) \<in> set (log s)"
      using 1(41) unfolding app_l by simp_all
    from add_noise_run [OF 1(16)] obtain dimensions tr_duration step stimfunction_tr where
      noi_l: "log s15 = log s14 @
        [(''[]'', [P weights_all, P (VSlice VNone VNone (VInt step))], Inr stimfunction_tr),
         (''fmrisim.generate_noise'',
           [K ''dimensions'' dimensions, K ''tr_duration'' (VInt tr_duration),
            K ''stimfunction_tr'' stimfunction_tr, K ''mask'' mask', K ''template'' template,
            K ''noise_dict'' noise_dict], Inr noise)]"
      and noi_c1: "py_slice dim' (Some 0) (Some 3) = Inr dimensions"
      and noi_c2: "py_int tr = Inr tr_duration"
      and noi_c3: "py_int tr = Inr step"
      by (elim exE conjE) (rule that)
    have noi_m:
      "(''[]'', [P weights_all, P (VSlice VNone VNone (VInt step))], Inr stimfunction_tr) \<in> set (log s)"
      "(''fmrisim.generate_noise'',
           [K ''dimensions'' dimensions, K ''tr_duration'' (VInt tr_duration),
            K ''stimfunction_tr'' stimfunction_tr, K ''mask'' mask', K ''template'' template,
            K ''noise_dict'' noise_dict], Inr noise) \<in> set (log s)"
      using 1(42) unfolding noi_l by simp_all
    from plot_spatial_noise_run [OF 1(18)] obtain d_low low_spatial d_high high_spatial u1_spa u2_spa u3_spa a_spa u4_spa u5_spa
        u6_spa u7_spa b_spa u8_spa where
      spa_l: "log s17 = log s16 @
        [(''fmrisim._generate_noise_spatial'',
           [P d_low, K ''fwhm'' (VFloat 4)], Inr low_spatial),
         (''fmrisim._generate_noise_spatial'',
           [P d_high, K ''fwhm'' (VFloat 1)], Inr high_spatial),
         (''plt.figure'', [], Inr u1_spa),
         (''plt.subplot'', [P (VInt 1), P (VInt 2), P (VInt 1)], Inr u2_spa),
         (''plt.title'', [P (VStr ''Low noise'')], Inr u3_spa),
         (''[]'',
           [P low_spatial,
            P (VTuple [VSlice VNone VNone VNone, VSlice VNone VNone VNone, VInt 12])],
           Inr a_spa),
         (''plt.imshow'', [P a_spa], Inr u4_spa),
         (''plt.axis'', [P (VStr ''off'')], Inr u5_spa),
         (''plt.subplot'', [P (VInt 1), P (VInt 2), P (VInt 2)], Inr u6_spa),
         (''plt.title'', [P (VStr ''High noise'')], Inr u7_spa),
         (''[]'',
           [P high_spatial,
            P (VTuple [VSlice VNone VNone VNone, VSlice VNone VNone VNone, VInt 12])],
           Inr b_spa),
         (''plt.imshow'', [P b_spa], Inr u8_spa),
         (''plt.axis'', [P (VStr ''off'')], Inr u17)]"
      and spa_c1: "py_slice dim' (Some 0) (Some 3) = Inr d_low"
      and spa_c2: "py_slice dim' (Some 0) (Some 3) = Inr d_high"
      by (elim exE conjE) (rule that)
    have spa_m:
      "(''fmrisim._generate_noise_spatial'',
           [P d_low, K ''fwhm'' (VFloat 4)], Inr low_spatial) \<in> set (log s)"
      "(''fmrisim._generate_noise_spatial'',
           [P d_high, K ''fwhm'' (VFloat 1)], Inr high_spatial) \<in> set (log s)"
      using 1(44) unfolding spa_l by simp_all
    from plot_temporal_noise_run [OF 1(19)] obtain step_tem timepoints tr_duration' drift autoreg phys step_A every magnitude task
        u1_tem u2_tem u3_tem u4_tem u5_tem u6_tem u7_tem u8_tem u9_tem u10_tem u11_tem
        u12_tem u13_tem u14_tem u15_tem u16_tem u17_tem where
      tem_l: "log s18 = log s17 @
        [(''fmrisim._generate_noise_temporal_drift'',
           [P (VInt total_time), P (VInt tr_duration')], Inr drift),
         (''fmrisim._generate_noise_temporal_autoregression'',
           [P (VList (map VInt timepoints))], Inr autoreg),
         (''fmrisim._generate_noise_temporal_phys'',
           [P (VList (map VInt timepoints))], Inr phys),
         (''[]'', [P stimfunc_A, P (VSlice VNone VNone (VInt step_A))], Inr every),
         (''abs'', [P every], Inr magnitude),
         (''fmrisim._generate_noise_temporal_task'', [P magnitude], Inr task),
         (''plt.figure'', [], Inr u1_tem),
         (''plt.title'', [P (VStr ''Noise types'')], Inr u2_tem),
         (''plt.subplot'', [P (VInt 4), P (VInt 1), P (VInt 1)], Inr u3_tem),
         (''plt.plot'', [P drift], Inr u4_tem),
         (''plt.axis'', [P (VStr ''off'')], Inr u5_tem),
         (''plt.xlabel'', [P (VStr ''Drift'')], Inr u6_tem),
         (''plt.subplot'', [P (VInt 4), P (VInt 1), P (VInt 2)], Inr u7_tem),
         (''plt.plot'', [P autoreg], Inr u8_tem),
         (''plt.axis'', [P (VStr ''off'')], Inr u9_tem),
         (''plt.xlabel'', [P (VStr ''Autoregression'')], Inr u10_tem),
         (''plt.subplot'', [P (VInt 4), P (VInt 1), P (VInt 3)], Inr u11_tem),
         (''plt.plot'', [P phys], Inr u12_tem),
         (''plt.axis'', [P (VStr ''off'')], Inr u13_tem),
         (''plt.xlabel'', [P (VStr ''Physiological'')], Inr u14_tem),
         (''plt.subplot'', [P (VInt 4), P (VInt 1), P (VInt 4)], Inr u15_tem),
         (''plt.plot'', [P task], Inr u16_tem),
         (''plt.axis'', [P (VStr ''off'')], Inr u17_tem),
         (''plt.xlabel'', [P (VStr ''Task'')], Inr u18)]"
      and tem_c1: "py_int tr = Inr step_tem"
      and tem_c2: "py_range 0 total_time step_tem = Inr timepoints"
      and tem_c3: "py_int tr = Inr tr_duration'"
      and tem_c4: "py_int tr = Inr step_A"
      by (elim exE conjE) (rule that)
    have tem_m:
      "(''fmrisim._generate_noise_temporal_drift'',
           [P (VInt total_time), P (VInt tr_duration')], Inr drift) \<in> set (log s)"
      "(''fmrisim._generate_noise_temporal_autoregression'',
           [P (VList (map VInt timepoints))], Inr autoreg) \<in> set (log s)"
      "(''fmrisim._generate_noise_temporal_phys'',
           [P (VList (map VInt timepoints))], Inr phys) \<in> set (log s)"
      "(''[]'', [P stimfunc_A, P (VSlice VNone VNone (VInt step_A))], Inr every) \<in> set (log s)"
      "(''abs'', [P every], Inr magnitude) \<in> set (log s)"
      "(''fmrisim._generate_noise_temporal_task'', [P magnitude], Inr task) \<in> set (log s)"
      using 1(45) unfolding tem_l by simp_all
    from plot_system_noise_run [OF 1(20)] obtain system u1_sys u2_sys flat_sys u3_sys u4_sys u5_sys u6_sys u7_sys a_sys u8_sys
        u9_sys u10_sys lo_sys hi_sys u11_sys u12_sys b_sys u13_sys u14_sys u15_sys lo'_sys
        hi'_sys where
      sys_l: "log s19 = log s18 @
        [(''fmrisim._generate_noise_system'',
           [K ''dimensions_tr'' dim', K ''spatial_sd'' (VFloat (3 / 2)),
            K ''temporal_sd'' (VInt 1)], Inr system),
         (''plt.figure'', [], Inr u1_sys),
         (''plt.subplot'', [P (VInt 1), P (VInt 3), P (VInt 1)], Inr u2_sys),
         (''.flatten'', [P system], Inr flat_sys),
         (''plt.hist'', [P flat_sys], Inr u3_sys),
         (''plt.title'', [P (VStr ''Activity distribution'')], Inr u4_sys),
         (''plt.xlabel'', [P (VStr ''Activity'')], Inr u5_sys),
         (''plt.ylabel'', [P (VStr ''Frequency'')], Inr u6_sys),
         (''plt.subplot'', [P (VInt 1), P (VInt 3), P (VInt 2)], Inr u7_sys),
         (''[]'',
           [P system,
            P (VTuple [VSlice VNone VNone VNone, VSlice VNone VNone VNone, VInt 0, VInt 0])],
           Inr a_sys),
         (''plt.imshow'', [P a_sys], Inr u8_sys),
         (''plt.axis'', [P (VStr ''off'')], Inr u9_sys),
         (''plt.title'', [P (VStr ''Spatial plane'')], Inr u10_sys),
         (''.min'', [P system], Inr lo_sys),
         (''np.percentile'', [P system, P (VInt 95)], Inr hi_sys),
         (''plt.clim'', [P (VList [lo_sys, hi_sys])], Inr u11_sys),
         (''plt.subplot'', [P (VInt 1), P (VInt 3), P (VInt 3)], Inr u12_sys),
         (''[]'',
           [P system,
            P (VTuple [VInt 0, VSlice VNone (VInt 64) VNone, VInt 0, VSlice VNone (VInt 64) VNone])],
           Inr b_sys),
         (''plt.imshow'', [P b_sys], Inr u13_sys),
         (''plt.axis'', [P (VStr ''off'')], Inr u14_sys),
         (''plt.title'', [P (VStr ''Temporal plane'')], Inr u15_sys),
         (''.min'', [P system], Inr lo'_sys),
         (''np.percentile'', [P system, P (VInt 95)], Inr hi'_sys),
         (''plt.clim'', [P (VList [lo'_sys, hi'_sys])], Inr u19)]"
      by (elim exE conjE) (rule that)
    have sys_m:
      "(''fmrisim._generate_noise_system'',
           [K ''dimensions_tr'' dim', K ''spatial_sd'' (VFloat (3 / 2)),
            K ''temporal_sd'' (VInt 1)], Inr system) \<in> set (log s)"
      using 1(46) unfolding sys_l by simp_all
    from combine_signal_and_noise_run [OF 1(21)] have
      sum_l: "log s20 = log s19 @
        [(''+'', [P signal, P noise], Inr brain)]"
      by simp
    have sum_m:
      "(''+'', [P signal, P noise], Inr brain) \<in> set (log s)"
      using 1(47) unfolding sum_l by simp_all
    from multivariate_test_run [OF 1(26)] obtain ta_svm tb_svm input_mat input_labels split X_train X_test y_train y_test svc clf
        s_str_svm s_head_svm s_line_svm u1_svm where
      svm_l: "log s = log s24 @
        [(''.transpose'', [P trials_A], Inr ta_svm),
         (''.transpose'', [P trials_B], Inr tb_svm),
         (''np.vstack'', [P (VList [ta_svm, tb_svm])], Inr input_mat),
         (''sklearn.model_selection.train_test_split'',
           [P input_mat, P input_labels, K ''test_size'' (VFloat (2 / 10)),
            K ''random_state'' (VInt 0)], Inr split),
         (''sklearn.svm.SVC'', [K ''kernel'' (VStr ''linear''), K ''C'' (VInt 1)], Inr svc),
         (''.fit'', [P svc, P X_train, P y_train], Inr clf),
         (''.score'', [P clf, P X_test, P y_test], Inr score),
         (''str'', [P score], Inr s_str_svm),
         (''print'', [P s_line_svm], Inr u1_svm)]"
      and svm_c1: "input_labels_of trials_A trials_B = Inr input_labels"
      and svm_c2: "unpack4 split = Inr (X_train, X_test, y_train, y_test)"
      and svm_c3: "py_slice s_str_svm (Some 0) (Some 5) = Inr s_head_svm"
      and svm_c4: "str_add (VStr ''Classification accuracy between condition A and B: '') s_head_svm = Inr s_line_svm"
      by (elim exE conjE) (rule that)
    have svm_m:
      "(''sklearn.model_selection.train_test_split'',
           [P input_mat, P input_labels, K ''test_size'' (VFloat (2 / 10)),
            K ''random_state'' (VInt 0)], Inr split) \<in> set (log s)"
      "(''sklearn.svm.SVC'', [K ''kernel'' (VStr ''linear''), K ''C'' (VInt 1)], Inr svc) \<in> set (log s)"
      "(''.fit'', [P svc, P X_train, P y_train], Inr clf) \<in> set (log s)"
      "(''.score'', [P clf, P X_test, P y_test], Inr score) \<in> set (log s)"
      unfolding svm_l by simp_all
    have incl:
      "{(''.get_data'', [P nii], Inr volume),
        (''.get_zooms'', [P header], Inr dimsize),
        (''fmrisim.mask_brain'', [K ''volume'' volume, K ''mask_self'' (VBool True)], Inr mt),
        (''fmrisim.calc_noise'',
          [K ''volume'' volume, K ''mask'' mask',
           K ''noise_dict'' (VDict [(''voxel_size'', VList [x, y, z])])], Inr noise_dict),
        (''*'', [P template, P max_activity], Inr scaled),
        (''/'', [P scaled, P sfnr], Inr temporal_sd),
        (''fmrisim.convolve_hrf'',
          [K ''stimfunction'' weights_all, K ''tr_duration'' tr,
           K ''temporal_resolution'' resolution, K ''scale_function'' (VInt 0)],
          Inr signal_func),
        (''fmrisim.apply_signal'', [P signal_func, P signal_volume], Inr signal),
        (''[]'', [P weights_all, P (VSlice VNone VNone (VInt step))], Inr stimfunction_tr),
        (''fmrisim.generate_noise'',
          [K ''dimensions'' dimensions, K ''tr_duration'' (VInt tr_duration),
           K ''stimfunction_tr'' stimfunction_tr, K ''mask'' mask', K ''template'' template,
           K ''noise_dict'' noise_dict], Inr noise),
        (''fmrisim._generate_noise_spatial'',
          [P d_low, K ''fwhm'' (VFloat 4)], Inr low_spatial),
        (''fmrisim._generate_noise_spatial'',
          [P d_high, K ''fwhm'' (VFloat 1)], Inr high_spatial),
        (''fmrisim._generate_noise_temporal_drift'',
          [P (VInt total_time), P (VInt tr_duration')], Inr drift),
        (''fmrisim._generate_noise_temporal_autoregression'',
          [P (VList (map VInt timepoints))], Inr autoreg),
        (''fmrisim._generate_noise_temporal_phys'',
          [P (VList (map VInt timepoints))], Inr phys),
        (''[]'', [P stimfunc_A, P (VSlice VNone VNone (VInt step_A))], Inr every),
        (''abs'', [P every], Inr magnitude),
        (''fmrisim._generate_noise_temporal_task'', [P magnitude], Inr task),
        (''fmrisim._generate_noise_system'',
          [K ''dimensions_tr'' dim', K ''spatial_sd'' (VFloat (3 / 2)),
           K ''temporal_sd'' (VInt 1)], Inr system),
        (''+'', [P signal, P noise], Inr brain),
        (''sklearn.model_selection.train_test_split'',
          [P input_mat, P input_labels, K ''test_size'' (VFloat (2 / 10)),
           K ''random_state'' (VInt 0)], Inr split),
        (''sklearn.svm.SVC'', [K ''kernel'' (VStr ''linear''), K ''C'' (VInt 1)], Inr svc),
        (''.fit'', [P svc, P X_train, P y_train], Inr clf),
        (''.score'', [P clf, P X_test, P y_test], Inr score)}
        \<subseteq> set (log s)"
      using in_m mask_m est_m eff_m hrf_m app_m noi_m spa_m tem_m sys_m sum_m svm_m by simp
    show ?case
      apply (rule conjI [OF order])
      apply (rule conjI [OF helpers])
      apply (rule conjI [OF outcomes])
      apply (intro exI conjI)
             apply (rule incl)
            apply (rule mask_c1)
           apply (rule est_c1)
          apply (rule est_c2)
         apply (rule est_c3)
        apply (rule eff_c1)
       apply (rule eff_c2)
      apply (rule svm_c2)
      done
  qed
qed

theorem steps_delegated_witness:
  "fst (run demo []) = Inr (VFloat (3 / 4))
    \<and> filter (\<lambda>f. f \<in> set delegated_steps) (map fst (log (snd (run demo [])))) = delegated_steps
    \<and> filter (\<lambda>f. f \<in> set noise_helpers) (map fst (log (snd (run demo [])))) = noise_helpers
    \<and> answers demo [] (log (snd (run demo [])))
    \<and> (\<exists>nii volume header dimsize mt mask' template x y z noise_dict max_activity scaled
          sfnr temporal_sd weights_all tr resolution signal_func signal_volume signal
          dimensions tr_duration step stimfunction_tr noise dim' d_low low_spatial d_high
          high_spatial total_time tr_duration' timepoints drift autoreg phys stimfunc_A
          step_A every magnitude task system brain input_mat input_labels split X_train
          X_test y_train y_test svc clf.
        {(''.get_data'', [P nii], Inr volume),
         (''.get_zooms'', [P header], Inr dimsize),
         (''fmrisim.mask_brain'', [K ''volume'' volume, K ''mask_self'' (VBool True)], Inr mt),
         (''fmrisim.calc_noise'',
           [K ''volume'' volume, K ''mask'' mask',
            K ''noise_dict'' (VDict [(''voxel_size'', VList [x, y, z])])], Inr noise_dict),
         (''*'', [P template, P max_activity], Inr scaled),
         (''/'', [P scaled, P sfnr], Inr temporal_sd),
         (''fmrisim.convolve_hrf'',
           [K ''stimfunction'' weights_all, K ''tr_duration'' tr,
            K ''temporal_resolution'' resolution, K ''scale_function'' (VInt 0)],
           Inr signal_func),
         (''fmrisim.apply_signal'', [P signal_func, P signal_volume], Inr signal),
         (''[]'', [P weights_all, P (VSlice VNone VNone (VInt step))], Inr stimfunction_tr),
         (''fmrisim.generate_noise'',
           [K ''dimensions'' dimensions, K ''tr_duration'' (VInt tr_duration),
            K ''stimfunction_tr'' stimfunction_tr, K ''mask'' mask', K ''template'' template,
            K ''noise_dict'' noise_dict], Inr noise),
         (''fmrisim._generate_noise_spatial'',
           [P d_low, K ''fwhm'' (VFloat 4)], Inr low_spatial),
         (''fmrisim._generate_noise_spatial'',
           [P d_high, K ''fwhm'' (VFloat 1)], Inr high_spatial),
         (''fmrisim._generate_noise_temporal_drift'',
           [P (VInt total_time), P (VInt tr_duration')], Inr drift),
         (''fmrisim._generate_noise_temporal_autoregression'',
           [P (VList (map VInt timepoints))], Inr autoreg),
         (''fmrisim._generate_noise_temporal_phys'',
           [P (VList (map VInt timepoints))], Inr phys),
         (''[]'', [P stimfunc_A, P (VSlice VNone VNone (VInt step_A))], Inr every),
         (''abs'', [P every], Inr magnitude),
         (''fmrisim._generate_noise_temporal_task'', [P magnitude], Inr task),
         (''fmrisim._generate_noise_system'',
           [K ''dimensions_tr'' dim', K ''spatial_sd'' (VFloat (3 / 2)),
            K ''temporal_sd'' (VInt 1)], Inr system),
         (''+'', [P signal, P noise], Inr brain),
         (''sklearn.model_selection.train_test_split'',
           [P input_mat, P input_labels, K ''test_size'' (VFloat (2 / 10)),
            K ''random_state'' (VInt 0)], Inr split),
         (''sklearn.svm.SVC'', [K ''kernel'' (VStr ''linear''), K ''C'' (VInt 1)], Inr svc),
         (''.fit'', [P svc, P X_train, P y_train], Inr clf),
         (''.score'', [P clf, P X_test, P y_test], Inr (VFloat (3 / 4)))}
          \<subseteq> set (log (snd (run demo [])))
        \<and> unpack2 mt = Inr (mask', template)
        \<and> py_index dimsize 0 = Inr x
        \<and> py_index dimsize 1 = Inr y
        \<and> py_index dimsize 2 = Inr z
        \<and> py_getitem_str noise_dict ''max_activity'' = Inr max_activity
        \<and> py_getitem_str noise_dict ''sfnr'' = Inr sfnr
        \<and> unpack4 split = Inr (X_train, X_test, y_train, y_test))"
proof -
  have r: "run demo [] = (Inr (VFloat (3 / 4)), snd (run demo []))"
    using demo_succeeds by (metis prod.collapse)
  show ?thesis
    by (rule conjI [OF demo_succeeds steps_delegated [OF r]])
qed

subsection \<open>The whole script and its files\<close>





















end
